theory Spec2Isabelle
  imports Main "HOL-Library.Word"
begin

unbundle bit_operations_syntax

section \<open>Bytes, integers and hexadecimal text\<close>

text \<open>
  The hashers pass bytes around as \<open>0x\<close>-prefixed hexadecimal text (\<open>HashValue\<close>,
  \<open>HexData\<close>, \<open>EthAddress\<close>). Here a hash and a call payload are the byte lists that
  their text spells, and an address is the 160-bit number that its text spells. Parsing
  that text (and rejecting text that spells nothing) is the libraries' work and happens
  before the values below exist. A \<open>bigint\<close> is an \<open>int\<close>, and so is a \<open>number\<close>, at its
  integral values; where a hasher hands one of them to an encoder, the value carries
  which of the two it is. \<open>hexlify\<close> gives a byte list back as the lower-case text that
  both libraries print.
\<close>

type_synonym byte = "8 word"
type_synonym address = "160 word"

definition be_bytes :: "nat \<Rightarrow> int \<Rightarrow> byte list" where
  "be_bytes n v = map (\<lambda>i. word_of_int (v div 256 ^ (n - 1 - i) mod 256)) [0..<n]"

definition be_value :: "byte list \<Rightarrow> int" where
  "be_value bs = foldl (\<lambda>acc b. 256 * acc + uint b) 0 bs"

definition hex_digit :: "nat \<Rightarrow> char" where
  "hex_digit n = ''0123456789abcdef'' ! n"

definition hex_byte :: "byte \<Rightarrow> string" where
  "hex_byte b = [hex_digit (unat b div 16), hex_digit (unat b mod 16)]"

definition hexlify :: "byte list \<Rightarrow> string" where
  "hexlify bs = ''0x'' @ concat (map hex_byte bs)"

text \<open>
  \<open>ethers.toUtf8Bytes\<close> gives the UTF-8 bytes of a text, and viem's \<open>toHex\<close> of a
  string gives the same bytes (as hexadecimal text). A \<open>char\<close> is a code point below
  256: one byte below 128, two bytes from 128 on.
\<close>

definition toUtf8Bytes :: "string \<Rightarrow> byte list" where
  "toUtf8Bytes s = concat (map (\<lambda>c. let n = (of_char c :: nat)
                                     in if n < 128 then [of_nat n]
                                        else [of_nat (192 + n div 64), of_nat (128 + n mod 64)]) s)"

definition toHex :: "string \<Rightarrow> byte list" where
  "toHex s = toUtf8Bytes s"

text \<open>
  What the libraries throw, as values: a \<open>number\<close> outside the safe integer range
  (ethers: overflow), a number that does not fit its ABI type, a \<open>bytes32\<close> that is not
  32 bytes, data that ends before a word does, a word too large for the width it is
  read at (ethers: numeric fault), text that spells no bytes, bytes that are not UTF-8
  (with the decoder's reason).
\<close>

datatype utf8_reason =
  UNEXPECTED_CONTINUE | BAD_PREFIX | OVERRUN | MISSING_CONTINUE | OUT_OF_RANGE
  | UTF16_SURROGATE | OVERLONG

datatype lib_error =
  OVERFLOW | VALUE_OUT_OF_BOUNDS | INCORRECT_DATA_LENGTH | BUFFER_OVERRUN | NUMERIC_FAULT
  | INVALID_BYTESLIKE | INVALID_UTF8 utf8_reason

section \<open>Keccak-256\<close>

text \<open>
  \<open>ethers.keccak256\<close> and viem's \<open>keccak256\<close> are library functions; both compute
  Keccak-256, the sponge over the permutation Keccak-f[1600] with a rate of 136 bytes,
  the padding byte \<open>0x01\<close> and an output of 32 bytes. The state is 25 lanes of 64 bits,
  lane \<open>(x, y)\<close> at index \<open>x + 5 * y\<close>; a lane is the list of its bits, lowest first,
  so that the bits of a block are the bits of its bytes in order.
\<close>

type_synonym lane = "bool list"
type_synonym kstate = "lane list"

definition xor_lane :: "lane \<Rightarrow> lane \<Rightarrow> lane" where
  "xor_lane a b = map2 (\<lambda>x y. x \<noteq> y) a b"

definition xor5 :: "lane \<Rightarrow> lane \<Rightarrow> lane \<Rightarrow> lane \<Rightarrow> lane \<Rightarrow> lane" where
  "xor5 a b c d e = xor_lane a (xor_lane b (xor_lane c (xor_lane d e)))"

definition chi_lane :: "lane \<Rightarrow> lane \<Rightarrow> lane \<Rightarrow> lane" where
  "chi_lane a b c = xor_lane a (map2 (\<lambda>x y. \<not> x \<and> y) b c)"

text \<open>Rotation of a lane by \<open>n\<close> places towards the high bits.\<close>

definition rotl_lane :: "nat \<Rightarrow> lane \<Rightarrow> lane" where
  "rotl_lane n a = drop (64 - n) a @ take (64 - n) a"

text \<open>The step \<open>\<theta>\<close>: column parities, their combination, and its addition to every lane.\<close>

definition theta_c :: "kstate \<Rightarrow> lane list" where
  "theta_c A = map (\<lambda>x. xor5 (A ! x) (A ! (x + 5)) (A ! (x + 10)) (A ! (x + 15)) (A ! (x + 20))) [0..<5]"

definition theta_d :: "lane list \<Rightarrow> lane list" where
  "theta_d C = map (\<lambda>x. xor_lane (C ! ((x + 4) mod 5)) (rotl_lane 1 (C ! ((x + 1) mod 5)))) [0..<5]"

definition theta_apply :: "kstate \<Rightarrow> lane list \<Rightarrow> kstate" where
  "theta_apply A D = map (\<lambda>i. xor_lane (A ! i) (D ! (i mod 5))) [0..<25]"

definition theta :: "kstate \<Rightarrow> kstate" where
  "theta A = theta_apply A (theta_d (theta_c A))"

text \<open>
  The steps \<open>\<rho>\<close> and \<open>\<pi>\<close>: lane \<open>(x, y)\<close> is rotated by its offset and moved to
  \<open>(y, 2 * x + 3 * y)\<close>; read backwards, the lane at \<open>(X, Y)\<close> comes from
  \<open>(X + 3 * Y, X)\<close>.
\<close>

definition rho_offsets :: "nat list" where
  "rho_offsets = [0, 1, 62, 28, 27, 36, 44, 6, 55, 20, 3, 10, 43, 25, 39, 41, 45, 15, 21, 8, 18, 2, 61, 56, 14]"

definition rho_pi :: "kstate \<Rightarrow> kstate" where
  "rho_pi A = map (\<lambda>i. let x = (i mod 5 + 3 * (i div 5)) mod 5; y = i mod 5
                         in rotl_lane (rho_offsets ! (x + 5 * y)) (A ! (x + 5 * y))) [0..<25]"

definition chi :: "kstate \<Rightarrow> kstate" where
  "chi B = map (\<lambda>i. let x = i mod 5; y = i div 5
                      in chi_lane (B ! i) (B ! ((x + 1) mod 5 + 5 * y)) (B ! ((x + 2) mod 5 + 5 * y))) [0..<25]"

definition word_lane :: "64 word \<Rightarrow> lane" where
  "word_lane w = map (bit w) [0..<64]"

definition iota :: "64 word \<Rightarrow> kstate \<Rightarrow> kstate" where
  "iota rc A = (case A of [] \<Rightarrow> [] | a # as \<Rightarrow> xor_lane a (word_lane rc) # as)"

definition round_constants :: "64 word list" where
  "round_constants = [0x0000000000000001, 0x0000000000008082, 0x800000000000808A, 0x8000000080008000,
     0x000000000000808B, 0x0000000080000001, 0x8000000080008081, 0x8000000000008009,
     0x000000000000008A, 0x0000000000000088, 0x0000000080008009, 0x000000008000000A,
     0x000000008000808B, 0x800000000000008B, 0x8000000000008089, 0x8000000000008003,
     0x8000000000008002, 0x8000000000000080, 0x000000000000800A, 0x800000008000000A,
     0x8000000080008081, 0x8000000000008080, 0x0000000080000001, 0x8000000080008008]"

definition keccak_round :: "64 word \<Rightarrow> kstate \<Rightarrow> kstate" where
  "keccak_round rc A = iota rc (chi (rho_pi (theta A)))"

definition keccak_f :: "kstate \<Rightarrow> kstate" where
  "keccak_f A = foldl (\<lambda>S rc. keccak_round rc S) A round_constants"

text \<open>The sponge: padding to whole blocks of 136 bytes, absorbing, and the first 32 bytes out.\<close>

definition byte_bits :: "byte \<Rightarrow> bool list" where
  "byte_bits b = map (bit b) [0..<8]"

definition bits_byte :: "bool list \<Rightarrow> byte" where
  "bits_byte bs = horner_sum of_bool 2 bs"

definition zero_lane :: lane where
  "zero_lane = replicate 64 False"

definition keccak_pad :: "byte list \<Rightarrow> byte list" where
  "keccak_pad m = (let q = 136 - length m mod 136
                   in m @ (if q = 1 then [0x81] else [0x01] @ replicate (q - 2) 0 @ [0x80]))"

definition block_lanes :: "byte list \<Rightarrow> lane list" where
  "block_lanes blk = map (\<lambda>i. concat (map byte_bits (take 8 (drop (8 * i) blk)))) [0..<17]
                     @ replicate 8 zero_lane"

definition xor_state :: "kstate \<Rightarrow> kstate \<Rightarrow> kstate" where
  "xor_state A B = map2 xor_lane A B"

function absorb :: "kstate \<Rightarrow> byte list \<Rightarrow> kstate" where
  "absorb S bs = (if bs = [] then S
                  else absorb (keccak_f (xor_state S (block_lanes (take 136 bs)))) (drop 136 bs))"
  by pat_completeness auto
termination
  by (relation "measure (\<lambda>(S, bs). length bs)") auto

declare absorb.simps [simp del]

definition lane_bytes :: "lane \<Rightarrow> byte list" where
  "lane_bytes l = map (\<lambda>i. bits_byte (take 8 (drop (8 * i) l))) [0..<8]"

definition squeeze :: "kstate \<Rightarrow> byte list" where
  "squeeze S = concat (map lane_bytes (take 4 S))"

definition keccak256 :: "byte list \<Rightarrow> byte list" where
  "keccak256 m = squeeze (absorb (replicate 25 zero_lane) (keccak_pad m))"

section \<open>Contract ABI encoding of static values\<close>

text \<open>
  The ABI encoders are library functions: \<open>AbiCoder.encode\<close> of ethers and
  \<open>encodeAbiParameters\<close> of viem. For the static types used here both give one 32-byte
  word per value and concatenate the words in order: an address is left-padded with
  zero bytes, an unsigned integer is a big-endian word, a \<open>bytes32\<close> is its 32 bytes. A
  value that does not fit its type is refused (the library throws), never truncated.

  An integer reaches an encoder as a \<open>number\<close> or as a \<open>bigint\<close>, and the two libraries
  differ on a \<open>number\<close>. ethers converts every numeric argument with \<open>getBigInt\<close>, which
  refuses a \<open>number\<close> of a magnitude above \<open>maxValue = 0x1fffffffffffff\<close> before the
  bounds of the ABI type are looked at. viem compares the value with the bounds of the
  type and converts it with \<open>BigInt\<close>, whatever its magnitude.
\<close>

datatype Numeric = Number int | BigInt int

datatype abi_arg = Bytes32 "byte list" | Address address | Uint256 Numeric | Uint8 Numeric

fun encode_words :: "(abi_arg \<Rightarrow> lib_error + byte list) \<Rightarrow> abi_arg list \<Rightarrow> lib_error + byte list" where
  "encode_words enc [] = Inr []"
| "encode_words enc (a # as) =
     (case enc a of
        Inl e \<Rightarrow> Inl e
      | Inr w \<Rightarrow> (case encode_words enc as of Inl e \<Rightarrow> Inl e | Inr ws \<Rightarrow> Inr (w @ ws)))"

subsection \<open>ethers\<close>

definition maxValue :: int where
  "maxValue = 0x1fffffffffffff"

fun getBigInt :: "Numeric \<Rightarrow> lib_error + int" where
  "getBigInt (BigInt v) = Inr v"
| "getBigInt (Number v) = (if - maxValue \<le> v \<and> v \<le> maxValue then Inr v else Inl OVERFLOW)"

text \<open>The coder of an unsigned integer of \<open>sz\<close> bytes.\<close>

definition NumberCoder_encode :: "nat \<Rightarrow> Numeric \<Rightarrow> lib_error + byte list" where
  "NumberCoder_encode sz v =
     (case getBigInt v of
        Inl e \<Rightarrow> Inl e
      | Inr n \<Rightarrow> if n < 0 \<or> n > 2 ^ (8 * sz) - 1 then Inl VALUE_OUT_OF_BOUNDS
                else Inr (be_bytes 32 n))"

fun encode_arg :: "abi_arg \<Rightarrow> lib_error + byte list" where
  "encode_arg (Bytes32 bs) = (if length bs = 32 then Inr bs else Inl INCORRECT_DATA_LENGTH)"
| "encode_arg (Address a) = Inr (replicate 12 0 @ be_bytes 20 (uint a))"
| "encode_arg (Uint256 v) = NumberCoder_encode 32 v"
| "encode_arg (Uint8 v) = NumberCoder_encode 1 v"

definition abi_encode :: "abi_arg list \<Rightarrow> lib_error + byte list" where
  "abi_encode args = encode_words encode_arg args"

subsection \<open>viem\<close>

fun numeric_value :: "Numeric \<Rightarrow> int" where
  "numeric_value (BigInt v) = v"
| "numeric_value (Number v) = v"

text \<open>The encoder of an unsigned integer of \<open>sz\<close> bits.\<close>

definition encodeNumber :: "nat \<Rightarrow> Numeric \<Rightarrow> lib_error + byte list" where
  "encodeNumber sz v =
     (let n = numeric_value v
      in if n > 2 ^ sz - 1 \<or> n < 0 then Inl VALUE_OUT_OF_BOUNDS else Inr (be_bytes 32 n))"

fun prepareParam :: "abi_arg \<Rightarrow> lib_error + byte list" where
  "prepareParam (Bytes32 bs) = (if length bs = 32 then Inr bs else Inl INCORRECT_DATA_LENGTH)"
| "prepareParam (Address a) = Inr (replicate 12 0 @ be_bytes 20 (uint a))"
| "prepareParam (Uint256 v) = encodeNumber 256 v"
| "prepareParam (Uint8 v) = encodeNumber 8 v"

definition encodeAbiParameters :: "abi_arg list \<Rightarrow> lib_error + byte list" where
  "encodeAbiParameters args = encode_words prepareParam args"

section \<open>The two hashers\<close>

datatype Operation = Call | DelegateCall

fun operation_number :: "Operation \<Rightarrow> int" where
  "operation_number Call = 0"
| "operation_number DelegateCall = 1"

record SafeTransactionParams =
  to :: address
  "value" :: int
  data :: "byte list"
  operation :: Operation
  safeTxGas :: int
  baseGas :: int
  gasPrice :: int
  gasToken :: address
  refundReceiver :: address
  nonce :: int

record DomainData =
  chainId :: int
  verifyingContract :: address

text \<open>The four private fields that both classes declare and set in their constructor.\<close>

record Hasher =
  DOMAIN_SEPARATOR_TYPEHASH :: "byte list"
  SAFE_TX_TYPEHASH :: "byte list"
  domain :: DomainData
  domainHash :: "byte list"

record TypeHashes =
  safeTxTypeHash :: "byte list"
  domainSeparatorTypeHash :: "byte list"

definition DOMAIN_TYPE :: string where
  "DOMAIN_TYPE = ''EIP712Domain(uint256 chainId,address verifyingContract)''"

definition SAFE_TX_TYPE :: string where
  "SAFE_TX_TYPE = ''SafeTx(address to,uint256 value,bytes data,uint8 operation,uint256 safeTxGas,uint256 baseGas,uint256 gasPrice,address gasToken,address refundReceiver,uint256 nonce)''"

subsection \<open>EthersSafeTransactionHasher\<close>

text \<open>
  \<open>calculateDomainHash\<close> runs inside the constructor, when the type hash and the
  domain are set and the domain hash is not: it takes the two fields it reads. The chain
  id, the operation and the nonce are \<open>number\<close>s and reach the encoder as they are; the
  value and the three gas fields are \<open>bigint\<close>s.
\<close>

definition Ethers_calculateDomainHash :: "byte list \<Rightarrow> DomainData \<Rightarrow> lib_error + byte list" where
  "Ethers_calculateDomainHash typehash d =
     (case abi_encode [Bytes32 typehash, Uint256 (Number (chainId d)),
                       Address (verifyingContract d)] of
        Inl e \<Rightarrow> Inl e
      | Inr encodedDomain \<Rightarrow> Inr (keccak256 encodedDomain))"

definition Ethers_constructor :: "DomainData \<Rightarrow> lib_error + Hasher" where
  "Ethers_constructor d =
     (let dth = keccak256 (toUtf8Bytes DOMAIN_TYPE);
          sth = keccak256 (toUtf8Bytes SAFE_TX_TYPE)
      in case Ethers_calculateDomainHash dth d of
           Inl e \<Rightarrow> Inl e
         | Inr dh \<Rightarrow> Inr \<lparr>DOMAIN_SEPARATOR_TYPEHASH = dth, SAFE_TX_TYPEHASH = sth,
                          domain = d, domainHash = dh\<rparr>)"

definition Ethers_getTypeHashes :: "Hasher \<Rightarrow> TypeHashes" where
  "Ethers_getTypeHashes h =
     \<lparr>safeTxTypeHash = SAFE_TX_TYPEHASH h, domainSeparatorTypeHash = DOMAIN_SEPARATOR_TYPEHASH h\<rparr>"

definition Ethers_getDomainHash :: "Hasher \<Rightarrow> byte list" where
  "Ethers_getDomainHash h = domainHash h"

definition Ethers_calculateRawSafeTxHash :: "Hasher \<Rightarrow> SafeTransactionParams \<Rightarrow> lib_error + byte list" where
  "Ethers_calculateRawSafeTxHash h tx =
     (let dataHash = keccak256 (data tx)
      in case abi_encode
                [Bytes32 (SAFE_TX_TYPEHASH h), Address (to tx), Uint256 (BigInt (value tx)),
                 Bytes32 dataHash, Uint8 (Number (operation_number (operation tx))),
                 Uint256 (BigInt (safeTxGas tx)), Uint256 (BigInt (baseGas tx)),
                 Uint256 (BigInt (gasPrice tx)), Address (gasToken tx),
                 Address (refundReceiver tx), Uint256 (Number (nonce tx))] of
           Inl e \<Rightarrow> Inl e
         | Inr encodedData \<Rightarrow> Inr (keccak256 encodedData))"

definition Ethers_calculateFinalSafeTxHash :: "Hasher \<Rightarrow> SafeTransactionParams \<Rightarrow> lib_error + byte list" where
  "Ethers_calculateFinalSafeTxHash h tx =
     (case Ethers_calculateRawSafeTxHash h tx of
        Inl e \<Rightarrow> Inl e
      | Inr rawSafeTxHash \<Rightarrow>
          (let packedData = concat [[0x19], [0x01], domainHash h, rawSafeTxHash]
           in Inr (keccak256 packedData)))"

definition Ethers_calculateMessageHash :: "Hasher \<Rightarrow> SafeTransactionParams \<Rightarrow> lib_error + byte list" where
  "Ethers_calculateMessageHash h tx = Ethers_calculateRawSafeTxHash h tx"

definition Ethers_calculateSafeTransactionHash :: "Hasher \<Rightarrow> SafeTransactionParams \<Rightarrow> lib_error + byte list" where
  "Ethers_calculateSafeTransactionHash h tx = Ethers_calculateFinalSafeTxHash h tx"

subsection \<open>ViemSafeTransactionHasher\<close>

text \<open>
  \<open>toViemParams\<close> and \<open>toViemDomain\<close> are type casts. The chain id and the nonce go
  through \<open>BigInt\<close> on their way to the encoder, and \<open>BigInt\<close> of an integral \<open>number\<close>
  is that integer; the operation reaches the encoder as a \<open>number\<close>.
\<close>

definition Viem_calculateDomainHash :: "byte list \<Rightarrow> DomainData \<Rightarrow> lib_error + byte list" where
  "Viem_calculateDomainHash typehash d =
     (case encodeAbiParameters [Bytes32 typehash, Uint256 (BigInt (chainId d)),
                                 Address (verifyingContract d)] of
        Inl e \<Rightarrow> Inl e
      | Inr encoded \<Rightarrow> Inr (keccak256 encoded))"

definition Viem_constructor :: "DomainData \<Rightarrow> lib_error + Hasher" where
  "Viem_constructor d =
     (let dth = keccak256 (toHex DOMAIN_TYPE);
          sth = keccak256 (toHex SAFE_TX_TYPE)
      in case Viem_calculateDomainHash dth d of
           Inl e \<Rightarrow> Inl e
         | Inr dh \<Rightarrow> Inr \<lparr>DOMAIN_SEPARATOR_TYPEHASH = dth, SAFE_TX_TYPEHASH = sth,
                          domain = d, domainHash = dh\<rparr>)"

definition Viem_getTypeHashes :: "Hasher \<Rightarrow> TypeHashes" where
  "Viem_getTypeHashes h =
     \<lparr>safeTxTypeHash = SAFE_TX_TYPEHASH h, domainSeparatorTypeHash = DOMAIN_SEPARATOR_TYPEHASH h\<rparr>"

definition Viem_getDomainHash :: "Hasher \<Rightarrow> byte list" where
  "Viem_getDomainHash h = domainHash h"

definition Viem_calculateRawSafeTxHash :: "Hasher \<Rightarrow> SafeTransactionParams \<Rightarrow> lib_error + byte list" where
  "Viem_calculateRawSafeTxHash h tx =
     (let viemTx = tx;
          dataHash = keccak256 (data viemTx)
      in case encodeAbiParameters
                [Bytes32 (SAFE_TX_TYPEHASH h), Address (to viemTx), Uint256 (BigInt (value viemTx)),
                 Bytes32 dataHash, Uint8 (Number (operation_number (operation viemTx))),
                 Uint256 (BigInt (safeTxGas viemTx)), Uint256 (BigInt (baseGas viemTx)),
                 Uint256 (BigInt (gasPrice viemTx)), Address (gasToken viemTx),
                 Address (refundReceiver viemTx), Uint256 (BigInt (nonce viemTx))] of
           Inl e \<Rightarrow> Inl e
         | Inr encoded \<Rightarrow> Inr (keccak256 encoded))"

definition Viem_calculateFinalSafeTxHash :: "Hasher \<Rightarrow> SafeTransactionParams \<Rightarrow> lib_error + byte list" where
  "Viem_calculateFinalSafeTxHash h tx =
     (case Viem_calculateRawSafeTxHash h tx of
        Inl e \<Rightarrow> Inl e
      | Inr rawSafeTxHash \<Rightarrow>
          (let packedData = concat [[0x19], [0x01], domainHash h, rawSafeTxHash]
           in Inr (keccak256 packedData)))"

definition Viem_calculateMessageHash :: "Hasher \<Rightarrow> SafeTransactionParams \<Rightarrow> lib_error + byte list" where
  "Viem_calculateMessageHash h tx = Viem_calculateRawSafeTxHash h tx"

definition Viem_calculateSafeTransactionHash :: "Hasher \<Rightarrow> SafeTransactionParams \<Rightarrow> lib_error + byte list" where
  "Viem_calculateSafeTransactionHash h tx = Viem_calculateFinalSafeTxHash h tx"

subsection \<open>getAllHashes\<close>

record AllHashes =
  safeTxHash :: "byte list"
  domainHash :: "byte list"
  messageHash :: "byte list"

definition Ethers_getAllHashes :: "Hasher \<Rightarrow> SafeTransactionParams \<Rightarrow> lib_error + AllHashes" where
  "Ethers_getAllHashes h tx =
     (case Ethers_calculateRawSafeTxHash h tx of
        Inl e \<Rightarrow> Inl e
      | Inr mh \<Rightarrow>
          (case Ethers_calculateFinalSafeTxHash h tx of
             Inl e \<Rightarrow> Inl e
           | Inr sh \<Rightarrow> Inr \<lparr>safeTxHash = sh, domainHash = Hasher.domainHash h, messageHash = mh\<rparr>))"

definition Viem_getAllHashes :: "Hasher \<Rightarrow> SafeTransactionParams \<Rightarrow> lib_error + AllHashes" where
  "Viem_getAllHashes h tx =
     (case Viem_calculateRawSafeTxHash h tx of
        Inl e \<Rightarrow> Inl e
      | Inr mh \<Rightarrow>
          (case Viem_calculateFinalSafeTxHash h tx of
             Inl e \<Rightarrow> Inl e
           | Inr sh \<Rightarrow> Inr \<lparr>safeTxHash = sh, domainHash = Hasher.domainHash h, messageHash = mh\<rparr>))"

text \<open>What the tests do: \<open>new Hasher(domain).getAllHashes(tx)\<close>, the hashes as text.\<close>

definition hashes_text :: "AllHashes \<Rightarrow> string \<times> string \<times> string" where
  "hashes_text r = (hexlify (domainHash r), hexlify (messageHash r), hexlify (safeTxHash r))"

definition Ethers_hashes :: "DomainData \<Rightarrow> SafeTransactionParams \<Rightarrow> lib_error + string \<times> string \<times> string" where
  "Ethers_hashes d tx =
     (case Ethers_constructor d of
        Inl e \<Rightarrow> Inl e
      | Inr h \<Rightarrow> (case Ethers_getAllHashes h tx of Inl e \<Rightarrow> Inl e | Inr r \<Rightarrow> Inr (hashes_text r)))"

definition Viem_hashes :: "DomainData \<Rightarrow> SafeTransactionParams \<Rightarrow> lib_error + string \<times> string \<times> string" where
  "Viem_hashes d tx =
     (case Viem_constructor d of
        Inl e \<Rightarrow> Inl e
      | Inr h \<Rightarrow> (case Viem_getAllHashes h tx of Inl e \<Rightarrow> Inl e | Inr r \<Rightarrow> Inr (hashes_text r)))"

section \<open>TransactionDataDecoder\<close>

text \<open>
  A JavaScript string is a list of UTF-16 code units; \<open>js\<close> writes an ASCII literal
  as one. \<open>length\<close> counts code units, as \<open>.length\<close> does.
\<close>

type_synonym jschar = "16 word"
type_synonym jsstring = "jschar list"

definition js :: "string \<Rightarrow> jsstring" where
  "js s = map of_char s"

definition startsWith :: "jsstring \<Rightarrow> jsstring \<Rightarrow> bool" where
  "startsWith s p = (take (length p) s = p)"

subsection \<open>validateHexData\<close>

record ValidationResult =
  valid :: bool
  error :: "jsstring option"

text \<open>The character class \<open>[0-9a-fA-F]\<close> and the test of \<open>/^0x[0-9a-fA-F]*$/\<close>.\<close>

definition is_hex_char :: "jschar \<Rightarrow> bool" where
  "is_hex_char c = ((0x30 \<le> c \<and> c \<le> 0x39) \<or> (0x61 \<le> c \<and> c \<le> 0x66) \<or> (0x41 \<le> c \<and> c \<le> 0x46))"

definition hexRegex_test :: "jsstring \<Rightarrow> bool" where
  "hexRegex_test s = (take 2 s = js ''0x'' \<and> list_all is_hex_char (drop 2 s))"

text \<open>
  The parameter is typed \<open>string\<close>, so the branch \<open>typeof data !== "string"\<close> is never
  taken; \<open>!data\<close> holds of the empty string only.
\<close>

definition validateHexData :: "jsstring \<Rightarrow> ValidationResult" where
  "validateHexData hexData =
     (if hexData = [] then \<lparr>valid = False, error = Some (js ''Data is empty'')\<rparr>
      else if \<not> startsWith hexData (js ''0x'') then
        \<lparr>valid = False, error = Some (js ''Hex data must start with 0x'')\<rparr>
      else if \<not> hexRegex_test hexData then
        \<lparr>valid = False, error = Some (js ''Data contains invalid hex characters'')\<rparr>
      else if (int (length hexData) - 2) mod 2 \<noteq> 0 then
        \<lparr>valid = False, error = Some (js ''Hex data must have even length'')\<rparr>
      else \<lparr>valid = True, error = None\<rparr>)"

subsection \<open>The library functions the decoder calls\<close>

text \<open>
  \<open>ethers.getBytes\<close>, behind \<open>dataSlice\<close> and \<open>AbiCoder.decode\<close>: the bytes that
  \<open>0x\<close> and an even number of hexadecimal digits spell; anything else is refused.
\<close>

definition hex_value :: "jschar \<Rightarrow> nat option" where
  "hex_value c =
     (if 0x30 \<le> c \<and> c \<le> 0x39 then Some (unat c - 0x30)
      else if 0x61 \<le> c \<and> c \<le> 0x66 then Some (unat c - 0x61 + 10)
      else if 0x41 \<le> c \<and> c \<le> 0x46 then Some (unat c - 0x41 + 10)
      else None)"

fun hex_pairs :: "jsstring \<Rightarrow> byte list option" where
  "hex_pairs [] = Some []"
| "hex_pairs [c] = None"
| "hex_pairs (c # d # rest) =
     (case hex_value c of
        None \<Rightarrow> None
      | Some h \<Rightarrow>
          (case hex_value d of
             None \<Rightarrow> None
           | Some l \<Rightarrow>
               (case hex_pairs rest of
                  None \<Rightarrow> None
                | Some bs \<Rightarrow> Some (of_nat (16 * h + l) # bs))))"

definition getBytes :: "jsstring \<Rightarrow> lib_error + byte list" where
  "getBytes s =
     (if startsWith s (js ''0x'') then
        (case hex_pairs (drop 2 s) of None \<Rightarrow> Inl INVALID_BYTESLIKE | Some bs \<Rightarrow> Inr bs)
      else Inl INVALID_BYTESLIKE)"

text \<open>\<open>ethers.dataSlice(data, start)\<close>: the bytes of \<open>data\<close> from \<open>start\<close> on.\<close>

definition dataSlice :: "jsstring \<Rightarrow> nat \<Rightarrow> lib_error + byte list" where
  "dataSlice s start = (case getBytes s of Inl e \<Rightarrow> Inl e | Inr bs \<Rightarrow> Inr (drop start bs))"

text \<open>
  \<open>ethers.toUtf8String\<close> with its default error handling: the first malformed
  sequence ends the decoding with an error. A lead byte announces one to three
  continuation bytes; the code point must be at most \<open>0x10FFFF\<close>, no surrogate and not
  encodable in fewer bytes. A code point above \<open>0xFFFF\<close> becomes a surrogate pair.
\<close>

definition utf8_prefix :: "byte \<Rightarrow> utf8_reason + nat \<times> nat" where
  "utf8_prefix c =
     (if c AND 0xE0 = 0xC0 then Inr (1, 0x7F)
      else if c AND 0xF0 = 0xE0 then Inr (2, 0x7FF)
      else if c AND 0xF8 = 0xF0 then Inr (3, 0xFFFF)
      else if c AND 0xC0 = 0x80 then Inl UNEXPECTED_CONTINUE
      else Inl BAD_PREFIX)"

fun continuation :: "nat \<Rightarrow> byte list \<Rightarrow> nat option" where
  "continuation res [] = Some res"
| "continuation res (b # bs) =
     (if b AND 0xC0 = 0x80 then continuation (res * 64 + unat (b AND 0x3F)) bs else None)"

fun getUtf8CodePoints :: "byte list \<Rightarrow> utf8_reason + nat list" where
  "getUtf8CodePoints [] = Inr []"
| "getUtf8CodePoints (c # bs) =
     (if c < 0x80 then
        (case getUtf8CodePoints bs of Inl e \<Rightarrow> Inl e | Inr cps \<Rightarrow> Inr (unat c # cps))
      else
        (case utf8_prefix c of
           Inl e \<Rightarrow> Inl e
         | Inr (extraLength, overlongMask) \<Rightarrow>
             if length bs < extraLength then Inl OVERRUN
             else
               (case continuation (unat c mod 2 ^ (7 - extraLength)) (take extraLength bs) of
                  None \<Rightarrow> Inl MISSING_CONTINUE
                | Some res \<Rightarrow>
                    if res > 0x10FFFF then Inl OUT_OF_RANGE
                    else if 0xD800 \<le> res \<and> res \<le> 0xDFFF then Inl UTF16_SURROGATE
                    else if res \<le> overlongMask then Inl OVERLONG
                    else
                      (case getUtf8CodePoints (drop extraLength bs) of
                         Inl e \<Rightarrow> Inl e
                       | Inr cps \<Rightarrow> Inr (res # cps)))))"

definition utf16_units :: "nat \<Rightarrow> jsstring" where
  "utf16_units cp =
     (if cp \<le> 0xFFFF then [of_nat cp]
      else [of_nat (0xD800 + (cp - 0x10000) div 1024 mod 1024),
            of_nat (0xDC00 + (cp - 0x10000) mod 1024)])"

definition toUtf8String :: "byte list \<Rightarrow> lib_error + jsstring" where
  "toUtf8String bs =
     (case getUtf8CodePoints bs of
        Inl r \<Rightarrow> Inl (INVALID_UTF8 r)
      | Inr cps \<Rightarrow> Inr (concat (map utf16_units cps)))"

text \<open>
  \<open>String.prototype.trim\<close> removes white space and line terminators from both ends;
  \<open>.replace(/\0/g, "")\<close> removes every NUL.
\<close>

definition is_white_space :: "jschar \<Rightarrow> bool" where
  "is_white_space c =
     (c \<in> {0x09, 0x0A, 0x0B, 0x0C, 0x0D, 0x20, 0xA0, 0x1680, 0x2028, 0x2029, 0x202F, 0x205F,
           0x3000, 0xFEFF}
      \<or> (0x2000 \<le> c \<and> c \<le> 0x200A))"

definition trim :: "jsstring \<Rightarrow> jsstring" where
  "trim s = rev (dropWhile is_white_space (rev (dropWhile is_white_space s)))"

definition removeNul :: "jsstring \<Rightarrow> jsstring" where
  "removeNul s = filter (\<lambda>c. c \<noteq> 0) s"

text \<open>
  \<open>AbiCoder.decode\<close> of ethers for a list of the static types \<open>address\<close> and
  \<open>uint256\<close>. The values are read positionally, one 32-byte word each; bytes after
  the last word are not read. Decoding throws when the data ends before the last word
  does. An unsigned integer is the big-endian value of its word. An address is the
  value of its word read at a width of 20 bytes: when the 12 high bytes are not zero
  the coder's error is not thrown but kept in the result in place of the value, and
  would be thrown when that item is read. An address value is the 160-bit number (the
  mixed-case text that the library prints for it is that number up to the case of its
  digits).
\<close>

datatype abi_type = address_t | uint256_t

datatype abi_value = AddressValue address | UintValue int | DeferredError lib_error

fun type_name :: "abi_type \<Rightarrow> jsstring" where
  "type_name address_t = js ''address''"
| "type_name uint256_t = js ''uint256''"

fun decode_word :: "abi_type \<Rightarrow> byte list \<Rightarrow> abi_value" where
  "decode_word address_t w =
     (if be_value w < 2 ^ 160 then AddressValue (word_of_int (be_value w))
      else DeferredError NUMERIC_FAULT)"
| "decode_word uint256_t w = UintValue (be_value w)"

fun decode_words :: "abi_type list \<Rightarrow> byte list \<Rightarrow> lib_error + abi_value list" where
  "decode_words [] bs = Inr []"
| "decode_words (t # ts) bs =
     (if length bs < 32 then Inl BUFFER_OVERRUN
      else (case decode_words ts (drop 32 bs) of
              Inl e \<Rightarrow> Inl e
            | Inr vs \<Rightarrow> Inr (decode_word t (take 32 bs) # vs)))"

definition abi_decode :: "abi_type list \<Rightarrow> jsstring \<Rightarrow> lib_error + abi_value list" where
  "abi_decode types paramData =
     (case getBytes paramData of Inl e \<Rightarrow> Inl e | Inr bs \<Rightarrow> decode_words types bs)"

subsection \<open>decodeAsciiData and decodeFunctionCall\<close>

text \<open>
  The text of a library error (\<open>error.message\<close>) is the library's own; the two
  functions take it as the parameter \<open>message\<close>.
\<close>

record DecodedResult =
  success :: bool
  "value" :: jsstring
  error :: "jsstring option"

record DecodedFunctionResult = DecodedResult +
  signature :: "jsstring option"
  name :: "jsstring option"
  params :: "abi_value list option"

definition decodeAsciiData :: "(lib_error \<Rightarrow> jsstring) \<Rightarrow> jsstring \<Rightarrow> DecodedResult" where
  "decodeAsciiData message encodedData =
     (let validation = validateHexData encodedData
      in if \<not> valid validation then
           \<lparr>success = False, value = [], error = ValidationResult.error validation\<rparr>
         else if length encodedData < 66 then
           \<lparr>success = False, value = [],
            error = Some (js ''Data too short, minimum 32 bytes required'')\<rparr>
         else
           (case dataSlice encodedData 32 of
              Inl e \<Rightarrow>
                \<lparr>success = False, value = [],
                 error = Some (js ''Failed to decode data: '' @ message e)\<rparr>
            | Inr sliced \<Rightarrow>
                (case toUtf8String sliced of
                   Inl e \<Rightarrow>
                     \<lparr>success = False, value = [],
                      error = Some (js ''Failed to decode data: '' @ message e)\<rparr>
                 | Inr decoded \<Rightarrow>
                     \<lparr>success = True, value = removeNul (trim decoded), error = None\<rparr>)))"

definition knownFunctions :: "(jsstring \<times> jsstring \<times> abi_type list) list" where
  "knownFunctions =
     [(js ''0xa9059cbb'', js ''transfer'', [address_t, uint256_t]),
      (js ''0x23b872dd'', js ''transferFrom'', [address_t, address_t, uint256_t]),
      (js ''0x095ea7b3'', js ''approve'', [address_t, uint256_t]),
      (js ''0x70a08231'', js ''balanceOf'', [address_t])]"

fun join :: "jsstring \<Rightarrow> jsstring list \<Rightarrow> jsstring" where
  "join sep [] = []"
| "join sep [x] = x"
| "join sep (x # y # ys) = x @ sep @ join sep (y # ys)"

text \<open>
  Nothing in the outer \<open>try\<close> block throws outside the inner one (a slice, a table,
  a lookup), so the outer \<open>catch\<close> is never entered and has no branch here.
\<close>

definition decodeFunctionCall :: "(lib_error \<Rightarrow> jsstring) \<Rightarrow> jsstring \<Rightarrow> DecodedFunctionResult" where
  "decodeFunctionCall message encodedData =
     (let validation = validateHexData encodedData
      in if \<not> valid validation then
           \<lparr>success = False, value = [], error = ValidationResult.error validation,
            signature = None, name = None, params = None\<rparr>
         else if length encodedData < 10 then
           \<lparr>success = False, value = [],
            error = Some (js ''Data too short, minimum 4 bytes required for function selector''),
            signature = None, name = None, params = None\<rparr>
         else
           (let functionSelector = take 10 encodedData
            in case map_of knownFunctions functionSelector of
                 Some (fname, types) \<Rightarrow>
                   (let paramData = js ''0x'' @ drop 10 encodedData
                    in case abi_decode types paramData of
                         Inr decodedParams \<Rightarrow>
                           \<lparr>success = True,
                            value = fname @ js ''('' @ join (js '','') (map type_name types) @ js '')'',
                            error = None, signature = Some functionSelector,
                            name = Some fname, params = Some decodedParams\<rparr>
                       | Inl e \<Rightarrow>
                           \<lparr>success = True, value = fname,
                            error = Some (js ''Identified function but failed to decode parameters: ''
                                          @ message e),
                            signature = Some functionSelector, name = Some fname,
                            params = None\<rparr>)
               | None \<Rightarrow>
                   \<lparr>success = True, value = functionSelector, error = None,
                    signature = Some functionSelector, name = None, params = None\<rparr>))"

section \<open>Well-formed records and the golden vector\<close>

text \<open>
  The records that a hasher has hashes for. The \<open>bigint\<close> fields must fit the unsigned
  256 bits they are encoded in. So must the chain id and the nonce in the viem hasher;
  in the ethers hasher, where they stay \<open>number\<close>s, they must be safe integers.
\<close>

definition uint256_ok :: "int \<Rightarrow> bool" where
  "uint256_ok v = (0 \<le> v \<and> v < 2 ^ 256)"

definition safe_number_ok :: "int \<Rightarrow> bool" where
  "safe_number_ok v = (0 \<le> v \<and> v \<le> maxValue)"

definition bigints_ok :: "SafeTransactionParams \<Rightarrow> bool" where
  "bigints_ok tx = (uint256_ok (SafeTransactionParams.value tx) \<and> uint256_ok (safeTxGas tx)
                    \<and> uint256_ok (baseGas tx) \<and> uint256_ok (gasPrice tx))"

definition Ethers_valid_domain :: "DomainData \<Rightarrow> bool" where
  "Ethers_valid_domain d = safe_number_ok (chainId d)"

definition Ethers_valid_tx :: "SafeTransactionParams \<Rightarrow> bool" where
  "Ethers_valid_tx tx = (bigints_ok tx \<and> safe_number_ok (nonce tx))"

definition Viem_valid_domain :: "DomainData \<Rightarrow> bool" where
  "Viem_valid_domain d = uint256_ok (chainId d)"

definition Viem_valid_tx :: "SafeTransactionParams \<Rightarrow> bool" where
  "Viem_valid_tx tx = (bigints_ok tx \<and> uint256_ok (nonce tx))"

text \<open>
  The domain and the transaction of the hasher tests and of the examples. They differ
  in the field \<open>to\<close> only, which is the parameter of \<open>goldenTx\<close>: the test file has the
  recipient of the transfer, the examples have the token contract.
\<close>

definition goldenDomain :: DomainData where
  "goldenDomain = \<lparr>chainId = 59144, verifyingContract = 0xDb73ba19F072D0Fbc865781Ba468A9F8B77aD2C4\<rparr>"

definition transferData :: "byte list" where
  "transferData =
    [0xa9, 0x05, 0x9c, 0xbb, 0x00, 0x00, 0x00, 0x00, 0x00, 0x00, 0x00, 0x00, 0x00, 0x00, 0x00, 0x00,
     0x8b, 0x4b, 0x26, 0x8a, 0x9a, 0xa7, 0x97, 0xfd, 0x60, 0x88, 0x9e, 0x88, 0xac, 0x7b, 0xe9, 0xa0,
     0xc4, 0xb3, 0x7f, 0xf4, 0x00, 0x00, 0x00, 0x00, 0x00, 0x00, 0x00, 0x00, 0x00, 0x00, 0x00, 0x00,
     0x00, 0x00, 0x00, 0x00, 0x00, 0x00, 0x00, 0x00, 0x00, 0x00, 0x00, 0x00, 0x00, 0x00, 0x00, 0x05,
     0x11, 0xb5, 0xac, 0x00]"

definition goldenTx :: "address \<Rightarrow> Operation \<Rightarrow> SafeTransactionParams" where
  "goldenTx recipient op =
     \<lparr>to = recipient, SafeTransactionParams.value = 0, data = transferData, operation = op,
      safeTxGas = 0, baseGas = 0, gasPrice = 0, gasToken = 0, refundReceiver = 0, nonce = 60\<rparr>"

definition testRecipient :: address where
  "testRecipient = 0x8b4B268a9aA797fD60889E88AC7bE9a0C4b37Ff4"

definition exampleRecipient :: address where
  "exampleRecipient = 0x176211869ca2b568f2a7d4ee941e073a821ee1ff"

text \<open>
  The same Safe on a chain whose id is \<open>2 ^ 53\<close>, the least positive integer that is
  not a safe integer.
\<close>

definition largeDomain :: DomainData where
  "largeDomain = \<lparr>chainId = 9007199254740992, verifyingContract = 0xDb73ba19F072D0Fbc865781Ba468A9F8B77aD2C4\<rparr>"

text \<open>\<open>new Hasher(domain).calculateRawSafeTxHash(tx)\<close>.\<close>

definition Ethers_messageHash :: "DomainData \<Rightarrow> SafeTransactionParams \<Rightarrow> lib_error + byte list" where
  "Ethers_messageHash d tx =
     (case Ethers_constructor d of Inl e \<Rightarrow> Inl e | Inr h \<Rightarrow> Ethers_calculateRawSafeTxHash h tx)"

definition Viem_messageHash :: "DomainData \<Rightarrow> SafeTransactionParams \<Rightarrow> lib_error + byte list" where
  "Viem_messageHash d tx =
     (case Viem_constructor d of Inl e \<Rightarrow> Inl e | Inr h \<Rightarrow> Viem_calculateRawSafeTxHash h tx)"

text \<open>
  The encoding of the struct in the words of the spec: the eleven fields in their fixed
  order, an address left-padded to 32 bytes, an integer as a big-endian 256-bit word.
  The word of the operation is a parameter: the spec has the single byte of the enum
  first and zero bytes after it (\<open>right_padded_operation\<close>); ABI encoding of a \<open>uint8\<close>
  has the byte last (\<open>big_endian_operation\<close>).
\<close>

definition left_padded :: "address \<Rightarrow> byte list" where
  "left_padded a = replicate 12 0 @ be_bytes 20 (uint a)"

definition struct_encoding ::
  "(Operation \<Rightarrow> byte list) \<Rightarrow> byte list \<Rightarrow> SafeTransactionParams \<Rightarrow> byte list" where
  "struct_encoding operation_word typehash tx =
     typehash @ left_padded (to tx) @ be_bytes 32 (SafeTransactionParams.value tx)
     @ keccak256 (data tx) @ operation_word (operation tx)
     @ be_bytes 32 (safeTxGas tx) @ be_bytes 32 (baseGas tx) @ be_bytes 32 (gasPrice tx)
     @ left_padded (gasToken tx) @ left_padded (refundReceiver tx) @ be_bytes 32 (nonce tx)"

definition right_padded_operation :: "Operation \<Rightarrow> byte list" where
  "right_padded_operation op = word_of_int (operation_number op) # replicate 31 0"

definition big_endian_operation :: "Operation \<Rightarrow> byte list" where
  "big_endian_operation op = be_bytes 32 (operation_number op)"

text \<open>
  The texts of the decoder tests: the payload with its 32-byte offset word and the ASCII
  text of the transfer call, that call, its two parameter words, and the call with its
  selector spelled in upper-case digits.
\<close>

definition asciiPayload :: string where
  "asciiPayload = ''0x000000000000000000000000000000000000000000000000000000000000008a30786139303539636262303030303030303030303030303030303030303030303030386234623236386139616137393766643630383839653838616337626539613063346233376666343030303030303030303030303030303030303030303030303030303030303030303030303030303030303030303030303030303030303035313162356163303000000000000000000000000000000000000000000000''"

definition transferText :: string where
  "transferText = ''0xa9059cbb0000000000000000000000008b4b268a9aa797fd60889e88ac7be9a0c4b37ff40000000000000000000000000000000000000000000000000000000511b5ac00''"

definition transferParams :: string where
  "transferParams = ''0000000000000000000000008b4b268a9aa797fd60889e88ac7be9a0c4b37ff40000000000000000000000000000000000000000000000000000000511b5ac00''"

definition upperTransferText :: string where
  "upperTransferText = ''0xA9059CBB0000000000000000000000008b4b268a9aa797fd60889e88ac7be9a0c4b37ff40000000000000000000000000000000000000000000000000000000511b5ac00''"

text \<open>
  The transfer call of the tests with the first byte of its address word set to 1, and
  its two parameter words.
\<close>

definition dirtyParams :: string where
  "dirtyParams = ''0100000000000000000000008b4b268a9aa797fd60889e88ac7be9a0c4b37ff40000000000000000000000000000000000000000000000000000000511b5ac00''"

definition dirtyTransferText :: string where
  "dirtyTransferText = ''0xa9059cbb0100000000000000000000008b4b268a9aa797fd60889e88ac7be9a0c4b37ff40000000000000000000000000000000000000000000000000000000511b5ac00''"

section \<open>Evaluating Keccak-256\<close>

text \<open>
  Equations that let the simplifier run the permutation on explicit bits: one rewrite
  per bit of a lane operation, one per lane of a step.
\<close>

lemma xor_lane_eval:
  "xor_lane (True # as) (True # bs) = False # xor_lane as bs"
  "xor_lane (True # as) (False # bs) = True # xor_lane as bs"
  "xor_lane (False # as) (True # bs) = True # xor_lane as bs"
  "xor_lane (False # as) (False # bs) = False # xor_lane as bs"
  "xor_lane [] [] = []"
  by (simp_all add: xor_lane_def)

lemma xor5_eval:
  "xor5 (True # as) (True # bs) (True # cs) (True # ds) (True # es) = True # xor5 as bs cs ds es"
  "xor5 (True # as) (True # bs) (True # cs) (True # ds) (False # es) = False # xor5 as bs cs ds es"
  "xor5 (True # as) (True # bs) (True # cs) (False # ds) (True # es) = False # xor5 as bs cs ds es"
  "xor5 (True # as) (True # bs) (True # cs) (False # ds) (False # es) = True # xor5 as bs cs ds es"
  "xor5 (True # as) (True # bs) (False # cs) (True # ds) (True # es) = False # xor5 as bs cs ds es"
  "xor5 (True # as) (True # bs) (False # cs) (True # ds) (False # es) = True # xor5 as bs cs ds es"
  "xor5 (True # as) (True # bs) (False # cs) (False # ds) (True # es) = True # xor5 as bs cs ds es"
  "xor5 (True # as) (True # bs) (False # cs) (False # ds) (False # es) = False # xor5 as bs cs ds es"
  "xor5 (True # as) (False # bs) (True # cs) (True # ds) (True # es) = False # xor5 as bs cs ds es"
  "xor5 (True # as) (False # bs) (True # cs) (True # ds) (False # es) = True # xor5 as bs cs ds es"
  "xor5 (True # as) (False # bs) (True # cs) (False # ds) (True # es) = True # xor5 as bs cs ds es"
  "xor5 (True # as) (False # bs) (True # cs) (False # ds) (False # es) = False # xor5 as bs cs ds es"
  "xor5 (True # as) (False # bs) (False # cs) (True # ds) (True # es) = True # xor5 as bs cs ds es"
  "xor5 (True # as) (False # bs) (False # cs) (True # ds) (False # es) = False # xor5 as bs cs ds es"
  "xor5 (True # as) (False # bs) (False # cs) (False # ds) (True # es) = False # xor5 as bs cs ds es"
  "xor5 (True # as) (False # bs) (False # cs) (False # ds) (False # es) = True # xor5 as bs cs ds es"
  "xor5 (False # as) (True # bs) (True # cs) (True # ds) (True # es) = False # xor5 as bs cs ds es"
  "xor5 (False # as) (True # bs) (True # cs) (True # ds) (False # es) = True # xor5 as bs cs ds es"
  "xor5 (False # as) (True # bs) (True # cs) (False # ds) (True # es) = True # xor5 as bs cs ds es"
  "xor5 (False # as) (True # bs) (True # cs) (False # ds) (False # es) = False # xor5 as bs cs ds es"
  "xor5 (False # as) (True # bs) (False # cs) (True # ds) (True # es) = True # xor5 as bs cs ds es"
  "xor5 (False # as) (True # bs) (False # cs) (True # ds) (False # es) = False # xor5 as bs cs ds es"
  "xor5 (False # as) (True # bs) (False # cs) (False # ds) (True # es) = False # xor5 as bs cs ds es"
  "xor5 (False # as) (True # bs) (False # cs) (False # ds) (False # es) = True # xor5 as bs cs ds es"
  "xor5 (False # as) (False # bs) (True # cs) (True # ds) (True # es) = True # xor5 as bs cs ds es"
  "xor5 (False # as) (False # bs) (True # cs) (True # ds) (False # es) = False # xor5 as bs cs ds es"
  "xor5 (False # as) (False # bs) (True # cs) (False # ds) (True # es) = False # xor5 as bs cs ds es"
  "xor5 (False # as) (False # bs) (True # cs) (False # ds) (False # es) = True # xor5 as bs cs ds es"
  "xor5 (False # as) (False # bs) (False # cs) (True # ds) (True # es) = False # xor5 as bs cs ds es"
  "xor5 (False # as) (False # bs) (False # cs) (True # ds) (False # es) = True # xor5 as bs cs ds es"
  "xor5 (False # as) (False # bs) (False # cs) (False # ds) (True # es) = True # xor5 as bs cs ds es"
  "xor5 (False # as) (False # bs) (False # cs) (False # ds) (False # es) = False # xor5 as bs cs ds es"
  "xor5 [] [] [] [] [] = []"
  by (simp_all add: xor5_def xor_lane_def)

lemma chi_lane_eval:
  "chi_lane (True # as) (True # bs) (True # cs) = True # chi_lane as bs cs"
  "chi_lane (True # as) (True # bs) (False # cs) = True # chi_lane as bs cs"
  "chi_lane (True # as) (False # bs) (True # cs) = False # chi_lane as bs cs"
  "chi_lane (True # as) (False # bs) (False # cs) = True # chi_lane as bs cs"
  "chi_lane (False # as) (True # bs) (True # cs) = False # chi_lane as bs cs"
  "chi_lane (False # as) (True # bs) (False # cs) = False # chi_lane as bs cs"
  "chi_lane (False # as) (False # bs) (True # cs) = True # chi_lane as bs cs"
  "chi_lane (False # as) (False # bs) (False # cs) = False # chi_lane as bs cs"
  "chi_lane [] [] [] = []"
  by (simp_all add: chi_lane_def xor_lane_def)

lemma rotl_lane_eval:
  "rotl_lane 0 [b0, b1, b2, b3, b4, b5, b6, b7, b8, b9, b10, b11, b12, b13, b14, b15, b16, b17, b18, b19, b20, b21, b22, b23, b24, b25, b26, b27, b28, b29, b30, b31, b32, b33, b34, b35, b36, b37, b38, b39, b40, b41, b42, b43, b44, b45, b46, b47, b48, b49, b50, b51, b52, b53, b54, b55, b56, b57, b58, b59, b60, b61, b62, b63] = [b0, b1, b2, b3, b4, b5, b6, b7, b8, b9, b10, b11, b12, b13, b14, b15, b16, b17, b18, b19, b20, b21, b22, b23, b24, b25, b26, b27, b28, b29, b30, b31, b32, b33, b34, b35, b36, b37, b38, b39, b40, b41, b42, b43, b44, b45, b46, b47, b48, b49, b50, b51, b52, b53, b54, b55, b56, b57, b58, b59, b60, b61, b62, b63]"
  "rotl_lane 1 [b0, b1, b2, b3, b4, b5, b6, b7, b8, b9, b10, b11, b12, b13, b14, b15, b16, b17, b18, b19, b20, b21, b22, b23, b24, b25, b26, b27, b28, b29, b30, b31, b32, b33, b34, b35, b36, b37, b38, b39, b40, b41, b42, b43, b44, b45, b46, b47, b48, b49, b50, b51, b52, b53, b54, b55, b56, b57, b58, b59, b60, b61, b62, b63] = [b63, b0, b1, b2, b3, b4, b5, b6, b7, b8, b9, b10, b11, b12, b13, b14, b15, b16, b17, b18, b19, b20, b21, b22, b23, b24, b25, b26, b27, b28, b29, b30, b31, b32, b33, b34, b35, b36, b37, b38, b39, b40, b41, b42, b43, b44, b45, b46, b47, b48, b49, b50, b51, b52, b53, b54, b55, b56, b57, b58, b59, b60, b61, b62]"
  "rotl_lane 2 [b0, b1, b2, b3, b4, b5, b6, b7, b8, b9, b10, b11, b12, b13, b14, b15, b16, b17, b18, b19, b20, b21, b22, b23, b24, b25, b26, b27, b28, b29, b30, b31, b32, b33, b34, b35, b36, b37, b38, b39, b40, b41, b42, b43, b44, b45, b46, b47, b48, b49, b50, b51, b52, b53, b54, b55, b56, b57, b58, b59, b60, b61, b62, b63] = [b62, b63, b0, b1, b2, b3, b4, b5, b6, b7, b8, b9, b10, b11, b12, b13, b14, b15, b16, b17, b18, b19, b20, b21, b22, b23, b24, b25, b26, b27, b28, b29, b30, b31, b32, b33, b34, b35, b36, b37, b38, b39, b40, b41, b42, b43, b44, b45, b46, b47, b48, b49, b50, b51, b52, b53, b54, b55, b56, b57, b58, b59, b60, b61]"
  "rotl_lane 3 [b0, b1, b2, b3, b4, b5, b6, b7, b8, b9, b10, b11, b12, b13, b14, b15, b16, b17, b18, b19, b20, b21, b22, b23, b24, b25, b26, b27, b28, b29, b30, b31, b32, b33, b34, b35, b36, b37, b38, b39, b40, b41, b42, b43, b44, b45, b46, b47, b48, b49, b50, b51, b52, b53, b54, b55, b56, b57, b58, b59, b60, b61, b62, b63] = [b61, b62, b63, b0, b1, b2, b3, b4, b5, b6, b7, b8, b9, b10, b11, b12, b13, b14, b15, b16, b17, b18, b19, b20, b21, b22, b23, b24, b25, b26, b27, b28, b29, b30, b31, b32, b33, b34, b35, b36, b37, b38, b39, b40, b41, b42, b43, b44, b45, b46, b47, b48, b49, b50, b51, b52, b53, b54, b55, b56, b57, b58, b59, b60]"
  "rotl_lane 6 [b0, b1, b2, b3, b4, b5, b6, b7, b8, b9, b10, b11, b12, b13, b14, b15, b16, b17, b18, b19, b20, b21, b22, b23, b24, b25, b26, b27, b28, b29, b30, b31, b32, b33, b34, b35, b36, b37, b38, b39, b40, b41, b42, b43, b44, b45, b46, b47, b48, b49, b50, b51, b52, b53, b54, b55, b56, b57, b58, b59, b60, b61, b62, b63] = [b58, b59, b60, b61, b62, b63, b0, b1, b2, b3, b4, b5, b6, b7, b8, b9, b10, b11, b12, b13, b14, b15, b16, b17, b18, b19, b20, b21, b22, b23, b24, b25, b26, b27, b28, b29, b30, b31, b32, b33, b34, b35, b36, b37, b38, b39, b40, b41, b42, b43, b44, b45, b46, b47, b48, b49, b50, b51, b52, b53, b54, b55, b56, b57]"
  "rotl_lane 8 [b0, b1, b2, b3, b4, b5, b6, b7, b8, b9, b10, b11, b12, b13, b14, b15, b16, b17, b18, b19, b20, b21, b22, b23, b24, b25, b26, b27, b28, b29, b30, b31, b32, b33, b34, b35, b36, b37, b38, b39, b40, b41, b42, b43, b44, b45, b46, b47, b48, b49, b50, b51, b52, b53, b54, b55, b56, b57, b58, b59, b60, b61, b62, b63] = [b56, b57, b58, b59, b60, b61, b62, b63, b0, b1, b2, b3, b4, b5, b6, b7, b8, b9, b10, b11, b12, b13, b14, b15, b16, b17, b18, b19, b20, b21, b22, b23, b24, b25, b26, b27, b28, b29, b30, b31, b32, b33, b34, b35, b36, b37, b38, b39, b40, b41, b42, b43, b44, b45, b46, b47, b48, b49, b50, b51, b52, b53, b54, b55]"
  "rotl_lane 10 [b0, b1, b2, b3, b4, b5, b6, b7, b8, b9, b10, b11, b12, b13, b14, b15, b16, b17, b18, b19, b20, b21, b22, b23, b24, b25, b26, b27, b28, b29, b30, b31, b32, b33, b34, b35, b36, b37, b38, b39, b40, b41, b42, b43, b44, b45, b46, b47, b48, b49, b50, b51, b52, b53, b54, b55, b56, b57, b58, b59, b60, b61, b62, b63] = [b54, b55, b56, b57, b58, b59, b60, b61, b62, b63, b0, b1, b2, b3, b4, b5, b6, b7, b8, b9, b10, b11, b12, b13, b14, b15, b16, b17, b18, b19, b20, b21, b22, b23, b24, b25, b26, b27, b28, b29, b30, b31, b32, b33, b34, b35, b36, b37, b38, b39, b40, b41, b42, b43, b44, b45, b46, b47, b48, b49, b50, b51, b52, b53]"
  "rotl_lane 14 [b0, b1, b2, b3, b4, b5, b6, b7, b8, b9, b10, b11, b12, b13, b14, b15, b16, b17, b18, b19, b20, b21, b22, b23, b24, b25, b26, b27, b28, b29, b30, b31, b32, b33, b34, b35, b36, b37, b38, b39, b40, b41, b42, b43, b44, b45, b46, b47, b48, b49, b50, b51, b52, b53, b54, b55, b56, b57, b58, b59, b60, b61, b62, b63] = [b50, b51, b52, b53, b54, b55, b56, b57, b58, b59, b60, b61, b62, b63, b0, b1, b2, b3, b4, b5, b6, b7, b8, b9, b10, b11, b12, b13, b14, b15, b16, b17, b18, b19, b20, b21, b22, b23, b24, b25, b26, b27, b28, b29, b30, b31, b32, b33, b34, b35, b36, b37, b38, b39, b40, b41, b42, b43, b44, b45, b46, b47, b48, b49]"
  "rotl_lane 15 [b0, b1, b2, b3, b4, b5, b6, b7, b8, b9, b10, b11, b12, b13, b14, b15, b16, b17, b18, b19, b20, b21, b22, b23, b24, b25, b26, b27, b28, b29, b30, b31, b32, b33, b34, b35, b36, b37, b38, b39, b40, b41, b42, b43, b44, b45, b46, b47, b48, b49, b50, b51, b52, b53, b54, b55, b56, b57, b58, b59, b60, b61, b62, b63] = [b49, b50, b51, b52, b53, b54, b55, b56, b57, b58, b59, b60, b61, b62, b63, b0, b1, b2, b3, b4, b5, b6, b7, b8, b9, b10, b11, b12, b13, b14, b15, b16, b17, b18, b19, b20, b21, b22, b23, b24, b25, b26, b27, b28, b29, b30, b31, b32, b33, b34, b35, b36, b37, b38, b39, b40, b41, b42, b43, b44, b45, b46, b47, b48]"
  "rotl_lane 18 [b0, b1, b2, b3, b4, b5, b6, b7, b8, b9, b10, b11, b12, b13, b14, b15, b16, b17, b18, b19, b20, b21, b22, b23, b24, b25, b26, b27, b28, b29, b30, b31, b32, b33, b34, b35, b36, b37, b38, b39, b40, b41, b42, b43, b44, b45, b46, b47, b48, b49, b50, b51, b52, b53, b54, b55, b56, b57, b58, b59, b60, b61, b62, b63] = [b46, b47, b48, b49, b50, b51, b52, b53, b54, b55, b56, b57, b58, b59, b60, b61, b62, b63, b0, b1, b2, b3, b4, b5, b6, b7, b8, b9, b10, b11, b12, b13, b14, b15, b16, b17, b18, b19, b20, b21, b22, b23, b24, b25, b26, b27, b28, b29, b30, b31, b32, b33, b34, b35, b36, b37, b38, b39, b40, b41, b42, b43, b44, b45]"
  "rotl_lane 20 [b0, b1, b2, b3, b4, b5, b6, b7, b8, b9, b10, b11, b12, b13, b14, b15, b16, b17, b18, b19, b20, b21, b22, b23, b24, b25, b26, b27, b28, b29, b30, b31, b32, b33, b34, b35, b36, b37, b38, b39, b40, b41, b42, b43, b44, b45, b46, b47, b48, b49, b50, b51, b52, b53, b54, b55, b56, b57, b58, b59, b60, b61, b62, b63] = [b44, b45, b46, b47, b48, b49, b50, b51, b52, b53, b54, b55, b56, b57, b58, b59, b60, b61, b62, b63, b0, b1, b2, b3, b4, b5, b6, b7, b8, b9, b10, b11, b12, b13, b14, b15, b16, b17, b18, b19, b20, b21, b22, b23, b24, b25, b26, b27, b28, b29, b30, b31, b32, b33, b34, b35, b36, b37, b38, b39, b40, b41, b42, b43]"
  "rotl_lane 21 [b0, b1, b2, b3, b4, b5, b6, b7, b8, b9, b10, b11, b12, b13, b14, b15, b16, b17, b18, b19, b20, b21, b22, b23, b24, b25, b26, b27, b28, b29, b30, b31, b32, b33, b34, b35, b36, b37, b38, b39, b40, b41, b42, b43, b44, b45, b46, b47, b48, b49, b50, b51, b52, b53, b54, b55, b56, b57, b58, b59, b60, b61, b62, b63] = [b43, b44, b45, b46, b47, b48, b49, b50, b51, b52, b53, b54, b55, b56, b57, b58, b59, b60, b61, b62, b63, b0, b1, b2, b3, b4, b5, b6, b7, b8, b9, b10, b11, b12, b13, b14, b15, b16, b17, b18, b19, b20, b21, b22, b23, b24, b25, b26, b27, b28, b29, b30, b31, b32, b33, b34, b35, b36, b37, b38, b39, b40, b41, b42]"
  "rotl_lane 25 [b0, b1, b2, b3, b4, b5, b6, b7, b8, b9, b10, b11, b12, b13, b14, b15, b16, b17, b18, b19, b20, b21, b22, b23, b24, b25, b26, b27, b28, b29, b30, b31, b32, b33, b34, b35, b36, b37, b38, b39, b40, b41, b42, b43, b44, b45, b46, b47, b48, b49, b50, b51, b52, b53, b54, b55, b56, b57, b58, b59, b60, b61, b62, b63] = [b39, b40, b41, b42, b43, b44, b45, b46, b47, b48, b49, b50, b51, b52, b53, b54, b55, b56, b57, b58, b59, b60, b61, b62, b63, b0, b1, b2, b3, b4, b5, b6, b7, b8, b9, b10, b11, b12, b13, b14, b15, b16, b17, b18, b19, b20, b21, b22, b23, b24, b25, b26, b27, b28, b29, b30, b31, b32, b33, b34, b35, b36, b37, b38]"
  "rotl_lane 27 [b0, b1, b2, b3, b4, b5, b6, b7, b8, b9, b10, b11, b12, b13, b14, b15, b16, b17, b18, b19, b20, b21, b22, b23, b24, b25, b26, b27, b28, b29, b30, b31, b32, b33, b34, b35, b36, b37, b38, b39, b40, b41, b42, b43, b44, b45, b46, b47, b48, b49, b50, b51, b52, b53, b54, b55, b56, b57, b58, b59, b60, b61, b62, b63] = [b37, b38, b39, b40, b41, b42, b43, b44, b45, b46, b47, b48, b49, b50, b51, b52, b53, b54, b55, b56, b57, b58, b59, b60, b61, b62, b63, b0, b1, b2, b3, b4, b5, b6, b7, b8, b9, b10, b11, b12, b13, b14, b15, b16, b17, b18, b19, b20, b21, b22, b23, b24, b25, b26, b27, b28, b29, b30, b31, b32, b33, b34, b35, b36]"
  "rotl_lane 28 [b0, b1, b2, b3, b4, b5, b6, b7, b8, b9, b10, b11, b12, b13, b14, b15, b16, b17, b18, b19, b20, b21, b22, b23, b24, b25, b26, b27, b28, b29, b30, b31, b32, b33, b34, b35, b36, b37, b38, b39, b40, b41, b42, b43, b44, b45, b46, b47, b48, b49, b50, b51, b52, b53, b54, b55, b56, b57, b58, b59, b60, b61, b62, b63] = [b36, b37, b38, b39, b40, b41, b42, b43, b44, b45, b46, b47, b48, b49, b50, b51, b52, b53, b54, b55, b56, b57, b58, b59, b60, b61, b62, b63, b0, b1, b2, b3, b4, b5, b6, b7, b8, b9, b10, b11, b12, b13, b14, b15, b16, b17, b18, b19, b20, b21, b22, b23, b24, b25, b26, b27, b28, b29, b30, b31, b32, b33, b34, b35]"
  "rotl_lane 36 [b0, b1, b2, b3, b4, b5, b6, b7, b8, b9, b10, b11, b12, b13, b14, b15, b16, b17, b18, b19, b20, b21, b22, b23, b24, b25, b26, b27, b28, b29, b30, b31, b32, b33, b34, b35, b36, b37, b38, b39, b40, b41, b42, b43, b44, b45, b46, b47, b48, b49, b50, b51, b52, b53, b54, b55, b56, b57, b58, b59, b60, b61, b62, b63] = [b28, b29, b30, b31, b32, b33, b34, b35, b36, b37, b38, b39, b40, b41, b42, b43, b44, b45, b46, b47, b48, b49, b50, b51, b52, b53, b54, b55, b56, b57, b58, b59, b60, b61, b62, b63, b0, b1, b2, b3, b4, b5, b6, b7, b8, b9, b10, b11, b12, b13, b14, b15, b16, b17, b18, b19, b20, b21, b22, b23, b24, b25, b26, b27]"
  "rotl_lane 39 [b0, b1, b2, b3, b4, b5, b6, b7, b8, b9, b10, b11, b12, b13, b14, b15, b16, b17, b18, b19, b20, b21, b22, b23, b24, b25, b26, b27, b28, b29, b30, b31, b32, b33, b34, b35, b36, b37, b38, b39, b40, b41, b42, b43, b44, b45, b46, b47, b48, b49, b50, b51, b52, b53, b54, b55, b56, b57, b58, b59, b60, b61, b62, b63] = [b25, b26, b27, b28, b29, b30, b31, b32, b33, b34, b35, b36, b37, b38, b39, b40, b41, b42, b43, b44, b45, b46, b47, b48, b49, b50, b51, b52, b53, b54, b55, b56, b57, b58, b59, b60, b61, b62, b63, b0, b1, b2, b3, b4, b5, b6, b7, b8, b9, b10, b11, b12, b13, b14, b15, b16, b17, b18, b19, b20, b21, b22, b23, b24]"
  "rotl_lane 41 [b0, b1, b2, b3, b4, b5, b6, b7, b8, b9, b10, b11, b12, b13, b14, b15, b16, b17, b18, b19, b20, b21, b22, b23, b24, b25, b26, b27, b28, b29, b30, b31, b32, b33, b34, b35, b36, b37, b38, b39, b40, b41, b42, b43, b44, b45, b46, b47, b48, b49, b50, b51, b52, b53, b54, b55, b56, b57, b58, b59, b60, b61, b62, b63] = [b23, b24, b25, b26, b27, b28, b29, b30, b31, b32, b33, b34, b35, b36, b37, b38, b39, b40, b41, b42, b43, b44, b45, b46, b47, b48, b49, b50, b51, b52, b53, b54, b55, b56, b57, b58, b59, b60, b61, b62, b63, b0, b1, b2, b3, b4, b5, b6, b7, b8, b9, b10, b11, b12, b13, b14, b15, b16, b17, b18, b19, b20, b21, b22]"
  "rotl_lane 43 [b0, b1, b2, b3, b4, b5, b6, b7, b8, b9, b10, b11, b12, b13, b14, b15, b16, b17, b18, b19, b20, b21, b22, b23, b24, b25, b26, b27, b28, b29, b30, b31, b32, b33, b34, b35, b36, b37, b38, b39, b40, b41, b42, b43, b44, b45, b46, b47, b48, b49, b50, b51, b52, b53, b54, b55, b56, b57, b58, b59, b60, b61, b62, b63] = [b21, b22, b23, b24, b25, b26, b27, b28, b29, b30, b31, b32, b33, b34, b35, b36, b37, b38, b39, b40, b41, b42, b43, b44, b45, b46, b47, b48, b49, b50, b51, b52, b53, b54, b55, b56, b57, b58, b59, b60, b61, b62, b63, b0, b1, b2, b3, b4, b5, b6, b7, b8, b9, b10, b11, b12, b13, b14, b15, b16, b17, b18, b19, b20]"
  "rotl_lane 44 [b0, b1, b2, b3, b4, b5, b6, b7, b8, b9, b10, b11, b12, b13, b14, b15, b16, b17, b18, b19, b20, b21, b22, b23, b24, b25, b26, b27, b28, b29, b30, b31, b32, b33, b34, b35, b36, b37, b38, b39, b40, b41, b42, b43, b44, b45, b46, b47, b48, b49, b50, b51, b52, b53, b54, b55, b56, b57, b58, b59, b60, b61, b62, b63] = [b20, b21, b22, b23, b24, b25, b26, b27, b28, b29, b30, b31, b32, b33, b34, b35, b36, b37, b38, b39, b40, b41, b42, b43, b44, b45, b46, b47, b48, b49, b50, b51, b52, b53, b54, b55, b56, b57, b58, b59, b60, b61, b62, b63, b0, b1, b2, b3, b4, b5, b6, b7, b8, b9, b10, b11, b12, b13, b14, b15, b16, b17, b18, b19]"
  "rotl_lane 45 [b0, b1, b2, b3, b4, b5, b6, b7, b8, b9, b10, b11, b12, b13, b14, b15, b16, b17, b18, b19, b20, b21, b22, b23, b24, b25, b26, b27, b28, b29, b30, b31, b32, b33, b34, b35, b36, b37, b38, b39, b40, b41, b42, b43, b44, b45, b46, b47, b48, b49, b50, b51, b52, b53, b54, b55, b56, b57, b58, b59, b60, b61, b62, b63] = [b19, b20, b21, b22, b23, b24, b25, b26, b27, b28, b29, b30, b31, b32, b33, b34, b35, b36, b37, b38, b39, b40, b41, b42, b43, b44, b45, b46, b47, b48, b49, b50, b51, b52, b53, b54, b55, b56, b57, b58, b59, b60, b61, b62, b63, b0, b1, b2, b3, b4, b5, b6, b7, b8, b9, b10, b11, b12, b13, b14, b15, b16, b17, b18]"
  "rotl_lane 55 [b0, b1, b2, b3, b4, b5, b6, b7, b8, b9, b10, b11, b12, b13, b14, b15, b16, b17, b18, b19, b20, b21, b22, b23, b24, b25, b26, b27, b28, b29, b30, b31, b32, b33, b34, b35, b36, b37, b38, b39, b40, b41, b42, b43, b44, b45, b46, b47, b48, b49, b50, b51, b52, b53, b54, b55, b56, b57, b58, b59, b60, b61, b62, b63] = [b9, b10, b11, b12, b13, b14, b15, b16, b17, b18, b19, b20, b21, b22, b23, b24, b25, b26, b27, b28, b29, b30, b31, b32, b33, b34, b35, b36, b37, b38, b39, b40, b41, b42, b43, b44, b45, b46, b47, b48, b49, b50, b51, b52, b53, b54, b55, b56, b57, b58, b59, b60, b61, b62, b63, b0, b1, b2, b3, b4, b5, b6, b7, b8]"
  "rotl_lane 56 [b0, b1, b2, b3, b4, b5, b6, b7, b8, b9, b10, b11, b12, b13, b14, b15, b16, b17, b18, b19, b20, b21, b22, b23, b24, b25, b26, b27, b28, b29, b30, b31, b32, b33, b34, b35, b36, b37, b38, b39, b40, b41, b42, b43, b44, b45, b46, b47, b48, b49, b50, b51, b52, b53, b54, b55, b56, b57, b58, b59, b60, b61, b62, b63] = [b8, b9, b10, b11, b12, b13, b14, b15, b16, b17, b18, b19, b20, b21, b22, b23, b24, b25, b26, b27, b28, b29, b30, b31, b32, b33, b34, b35, b36, b37, b38, b39, b40, b41, b42, b43, b44, b45, b46, b47, b48, b49, b50, b51, b52, b53, b54, b55, b56, b57, b58, b59, b60, b61, b62, b63, b0, b1, b2, b3, b4, b5, b6, b7]"
  "rotl_lane 61 [b0, b1, b2, b3, b4, b5, b6, b7, b8, b9, b10, b11, b12, b13, b14, b15, b16, b17, b18, b19, b20, b21, b22, b23, b24, b25, b26, b27, b28, b29, b30, b31, b32, b33, b34, b35, b36, b37, b38, b39, b40, b41, b42, b43, b44, b45, b46, b47, b48, b49, b50, b51, b52, b53, b54, b55, b56, b57, b58, b59, b60, b61, b62, b63] = [b3, b4, b5, b6, b7, b8, b9, b10, b11, b12, b13, b14, b15, b16, b17, b18, b19, b20, b21, b22, b23, b24, b25, b26, b27, b28, b29, b30, b31, b32, b33, b34, b35, b36, b37, b38, b39, b40, b41, b42, b43, b44, b45, b46, b47, b48, b49, b50, b51, b52, b53, b54, b55, b56, b57, b58, b59, b60, b61, b62, b63, b0, b1, b2]"
  "rotl_lane 62 [b0, b1, b2, b3, b4, b5, b6, b7, b8, b9, b10, b11, b12, b13, b14, b15, b16, b17, b18, b19, b20, b21, b22, b23, b24, b25, b26, b27, b28, b29, b30, b31, b32, b33, b34, b35, b36, b37, b38, b39, b40, b41, b42, b43, b44, b45, b46, b47, b48, b49, b50, b51, b52, b53, b54, b55, b56, b57, b58, b59, b60, b61, b62, b63] = [b2, b3, b4, b5, b6, b7, b8, b9, b10, b11, b12, b13, b14, b15, b16, b17, b18, b19, b20, b21, b22, b23, b24, b25, b26, b27, b28, b29, b30, b31, b32, b33, b34, b35, b36, b37, b38, b39, b40, b41, b42, b43, b44, b45, b46, b47, b48, b49, b50, b51, b52, b53, b54, b55, b56, b57, b58, b59, b60, b61, b62, b63, b0, b1]"
  by (simp_all add: rotl_lane_def)

lemma theta_c_eval:
  "theta_c [a0, a1, a2, a3, a4, a5, a6, a7, a8, a9, a10, a11, a12, a13, a14, a15, a16, a17, a18, a19, a20, a21, a22, a23, a24] = [xor5 a0 a5 a10 a15 a20, xor5 a1 a6 a11 a16 a21, xor5 a2 a7 a12 a17 a22, xor5 a3 a8 a13 a18 a23, xor5 a4 a9 a14 a19 a24]"
  by (simp add: theta_c_def upt_rec)

lemma theta_d_eval:
  "theta_d [c0, c1, c2, c3, c4] = [xor_lane c4 (rotl_lane 1 c1), xor_lane c0 (rotl_lane 1 c2), xor_lane c1 (rotl_lane 1 c3), xor_lane c2 (rotl_lane 1 c4), xor_lane c3 (rotl_lane 1 c0)]"
  by (simp add: theta_d_def upt_rec)

lemma theta_apply_eval:
  "theta_apply [a0, a1, a2, a3, a4, a5, a6, a7, a8, a9, a10, a11, a12, a13, a14, a15, a16, a17, a18, a19, a20, a21, a22, a23, a24] [d0, d1, d2, d3, d4] = [xor_lane a0 d0, xor_lane a1 d1, xor_lane a2 d2, xor_lane a3 d3, xor_lane a4 d4, xor_lane a5 d0, xor_lane a6 d1, xor_lane a7 d2, xor_lane a8 d3, xor_lane a9 d4, xor_lane a10 d0, xor_lane a11 d1, xor_lane a12 d2, xor_lane a13 d3, xor_lane a14 d4, xor_lane a15 d0, xor_lane a16 d1, xor_lane a17 d2, xor_lane a18 d3, xor_lane a19 d4, xor_lane a20 d0, xor_lane a21 d1, xor_lane a22 d2, xor_lane a23 d3, xor_lane a24 d4]"
  by (simp add: theta_apply_def upt_rec)

lemma rho_pi_eval:
  "rho_pi [a0, a1, a2, a3, a4, a5, a6, a7, a8, a9, a10, a11, a12, a13, a14, a15, a16, a17, a18, a19, a20, a21, a22, a23, a24] = [rotl_lane 0 a0, rotl_lane 44 a6, rotl_lane 43 a12, rotl_lane 21 a18, rotl_lane 14 a24, rotl_lane 28 a3, rotl_lane 20 a9, rotl_lane 3 a10, rotl_lane 45 a16, rotl_lane 61 a22, rotl_lane 1 a1, rotl_lane 6 a7, rotl_lane 25 a13, rotl_lane 8 a19, rotl_lane 18 a20, rotl_lane 27 a4, rotl_lane 36 a5, rotl_lane 10 a11, rotl_lane 15 a17, rotl_lane 56 a23, rotl_lane 62 a2, rotl_lane 55 a8, rotl_lane 39 a14, rotl_lane 41 a15, rotl_lane 2 a21]"
  by (simp add: rho_pi_def rho_offsets_def upt_rec)

lemma chi_eval:
  "chi [a0, a1, a2, a3, a4, a5, a6, a7, a8, a9, a10, a11, a12, a13, a14, a15, a16, a17, a18, a19, a20, a21, a22, a23, a24] = [chi_lane a0 a1 a2, chi_lane a1 a2 a3, chi_lane a2 a3 a4, chi_lane a3 a4 a0, chi_lane a4 a0 a1, chi_lane a5 a6 a7, chi_lane a6 a7 a8, chi_lane a7 a8 a9, chi_lane a8 a9 a5, chi_lane a9 a5 a6, chi_lane a10 a11 a12, chi_lane a11 a12 a13, chi_lane a12 a13 a14, chi_lane a13 a14 a10, chi_lane a14 a10 a11, chi_lane a15 a16 a17, chi_lane a16 a17 a18, chi_lane a17 a18 a19, chi_lane a18 a19 a15, chi_lane a19 a15 a16, chi_lane a20 a21 a22, chi_lane a21 a22 a23, chi_lane a22 a23 a24, chi_lane a23 a24 a20, chi_lane a24 a20 a21]"
  by (simp add: chi_def upt_rec)

lemma word_lane_eval:
  "word_lane 0x0000000000000001 = [True, False, False, False, False, False, False, False, False, False, False, False, False, False, False, False, False, False, False, False, False, False, False, False, False, False, False, False, False, False, False, False, False, False, False, False, False, False, False, False, False, False, False, False, False, False, False, False, False, False, False, False, False, False, False, False, False, False, False, False, False, False, False, False]"
  "word_lane 0x0000000000000088 = [False, False, False, True, False, False, False, True, False, False, False, False, False, False, False, False, False, False, False, False, False, False, False, False, False, False, False, False, False, False, False, False, False, False, False, False, False, False, False, False, False, False, False, False, False, False, False, False, False, False, False, False, False, False, False, False, False, False, False, False, False, False, False, False]"
  "word_lane 0x000000000000008A = [False, True, False, True, False, False, False, True, False, False, False, False, False, False, False, False, False, False, False, False, False, False, False, False, False, False, False, False, False, False, False, False, False, False, False, False, False, False, False, False, False, False, False, False, False, False, False, False, False, False, False, False, False, False, False, False, False, False, False, False, False, False, False, False]"
  "word_lane 0x000000000000800A = [False, True, False, True, False, False, False, False, False, False, False, False, False, False, False, True, False, False, False, False, False, False, False, False, False, False, False, False, False, False, False, False, False, False, False, False, False, False, False, False, False, False, False, False, False, False, False, False, False, False, False, False, False, False, False, False, False, False, False, False, False, False, False, False]"
  "word_lane 0x0000000000008082 = [False, True, False, False, False, False, False, True, False, False, False, False, False, False, False, True, False, False, False, False, False, False, False, False, False, False, False, False, False, False, False, False, False, False, False, False, False, False, False, False, False, False, False, False, False, False, False, False, False, False, False, False, False, False, False, False, False, False, False, False, False, False, False, False]"
  "word_lane 0x000000000000808B = [True, True, False, True, False, False, False, True, False, False, False, False, False, False, False, True, False, False, False, False, False, False, False, False, False, False, False, False, False, False, False, False, False, False, False, False, False, False, False, False, False, False, False, False, False, False, False, False, False, False, False, False, False, False, False, False, False, False, False, False, False, False, False, False]"
  "word_lane 0x0000000080000001 = [True, False, False, False, False, False, False, False, False, False, False, False, False, False, False, False, False, False, False, False, False, False, False, False, False, False, False, False, False, False, False, True, False, False, False, False, False, False, False, False, False, False, False, False, False, False, False, False, False, False, False, False, False, False, False, False, False, False, False, False, False, False, False, False]"
  "word_lane 0x000000008000000A = [False, True, False, True, False, False, False, False, False, False, False, False, False, False, False, False, False, False, False, False, False, False, False, False, False, False, False, False, False, False, False, True, False, False, False, False, False, False, False, False, False, False, False, False, False, False, False, False, False, False, False, False, False, False, False, False, False, False, False, False, False, False, False, False]"
  "word_lane 0x0000000080008009 = [True, False, False, True, False, False, False, False, False, False, False, False, False, False, False, True, False, False, False, False, False, False, False, False, False, False, False, False, False, False, False, True, False, False, False, False, False, False, False, False, False, False, False, False, False, False, False, False, False, False, False, False, False, False, False, False, False, False, False, False, False, False, False, False]"
  "word_lane 0x000000008000808B = [True, True, False, True, False, False, False, True, False, False, False, False, False, False, False, True, False, False, False, False, False, False, False, False, False, False, False, False, False, False, False, True, False, False, False, False, False, False, False, False, False, False, False, False, False, False, False, False, False, False, False, False, False, False, False, False, False, False, False, False, False, False, False, False]"
  "word_lane 0x8000000000000080 = [False, False, False, False, False, False, False, True, False, False, False, False, False, False, False, False, False, False, False, False, False, False, False, False, False, False, False, False, False, False, False, False, False, False, False, False, False, False, False, False, False, False, False, False, False, False, False, False, False, False, False, False, False, False, False, False, False, False, False, False, False, False, False, True]"
  "word_lane 0x800000000000008B = [True, True, False, True, False, False, False, True, False, False, False, False, False, False, False, False, False, False, False, False, False, False, False, False, False, False, False, False, False, False, False, False, False, False, False, False, False, False, False, False, False, False, False, False, False, False, False, False, False, False, False, False, False, False, False, False, False, False, False, False, False, False, False, True]"
  "word_lane 0x8000000000008002 = [False, True, False, False, False, False, False, False, False, False, False, False, False, False, False, True, False, False, False, False, False, False, False, False, False, False, False, False, False, False, False, False, False, False, False, False, False, False, False, False, False, False, False, False, False, False, False, False, False, False, False, False, False, False, False, False, False, False, False, False, False, False, False, True]"
  "word_lane 0x8000000000008003 = [True, True, False, False, False, False, False, False, False, False, False, False, False, False, False, True, False, False, False, False, False, False, False, False, False, False, False, False, False, False, False, False, False, False, False, False, False, False, False, False, False, False, False, False, False, False, False, False, False, False, False, False, False, False, False, False, False, False, False, False, False, False, False, True]"
  "word_lane 0x8000000000008009 = [True, False, False, True, False, False, False, False, False, False, False, False, False, False, False, True, False, False, False, False, False, False, False, False, False, False, False, False, False, False, False, False, False, False, False, False, False, False, False, False, False, False, False, False, False, False, False, False, False, False, False, False, False, False, False, False, False, False, False, False, False, False, False, True]"
  "word_lane 0x8000000000008080 = [False, False, False, False, False, False, False, True, False, False, False, False, False, False, False, True, False, False, False, False, False, False, False, False, False, False, False, False, False, False, False, False, False, False, False, False, False, False, False, False, False, False, False, False, False, False, False, False, False, False, False, False, False, False, False, False, False, False, False, False, False, False, False, True]"
  "word_lane 0x8000000000008089 = [True, False, False, True, False, False, False, True, False, False, False, False, False, False, False, True, False, False, False, False, False, False, False, False, False, False, False, False, False, False, False, False, False, False, False, False, False, False, False, False, False, False, False, False, False, False, False, False, False, False, False, False, False, False, False, False, False, False, False, False, False, False, False, True]"
  "word_lane 0x800000000000808A = [False, True, False, True, False, False, False, True, False, False, False, False, False, False, False, True, False, False, False, False, False, False, False, False, False, False, False, False, False, False, False, False, False, False, False, False, False, False, False, False, False, False, False, False, False, False, False, False, False, False, False, False, False, False, False, False, False, False, False, False, False, False, False, True]"
  "word_lane 0x800000008000000A = [False, True, False, True, False, False, False, False, False, False, False, False, False, False, False, False, False, False, False, False, False, False, False, False, False, False, False, False, False, False, False, True, False, False, False, False, False, False, False, False, False, False, False, False, False, False, False, False, False, False, False, False, False, False, False, False, False, False, False, False, False, False, False, True]"
  "word_lane 0x8000000080008000 = [False, False, False, False, False, False, False, False, False, False, False, False, False, False, False, True, False, False, False, False, False, False, False, False, False, False, False, False, False, False, False, True, False, False, False, False, False, False, False, False, False, False, False, False, False, False, False, False, False, False, False, False, False, False, False, False, False, False, False, False, False, False, False, True]"
  "word_lane 0x8000000080008008 = [False, False, False, True, False, False, False, False, False, False, False, False, False, False, False, True, False, False, False, False, False, False, False, False, False, False, False, False, False, False, False, True, False, False, False, False, False, False, False, False, False, False, False, False, False, False, False, False, False, False, False, False, False, False, False, False, False, False, False, False, False, False, False, True]"
  "word_lane 0x8000000080008081 = [True, False, False, False, False, False, False, True, False, False, False, False, False, False, False, True, False, False, False, False, False, False, False, False, False, False, False, False, False, False, False, True, False, False, False, False, False, False, False, False, False, False, False, False, False, False, False, False, False, False, False, False, False, False, False, False, False, False, False, False, False, False, False, True]"
  by (simp_all add: word_lane_def upt_rec bit_numeral_simps)

lemma iota_eval: "iota rc (a # as) = xor_lane a (word_lane rc) # as"
  by (simp add: iota_def)

lemma keccak_f_eval:
  "keccak_f A = keccak_round 0x8000000080008008 (keccak_round 0x0000000080000001 (keccak_round 0x8000000000008080 (keccak_round 0x8000000080008081 (keccak_round 0x800000008000000A (keccak_round 0x000000000000800A (keccak_round 0x8000000000000080 (keccak_round 0x8000000000008002 (keccak_round 0x8000000000008003 (keccak_round 0x8000000000008089 (keccak_round 0x800000000000008B (keccak_round 0x000000008000808B (keccak_round 0x000000008000000A (keccak_round 0x0000000080008009 (keccak_round 0x0000000000000088 (keccak_round 0x000000000000008A (keccak_round 0x8000000000008009 (keccak_round 0x8000000080008081 (keccak_round 0x0000000080000001 (keccak_round 0x000000000000808B (keccak_round 0x8000000080008000 (keccak_round 0x800000000000808A (keccak_round 0x0000000000008082 (keccak_round 0x0000000000000001 (A))))))))))))))))))))))))"
  by (simp add: keccak_f_def round_constants_def)


lemma xor_state_eval:
  "xor_state [a0, a1, a2, a3, a4, a5, a6, a7, a8, a9, a10, a11, a12, a13, a14, a15, a16, a17, a18, a19, a20, a21, a22, a23, a24]
     [b0, b1, b2, b3, b4, b5, b6, b7, b8, b9, b10, b11, b12, b13, b14, b15, b16, b17, b18, b19, b20, b21, b22, b23, b24] =
   [xor_lane a0 b0, xor_lane a1 b1, xor_lane a2 b2, xor_lane a3 b3, xor_lane a4 b4, xor_lane a5 b5, xor_lane a6 b6, xor_lane a7 b7, xor_lane a8 b8, xor_lane a9 b9, xor_lane a10 b10, xor_lane a11 b11, xor_lane a12 b12, xor_lane a13 b13, xor_lane a14 b14, xor_lane a15 b15, xor_lane a16 b16, xor_lane a17 b17, xor_lane a18 b18, xor_lane a19 b19, xor_lane a20 b20, xor_lane a21 b21, xor_lane a22 b22, xor_lane a23 b23, xor_lane a24 b24]"
  by (simp add: xor_state_def)

lemma absorb_eval:
  "absorb S [] = S"
  "absorb S (b # bs) = absorb (keccak_f (xor_state S (block_lanes (take 136 (b # bs))))) (drop 136 (b # bs))"
  by (simp_all add: absorb.simps)

lemma replicate_num: "replicate (numeral k) x = x # replicate (pred_numeral k) x"
  by (simp add: numeral_eq_Suc)

lemmas keccak_eval = keccak_f_eval keccak_round_def theta_def theta_c_eval theta_d_eval
  theta_apply_eval rho_pi_eval chi_eval iota_eval word_lane_eval xor_lane_eval xor5_eval
  chi_lane_eval rotl_lane_eval xor_state_eval

lemmas sponge_in = keccak256_def keccak_pad_def absorb_eval block_lanes_def byte_bits_def
  zero_lane_def upt_rec replicate_num

lemmas sponge_out = squeeze_def lane_bytes_def bits_byte_def upt_rec
section \<open>Hash values\<close>

text \<open>Keccak-256 of the byte strings that the golden vector and its variants hash.\<close>

lemma keccak256_domain_type:
  "keccak256
    [0x45, 0x49, 0x50, 0x37, 0x31, 0x32, 0x44, 0x6f, 0x6d, 0x61, 0x69, 0x6e, 0x28, 0x75, 0x69, 0x6e,
     0x74, 0x32, 0x35, 0x36, 0x20, 0x63, 0x68, 0x61, 0x69, 0x6e, 0x49, 0x64, 0x2c, 0x61, 0x64, 0x64,
     0x72, 0x65, 0x73, 0x73, 0x20, 0x76, 0x65, 0x72, 0x69, 0x66, 0x79, 0x69, 0x6e, 0x67, 0x43, 0x6f,
     0x6e, 0x74, 0x72, 0x61, 0x63, 0x74, 0x29] =
    [0x47, 0xe7, 0x95, 0x34, 0xa2, 0x45, 0x95, 0x2e, 0x8b, 0x16, 0x89, 0x3a, 0x33, 0x6b, 0x85, 0xa3,
     0xd9, 0xea, 0x9f, 0xa8, 0xc5, 0x73, 0xf3, 0xd8, 0x03, 0xaf, 0xb9, 0x2a, 0x79, 0x46, 0x92, 0x18]"
  apply (simp add: sponge_in)
  apply (simp only: keccak_eval)
  apply (simp add: sponge_out)
  done

lemma keccak256_safe_tx_type:
  "keccak256
    [0x53, 0x61, 0x66, 0x65, 0x54, 0x78, 0x28, 0x61, 0x64, 0x64, 0x72, 0x65, 0x73, 0x73, 0x20, 0x74,
     0x6f, 0x2c, 0x75, 0x69, 0x6e, 0x74, 0x32, 0x35, 0x36, 0x20, 0x76, 0x61, 0x6c, 0x75, 0x65, 0x2c,
     0x62, 0x79, 0x74, 0x65, 0x73, 0x20, 0x64, 0x61, 0x74, 0x61, 0x2c, 0x75, 0x69, 0x6e, 0x74, 0x38,
     0x20, 0x6f, 0x70, 0x65, 0x72, 0x61, 0x74, 0x69, 0x6f, 0x6e, 0x2c, 0x75, 0x69, 0x6e, 0x74, 0x32,
     0x35, 0x36, 0x20, 0x73, 0x61, 0x66, 0x65, 0x54, 0x78, 0x47, 0x61, 0x73, 0x2c, 0x75, 0x69, 0x6e,
     0x74, 0x32, 0x35, 0x36, 0x20, 0x62, 0x61, 0x73, 0x65, 0x47, 0x61, 0x73, 0x2c, 0x75, 0x69, 0x6e,
     0x74, 0x32, 0x35, 0x36, 0x20, 0x67, 0x61, 0x73, 0x50, 0x72, 0x69, 0x63, 0x65, 0x2c, 0x61, 0x64,
     0x64, 0x72, 0x65, 0x73, 0x73, 0x20, 0x67, 0x61, 0x73, 0x54, 0x6f, 0x6b, 0x65, 0x6e, 0x2c, 0x61,
     0x64, 0x64, 0x72, 0x65, 0x73, 0x73, 0x20, 0x72, 0x65, 0x66, 0x75, 0x6e, 0x64, 0x52, 0x65, 0x63,
     0x65, 0x69, 0x76, 0x65, 0x72, 0x2c, 0x75, 0x69, 0x6e, 0x74, 0x32, 0x35, 0x36, 0x20, 0x6e, 0x6f,
     0x6e, 0x63, 0x65, 0x29] =
    [0xbb, 0x83, 0x10, 0xd4, 0x86, 0x36, 0x8d, 0xb6, 0xbd, 0x6f, 0x84, 0x94, 0x02, 0xfd, 0xd7, 0x3a,
     0xd5, 0x3d, 0x31, 0x6b, 0x5a, 0x4b, 0x26, 0x44, 0xad, 0x6e, 0xfe, 0x0f, 0x94, 0x12, 0x86, 0xd8]"
  apply (simp add: sponge_in)
  apply (simp only: keccak_eval)
  apply (simp add: sponge_out)
  done

lemma keccak256_golden_domain:
  "keccak256
    [0x47, 0xe7, 0x95, 0x34, 0xa2, 0x45, 0x95, 0x2e, 0x8b, 0x16, 0x89, 0x3a, 0x33, 0x6b, 0x85, 0xa3,
     0xd9, 0xea, 0x9f, 0xa8, 0xc5, 0x73, 0xf3, 0xd8, 0x03, 0xaf, 0xb9, 0x2a, 0x79, 0x46, 0x92, 0x18,
     0x00, 0x00, 0x00, 0x00, 0x00, 0x00, 0x00, 0x00, 0x00, 0x00, 0x00, 0x00, 0x00, 0x00, 0x00, 0x00,
     0x00, 0x00, 0x00, 0x00, 0x00, 0x00, 0x00, 0x00, 0x00, 0x00, 0x00, 0x00, 0x00, 0x00, 0xe7, 0x08,
     0x00, 0x00, 0x00, 0x00, 0x00, 0x00, 0x00, 0x00, 0x00, 0x00, 0x00, 0x00, 0xdb, 0x73, 0xba, 0x19,
     0xf0, 0x72, 0xd0, 0xfb, 0xc8, 0x65, 0x78, 0x1b, 0xa4, 0x68, 0xa9, 0xf8, 0xb7, 0x7a, 0xd2, 0xc4] =
    [0x7a, 0xe3, 0x81, 0x99, 0x92, 0xaf, 0x9c, 0xb3, 0x41, 0x6b, 0xfb, 0xfc, 0x48, 0x3b, 0x42, 0x78,
     0x68, 0xce, 0xc8, 0x25, 0x7a, 0xb8, 0x07, 0x44, 0x52, 0x12, 0xb4, 0x8a, 0x5c, 0xa8, 0x6d, 0xfd]"
  apply (simp add: sponge_in)
  apply (simp only: keccak_eval)
  apply (simp add: sponge_out)
  done

lemma keccak256_transfer_data:
  "keccak256
    [0xa9, 0x05, 0x9c, 0xbb, 0x00, 0x00, 0x00, 0x00, 0x00, 0x00, 0x00, 0x00, 0x00, 0x00, 0x00, 0x00,
     0x8b, 0x4b, 0x26, 0x8a, 0x9a, 0xa7, 0x97, 0xfd, 0x60, 0x88, 0x9e, 0x88, 0xac, 0x7b, 0xe9, 0xa0,
     0xc4, 0xb3, 0x7f, 0xf4, 0x00, 0x00, 0x00, 0x00, 0x00, 0x00, 0x00, 0x00, 0x00, 0x00, 0x00, 0x00,
     0x00, 0x00, 0x00, 0x00, 0x00, 0x00, 0x00, 0x00, 0x00, 0x00, 0x00, 0x00, 0x00, 0x00, 0x00, 0x05,
     0x11, 0xb5, 0xac, 0x00] =
    [0xd6, 0x84, 0x07, 0x86, 0xb4, 0x2c, 0xf7, 0x71, 0xeb, 0x97, 0xa3, 0x78, 0x4f, 0xf3, 0x4c, 0x52,
     0xd2, 0xb2, 0x21, 0x5a, 0xf0, 0x3e, 0x78, 0x83, 0xcf, 0x12, 0xf4, 0x64, 0xb8, 0x8e, 0xbd, 0xda]"
  apply (simp add: sponge_in)
  apply (simp only: keccak_eval)
  apply (simp add: sponge_out)
  done

lemma keccak256_example_tx:
  "keccak256
    [0xbb, 0x83, 0x10, 0xd4, 0x86, 0x36, 0x8d, 0xb6, 0xbd, 0x6f, 0x84, 0x94, 0x02, 0xfd, 0xd7, 0x3a,
     0xd5, 0x3d, 0x31, 0x6b, 0x5a, 0x4b, 0x26, 0x44, 0xad, 0x6e, 0xfe, 0x0f, 0x94, 0x12, 0x86, 0xd8,
     0x00, 0x00, 0x00, 0x00, 0x00, 0x00, 0x00, 0x00, 0x00, 0x00, 0x00, 0x00, 0x17, 0x62, 0x11, 0x86,
     0x9c, 0xa2, 0xb5, 0x68, 0xf2, 0xa7, 0xd4, 0xee, 0x94, 0x1e, 0x07, 0x3a, 0x82, 0x1e, 0xe1, 0xff,
     0x00, 0x00, 0x00, 0x00, 0x00, 0x00, 0x00, 0x00, 0x00, 0x00, 0x00, 0x00, 0x00, 0x00, 0x00, 0x00,
     0x00, 0x00, 0x00, 0x00, 0x00, 0x00, 0x00, 0x00, 0x00, 0x00, 0x00, 0x00, 0x00, 0x00, 0x00, 0x00,
     0xd6, 0x84, 0x07, 0x86, 0xb4, 0x2c, 0xf7, 0x71, 0xeb, 0x97, 0xa3, 0x78, 0x4f, 0xf3, 0x4c, 0x52,
     0xd2, 0xb2, 0x21, 0x5a, 0xf0, 0x3e, 0x78, 0x83, 0xcf, 0x12, 0xf4, 0x64, 0xb8, 0x8e, 0xbd, 0xda,
     0x00, 0x00, 0x00, 0x00, 0x00, 0x00, 0x00, 0x00, 0x00, 0x00, 0x00, 0x00, 0x00, 0x00, 0x00, 0x00,
     0x00, 0x00, 0x00, 0x00, 0x00, 0x00, 0x00, 0x00, 0x00, 0x00, 0x00, 0x00, 0x00, 0x00, 0x00, 0x00,
     0x00, 0x00, 0x00, 0x00, 0x00, 0x00, 0x00, 0x00, 0x00, 0x00, 0x00, 0x00, 0x00, 0x00, 0x00, 0x00,
     0x00, 0x00, 0x00, 0x00, 0x00, 0x00, 0x00, 0x00, 0x00, 0x00, 0x00, 0x00, 0x00, 0x00, 0x00, 0x00,
     0x00, 0x00, 0x00, 0x00, 0x00, 0x00, 0x00, 0x00, 0x00, 0x00, 0x00, 0x00, 0x00, 0x00, 0x00, 0x00,
     0x00, 0x00, 0x00, 0x00, 0x00, 0x00, 0x00, 0x00, 0x00, 0x00, 0x00, 0x00, 0x00, 0x00, 0x00, 0x00,
     0x00, 0x00, 0x00, 0x00, 0x00, 0x00, 0x00, 0x00, 0x00, 0x00, 0x00, 0x00, 0x00, 0x00, 0x00, 0x00,
     0x00, 0x00, 0x00, 0x00, 0x00, 0x00, 0x00, 0x00, 0x00, 0x00, 0x00, 0x00, 0x00, 0x00, 0x00, 0x00,
     0x00, 0x00, 0x00, 0x00, 0x00, 0x00, 0x00, 0x00, 0x00, 0x00, 0x00, 0x00, 0x00, 0x00, 0x00, 0x00,
     0x00, 0x00, 0x00, 0x00, 0x00, 0x00, 0x00, 0x00, 0x00, 0x00, 0x00, 0x00, 0x00, 0x00, 0x00, 0x00,
     0x00, 0x00, 0x00, 0x00, 0x00, 0x00, 0x00, 0x00, 0x00, 0x00, 0x00, 0x00, 0x00, 0x00, 0x00, 0x00,
     0x00, 0x00, 0x00, 0x00, 0x00, 0x00, 0x00, 0x00, 0x00, 0x00, 0x00, 0x00, 0x00, 0x00, 0x00, 0x00,
     0x00, 0x00, 0x00, 0x00, 0x00, 0x00, 0x00, 0x00, 0x00, 0x00, 0x00, 0x00, 0x00, 0x00, 0x00, 0x00,
     0x00, 0x00, 0x00, 0x00, 0x00, 0x00, 0x00, 0x00, 0x00, 0x00, 0x00, 0x00, 0x00, 0x00, 0x00, 0x3c] =
    [0xd7, 0xa2, 0x0b, 0xc0, 0xe1, 0x89, 0x61, 0xef, 0x47, 0xe5, 0x5f, 0x86, 0x8c, 0xdc, 0xd8, 0xd4,
     0x1a, 0x58, 0xbb, 0x68, 0x9e, 0xe1, 0x83, 0x7d, 0xaf, 0xe8, 0xaa, 0x99, 0xa5, 0x88, 0x49, 0x4a]"
  apply (simp add: sponge_in)
  apply (simp only: keccak_eval)
  apply (simp add: sponge_out)
  done

lemma keccak256_example_final:
  "keccak256
    [0x19, 0x01, 0x7a, 0xe3, 0x81, 0x99, 0x92, 0xaf, 0x9c, 0xb3, 0x41, 0x6b, 0xfb, 0xfc, 0x48, 0x3b,
     0x42, 0x78, 0x68, 0xce, 0xc8, 0x25, 0x7a, 0xb8, 0x07, 0x44, 0x52, 0x12, 0xb4, 0x8a, 0x5c, 0xa8,
     0x6d, 0xfd, 0xd7, 0xa2, 0x0b, 0xc0, 0xe1, 0x89, 0x61, 0xef, 0x47, 0xe5, 0x5f, 0x86, 0x8c, 0xdc,
     0xd8, 0xd4, 0x1a, 0x58, 0xbb, 0x68, 0x9e, 0xe1, 0x83, 0x7d, 0xaf, 0xe8, 0xaa, 0x99, 0xa5, 0x88,
     0x49, 0x4a] =
    [0x64, 0xb8, 0x65, 0xa1, 0x3a, 0x4d, 0x29, 0x68, 0xc6, 0xf6, 0x42, 0x8a, 0x44, 0x03, 0xa2, 0xdf,
     0x33, 0xc3, 0x51, 0x71, 0xd4, 0x82, 0x32, 0x22, 0x38, 0xbb, 0xac, 0x22, 0x69, 0x8e, 0x61, 0x89]"
  apply (simp add: sponge_in)
  apply (simp only: keccak_eval)
  apply (simp add: sponge_out)
  done

lemma keccak256_test_tx:
  "keccak256
    [0xbb, 0x83, 0x10, 0xd4, 0x86, 0x36, 0x8d, 0xb6, 0xbd, 0x6f, 0x84, 0x94, 0x02, 0xfd, 0xd7, 0x3a,
     0xd5, 0x3d, 0x31, 0x6b, 0x5a, 0x4b, 0x26, 0x44, 0xad, 0x6e, 0xfe, 0x0f, 0x94, 0x12, 0x86, 0xd8,
     0x00, 0x00, 0x00, 0x00, 0x00, 0x00, 0x00, 0x00, 0x00, 0x00, 0x00, 0x00, 0x8b, 0x4b, 0x26, 0x8a,
     0x9a, 0xa7, 0x97, 0xfd, 0x60, 0x88, 0x9e, 0x88, 0xac, 0x7b, 0xe9, 0xa0, 0xc4, 0xb3, 0x7f, 0xf4,
     0x00, 0x00, 0x00, 0x00, 0x00, 0x00, 0x00, 0x00, 0x00, 0x00, 0x00, 0x00, 0x00, 0x00, 0x00, 0x00,
     0x00, 0x00, 0x00, 0x00, 0x00, 0x00, 0x00, 0x00, 0x00, 0x00, 0x00, 0x00, 0x00, 0x00, 0x00, 0x00,
     0xd6, 0x84, 0x07, 0x86, 0xb4, 0x2c, 0xf7, 0x71, 0xeb, 0x97, 0xa3, 0x78, 0x4f, 0xf3, 0x4c, 0x52,
     0xd2, 0xb2, 0x21, 0x5a, 0xf0, 0x3e, 0x78, 0x83, 0xcf, 0x12, 0xf4, 0x64, 0xb8, 0x8e, 0xbd, 0xda,
     0x00, 0x00, 0x00, 0x00, 0x00, 0x00, 0x00, 0x00, 0x00, 0x00, 0x00, 0x00, 0x00, 0x00, 0x00, 0x00,
     0x00, 0x00, 0x00, 0x00, 0x00, 0x00, 0x00, 0x00, 0x00, 0x00, 0x00, 0x00, 0x00, 0x00, 0x00, 0x00,
     0x00, 0x00, 0x00, 0x00, 0x00, 0x00, 0x00, 0x00, 0x00, 0x00, 0x00, 0x00, 0x00, 0x00, 0x00, 0x00,
     0x00, 0x00, 0x00, 0x00, 0x00, 0x00, 0x00, 0x00, 0x00, 0x00, 0x00, 0x00, 0x00, 0x00, 0x00, 0x00,
     0x00, 0x00, 0x00, 0x00, 0x00, 0x00, 0x00, 0x00, 0x00, 0x00, 0x00, 0x00, 0x00, 0x00, 0x00, 0x00,
     0x00, 0x00, 0x00, 0x00, 0x00, 0x00, 0x00, 0x00, 0x00, 0x00, 0x00, 0x00, 0x00, 0x00, 0x00, 0x00,
     0x00, 0x00, 0x00, 0x00, 0x00, 0x00, 0x00, 0x00, 0x00, 0x00, 0x00, 0x00, 0x00, 0x00, 0x00, 0x00,
     0x00, 0x00, 0x00, 0x00, 0x00, 0x00, 0x00, 0x00, 0x00, 0x00, 0x00, 0x00, 0x00, 0x00, 0x00, 0x00,
     0x00, 0x00, 0x00, 0x00, 0x00, 0x00, 0x00, 0x00, 0x00, 0x00, 0x00, 0x00, 0x00, 0x00, 0x00, 0x00,
     0x00, 0x00, 0x00, 0x00, 0x00, 0x00, 0x00, 0x00, 0x00, 0x00, 0x00, 0x00, 0x00, 0x00, 0x00, 0x00,
     0x00, 0x00, 0x00, 0x00, 0x00, 0x00, 0x00, 0x00, 0x00, 0x00, 0x00, 0x00, 0x00, 0x00, 0x00, 0x00,
     0x00, 0x00, 0x00, 0x00, 0x00, 0x00, 0x00, 0x00, 0x00, 0x00, 0x00, 0x00, 0x00, 0x00, 0x00, 0x00,
     0x00, 0x00, 0x00, 0x00, 0x00, 0x00, 0x00, 0x00, 0x00, 0x00, 0x00, 0x00, 0x00, 0x00, 0x00, 0x00,
     0x00, 0x00, 0x00, 0x00, 0x00, 0x00, 0x00, 0x00, 0x00, 0x00, 0x00, 0x00, 0x00, 0x00, 0x00, 0x3c] =
    [0x08, 0xde, 0x30, 0x80, 0x16, 0xc0, 0xbd, 0x5b, 0x24, 0x62, 0x8c, 0x18, 0xab, 0x9d, 0x28, 0xb3,
     0xf1, 0x29, 0xa9, 0xaa, 0x9f, 0x40, 0x90, 0x0f, 0x6f, 0xc6, 0x22, 0xf8, 0x2b, 0xb1, 0x94, 0xa9]"
  apply (simp add: sponge_in)
  apply (simp only: keccak_eval)
  apply (simp add: sponge_out)
  done

lemma keccak256_test_final:
  "keccak256
    [0x19, 0x01, 0x7a, 0xe3, 0x81, 0x99, 0x92, 0xaf, 0x9c, 0xb3, 0x41, 0x6b, 0xfb, 0xfc, 0x48, 0x3b,
     0x42, 0x78, 0x68, 0xce, 0xc8, 0x25, 0x7a, 0xb8, 0x07, 0x44, 0x52, 0x12, 0xb4, 0x8a, 0x5c, 0xa8,
     0x6d, 0xfd, 0x08, 0xde, 0x30, 0x80, 0x16, 0xc0, 0xbd, 0x5b, 0x24, 0x62, 0x8c, 0x18, 0xab, 0x9d,
     0x28, 0xb3, 0xf1, 0x29, 0xa9, 0xaa, 0x9f, 0x40, 0x90, 0x0f, 0x6f, 0xc6, 0x22, 0xf8, 0x2b, 0xb1,
     0x94, 0xa9] =
    [0x1c, 0x8b, 0xb9, 0xfd, 0xc4, 0xd9, 0x57, 0xf7, 0x7d, 0xa1, 0x7b, 0xb7, 0xac, 0x5f, 0x42, 0xa9,
     0xc8, 0x9b, 0x33, 0x4c, 0x88, 0xfc, 0xf6, 0x19, 0x59, 0x68, 0xd4, 0xa9, 0x74, 0xc4, 0x6a, 0x84]"
  apply (simp add: sponge_in)
  apply (simp only: keccak_eval)
  apply (simp add: sponge_out)
  done

lemma keccak256_delegate_tx:
  "keccak256
    [0xbb, 0x83, 0x10, 0xd4, 0x86, 0x36, 0x8d, 0xb6, 0xbd, 0x6f, 0x84, 0x94, 0x02, 0xfd, 0xd7, 0x3a,
     0xd5, 0x3d, 0x31, 0x6b, 0x5a, 0x4b, 0x26, 0x44, 0xad, 0x6e, 0xfe, 0x0f, 0x94, 0x12, 0x86, 0xd8,
     0x00, 0x00, 0x00, 0x00, 0x00, 0x00, 0x00, 0x00, 0x00, 0x00, 0x00, 0x00, 0x17, 0x62, 0x11, 0x86,
     0x9c, 0xa2, 0xb5, 0x68, 0xf2, 0xa7, 0xd4, 0xee, 0x94, 0x1e, 0x07, 0x3a, 0x82, 0x1e, 0xe1, 0xff,
     0x00, 0x00, 0x00, 0x00, 0x00, 0x00, 0x00, 0x00, 0x00, 0x00, 0x00, 0x00, 0x00, 0x00, 0x00, 0x00,
     0x00, 0x00, 0x00, 0x00, 0x00, 0x00, 0x00, 0x00, 0x00, 0x00, 0x00, 0x00, 0x00, 0x00, 0x00, 0x00,
     0xd6, 0x84, 0x07, 0x86, 0xb4, 0x2c, 0xf7, 0x71, 0xeb, 0x97, 0xa3, 0x78, 0x4f, 0xf3, 0x4c, 0x52,
     0xd2, 0xb2, 0x21, 0x5a, 0xf0, 0x3e, 0x78, 0x83, 0xcf, 0x12, 0xf4, 0x64, 0xb8, 0x8e, 0xbd, 0xda,
     0x00, 0x00, 0x00, 0x00, 0x00, 0x00, 0x00, 0x00, 0x00, 0x00, 0x00, 0x00, 0x00, 0x00, 0x00, 0x00,
     0x00, 0x00, 0x00, 0x00, 0x00, 0x00, 0x00, 0x00, 0x00, 0x00, 0x00, 0x00, 0x00, 0x00, 0x00, 0x01,
     0x00, 0x00, 0x00, 0x00, 0x00, 0x00, 0x00, 0x00, 0x00, 0x00, 0x00, 0x00, 0x00, 0x00, 0x00, 0x00,
     0x00, 0x00, 0x00, 0x00, 0x00, 0x00, 0x00, 0x00, 0x00, 0x00, 0x00, 0x00, 0x00, 0x00, 0x00, 0x00,
     0x00, 0x00, 0x00, 0x00, 0x00, 0x00, 0x00, 0x00, 0x00, 0x00, 0x00, 0x00, 0x00, 0x00, 0x00, 0x00,
     0x00, 0x00, 0x00, 0x00, 0x00, 0x00, 0x00, 0x00, 0x00, 0x00, 0x00, 0x00, 0x00, 0x00, 0x00, 0x00,
     0x00, 0x00, 0x00, 0x00, 0x00, 0x00, 0x00, 0x00, 0x00, 0x00, 0x00, 0x00, 0x00, 0x00, 0x00, 0x00,
     0x00, 0x00, 0x00, 0x00, 0x00, 0x00, 0x00, 0x00, 0x00, 0x00, 0x00, 0x00, 0x00, 0x00, 0x00, 0x00,
     0x00, 0x00, 0x00, 0x00, 0x00, 0x00, 0x00, 0x00, 0x00, 0x00, 0x00, 0x00, 0x00, 0x00, 0x00, 0x00,
     0x00, 0x00, 0x00, 0x00, 0x00, 0x00, 0x00, 0x00, 0x00, 0x00, 0x00, 0x00, 0x00, 0x00, 0x00, 0x00,
     0x00, 0x00, 0x00, 0x00, 0x00, 0x00, 0x00, 0x00, 0x00, 0x00, 0x00, 0x00, 0x00, 0x00, 0x00, 0x00,
     0x00, 0x00, 0x00, 0x00, 0x00, 0x00, 0x00, 0x00, 0x00, 0x00, 0x00, 0x00, 0x00, 0x00, 0x00, 0x00,
     0x00, 0x00, 0x00, 0x00, 0x00, 0x00, 0x00, 0x00, 0x00, 0x00, 0x00, 0x00, 0x00, 0x00, 0x00, 0x00,
     0x00, 0x00, 0x00, 0x00, 0x00, 0x00, 0x00, 0x00, 0x00, 0x00, 0x00, 0x00, 0x00, 0x00, 0x00, 0x3c] =
    [0x83, 0xf4, 0x3b, 0x79, 0x35, 0xdd, 0x55, 0x7e, 0x8c, 0xc4, 0x8f, 0xee, 0x3e, 0xbf, 0xfb, 0xef,
     0x9f, 0x77, 0x73, 0xd5, 0x74, 0xdd, 0x9d, 0x3e, 0x2d, 0x0b, 0x93, 0x5b, 0xfb, 0x3a, 0xbd, 0xd6]"
  apply (simp add: sponge_in)
  apply (simp only: keccak_eval)
  apply (simp add: sponge_out)
  done

lemma keccak256_delegate_tx_right_padded:
  "keccak256
    [0xbb, 0x83, 0x10, 0xd4, 0x86, 0x36, 0x8d, 0xb6, 0xbd, 0x6f, 0x84, 0x94, 0x02, 0xfd, 0xd7, 0x3a,
     0xd5, 0x3d, 0x31, 0x6b, 0x5a, 0x4b, 0x26, 0x44, 0xad, 0x6e, 0xfe, 0x0f, 0x94, 0x12, 0x86, 0xd8,
     0x00, 0x00, 0x00, 0x00, 0x00, 0x00, 0x00, 0x00, 0x00, 0x00, 0x00, 0x00, 0x17, 0x62, 0x11, 0x86,
     0x9c, 0xa2, 0xb5, 0x68, 0xf2, 0xa7, 0xd4, 0xee, 0x94, 0x1e, 0x07, 0x3a, 0x82, 0x1e, 0xe1, 0xff,
     0x00, 0x00, 0x00, 0x00, 0x00, 0x00, 0x00, 0x00, 0x00, 0x00, 0x00, 0x00, 0x00, 0x00, 0x00, 0x00,
     0x00, 0x00, 0x00, 0x00, 0x00, 0x00, 0x00, 0x00, 0x00, 0x00, 0x00, 0x00, 0x00, 0x00, 0x00, 0x00,
     0xd6, 0x84, 0x07, 0x86, 0xb4, 0x2c, 0xf7, 0x71, 0xeb, 0x97, 0xa3, 0x78, 0x4f, 0xf3, 0x4c, 0x52,
     0xd2, 0xb2, 0x21, 0x5a, 0xf0, 0x3e, 0x78, 0x83, 0xcf, 0x12, 0xf4, 0x64, 0xb8, 0x8e, 0xbd, 0xda,
     0x01, 0x00, 0x00, 0x00, 0x00, 0x00, 0x00, 0x00, 0x00, 0x00, 0x00, 0x00, 0x00, 0x00, 0x00, 0x00,
     0x00, 0x00, 0x00, 0x00, 0x00, 0x00, 0x00, 0x00, 0x00, 0x00, 0x00, 0x00, 0x00, 0x00, 0x00, 0x00,
     0x00, 0x00, 0x00, 0x00, 0x00, 0x00, 0x00, 0x00, 0x00, 0x00, 0x00, 0x00, 0x00, 0x00, 0x00, 0x00,
     0x00, 0x00, 0x00, 0x00, 0x00, 0x00, 0x00, 0x00, 0x00, 0x00, 0x00, 0x00, 0x00, 0x00, 0x00, 0x00,
     0x00, 0x00, 0x00, 0x00, 0x00, 0x00, 0x00, 0x00, 0x00, 0x00, 0x00, 0x00, 0x00, 0x00, 0x00, 0x00,
     0x00, 0x00, 0x00, 0x00, 0x00, 0x00, 0x00, 0x00, 0x00, 0x00, 0x00, 0x00, 0x00, 0x00, 0x00, 0x00,
     0x00, 0x00, 0x00, 0x00, 0x00, 0x00, 0x00, 0x00, 0x00, 0x00, 0x00, 0x00, 0x00, 0x00, 0x00, 0x00,
     0x00, 0x00, 0x00, 0x00, 0x00, 0x00, 0x00, 0x00, 0x00, 0x00, 0x00, 0x00, 0x00, 0x00, 0x00, 0x00,
     0x00, 0x00, 0x00, 0x00, 0x00, 0x00, 0x00, 0x00, 0x00, 0x00, 0x00, 0x00, 0x00, 0x00, 0x00, 0x00,
     0x00, 0x00, 0x00, 0x00, 0x00, 0x00, 0x00, 0x00, 0x00, 0x00, 0x00, 0x00, 0x00, 0x00, 0x00, 0x00,
     0x00, 0x00, 0x00, 0x00, 0x00, 0x00, 0x00, 0x00, 0x00, 0x00, 0x00, 0x00, 0x00, 0x00, 0x00, 0x00,
     0x00, 0x00, 0x00, 0x00, 0x00, 0x00, 0x00, 0x00, 0x00, 0x00, 0x00, 0x00, 0x00, 0x00, 0x00, 0x00,
     0x00, 0x00, 0x00, 0x00, 0x00, 0x00, 0x00, 0x00, 0x00, 0x00, 0x00, 0x00, 0x00, 0x00, 0x00, 0x00,
     0x00, 0x00, 0x00, 0x00, 0x00, 0x00, 0x00, 0x00, 0x00, 0x00, 0x00, 0x00, 0x00, 0x00, 0x00, 0x3c] =
    [0xc3, 0x07, 0xed, 0x5a, 0xfa, 0xf8, 0xff, 0xb3, 0xd0, 0x72, 0x25, 0xa4, 0x93, 0x40, 0x16, 0x7d,
     0xbd, 0x89, 0x49, 0x61, 0xb0, 0x94, 0x16, 0xa9, 0xb1, 0x28, 0x4c, 0x8b, 0xa2, 0x5e, 0x0b, 0xd2]"
  apply (simp add: sponge_in)
  apply (simp only: keccak_eval)
  apply (simp add: sponge_out)
  done

lemma keccak256_large_domain:
  "keccak256
    [0x47, 0xe7, 0x95, 0x34, 0xa2, 0x45, 0x95, 0x2e, 0x8b, 0x16, 0x89, 0x3a, 0x33, 0x6b, 0x85, 0xa3,
     0xd9, 0xea, 0x9f, 0xa8, 0xc5, 0x73, 0xf3, 0xd8, 0x03, 0xaf, 0xb9, 0x2a, 0x79, 0x46, 0x92, 0x18,
     0x00, 0x00, 0x00, 0x00, 0x00, 0x00, 0x00, 0x00, 0x00, 0x00, 0x00, 0x00, 0x00, 0x00, 0x00, 0x00,
     0x00, 0x00, 0x00, 0x00, 0x00, 0x00, 0x00, 0x00, 0x00, 0x20, 0x00, 0x00, 0x00, 0x00, 0x00, 0x00,
     0x00, 0x00, 0x00, 0x00, 0x00, 0x00, 0x00, 0x00, 0x00, 0x00, 0x00, 0x00, 0xdb, 0x73, 0xba, 0x19,
     0xf0, 0x72, 0xd0, 0xfb, 0xc8, 0x65, 0x78, 0x1b, 0xa4, 0x68, 0xa9, 0xf8, 0xb7, 0x7a, 0xd2, 0xc4] =
    [0xda, 0x3c, 0xd8, 0xb3, 0x27, 0xc6, 0x19, 0x9e, 0x77, 0xbf, 0xb5, 0x68, 0x6d, 0xe0, 0xc7, 0xe8,
     0x3b, 0xf8, 0xe0, 0xb3, 0x7a, 0x8b, 0x68, 0xf4, 0x65, 0xea, 0xec, 0x39, 0x63, 0xf0, 0xcb, 0xab]"
  apply (simp add: sponge_in)
  apply (simp only: keccak_eval)
  apply (simp add: sponge_out)
  done

lemma keccak256_large_final:
  "keccak256
    [0x19, 0x01, 0xda, 0x3c, 0xd8, 0xb3, 0x27, 0xc6, 0x19, 0x9e, 0x77, 0xbf, 0xb5, 0x68, 0x6d, 0xe0,
     0xc7, 0xe8, 0x3b, 0xf8, 0xe0, 0xb3, 0x7a, 0x8b, 0x68, 0xf4, 0x65, 0xea, 0xec, 0x39, 0x63, 0xf0,
     0xcb, 0xab, 0xd7, 0xa2, 0x0b, 0xc0, 0xe1, 0x89, 0x61, 0xef, 0x47, 0xe5, 0x5f, 0x86, 0x8c, 0xdc,
     0xd8, 0xd4, 0x1a, 0x58, 0xbb, 0x68, 0x9e, 0xe1, 0x83, 0x7d, 0xaf, 0xe8, 0xaa, 0x99, 0xa5, 0x88,
     0x49, 0x4a] =
    [0xec, 0xb4, 0x55, 0x08, 0xb5, 0x28, 0x53, 0xc6, 0x02, 0x68, 0xcb, 0xf1, 0x83, 0x32, 0x2a, 0x2e,
     0x8b, 0x45, 0x2f, 0x97, 0x7c, 0x4c, 0xcf, 0xa2, 0x67, 0x90, 0x2c, 0xf6, 0x36, 0xb3, 0xd2, 0x1c]"
  apply (simp add: sponge_in)
  apply (simp only: keccak_eval)
  apply (simp add: sponge_out)
  done
section \<open>Properties of the encoders and of Keccak-256\<close>

lemma length_be_bytes: "length (be_bytes n v) = n"
  by (simp add: be_bytes_def)

lemma be_bytes_Suc: "be_bytes (Suc n) v = be_bytes n (v div 256) @ [word_of_int (v mod 256)]"
proof -
  have "\<And>i. i < n \<Longrightarrow> v div 256 ^ (n - i) = v div 256 div 256 ^ (n - 1 - i)"
  proof -
    fix i assume "i < n"
    then have "n - i = Suc (n - 1 - i)" by simp
    then show "v div 256 ^ (n - i) = v div 256 div 256 ^ (n - 1 - i)"
      by (simp add: zdiv_zmult2_eq)
  qed
  then show ?thesis
    by (simp add: be_bytes_def)
qed

lemma be_value_snoc: "be_value (bs @ [b]) = 256 * be_value bs + uint b"
  by (simp add: be_value_def)

lemma uint_byte_mod: "uint (word_of_int (v mod 256) :: byte) = v mod 256"
  by (simp add: uint_word_of_int)

lemma be_value_be_bytes_mod: "be_value (be_bytes n v) = v mod 256 ^ n"
proof (induction n arbitrary: v)
  case 0
  show ?case by (simp add: be_bytes_def be_value_def)
next
  case (Suc n)
  have "be_value (be_bytes (Suc n) v) = 256 * ((v div 256) mod 256 ^ n) + v mod 256"
    by (simp add: be_bytes_Suc be_value_snoc uint_byte_mod Suc.IH)
  also have "\<dots> = v mod 256 ^ Suc n"
    by (simp add: zmod_zmult2_eq)
  finally show ?case .
qed

lemma be_value_be_bytes: "0 \<le> v \<Longrightarrow> v < 256 ^ n \<Longrightarrow> be_value (be_bytes n v) = v"
  by (simp add: be_value_be_bytes_mod)


lemma length_iota: "length (iota rc A) = length A"
  by (cases A) (simp_all add: iota_def)

lemma length_keccak_round: "length (keccak_round rc A) = 25"
  by (simp add: keccak_round_def length_iota chi_def)

lemma length_keccak_f: "length (keccak_f A) = 25"
  by (simp only: keccak_f_eval length_keccak_round)

lemma length_absorb: "length S = 25 \<Longrightarrow> length (absorb S bs) = 25"
proof (induction S bs rule: absorb.induct)
  case (1 S bs)
  show ?case
  proof (cases "bs = []")
    case True
    with 1 show ?thesis by (simp add: absorb.simps)
  next
    case False
    have "absorb S bs = absorb (keccak_f (xor_state S (block_lanes (take 136 bs)))) (drop 136 bs)"
      using False by (subst absorb.simps) simp
    with 1(1) [OF False] show ?thesis by (simp add: length_keccak_f)
  qed
qed

lemma length_concat_lane_bytes: "length (concat (map lane_bytes ls)) = 8 * length ls"
  by (induction ls) (simp_all add: lane_bytes_def)

lemma length_keccak256: "length (keccak256 m) = 32"
  by (simp add: keccak256_def squeeze_def length_concat_lane_bytes length_absorb)

lemma length_left_padded: "length (left_padded a) = 32"
  by (simp add: left_padded_def length_be_bytes)

lemma encode_words_Inr:
  "encode_words enc args = Inr r \<Longrightarrow> list_all (\<lambda>a. \<exists>w. enc a = Inr w) args"
  by (induction args arbitrary: r) (auto split: sum.splits)

lemma maxValue_uint256: "v \<le> maxValue \<Longrightarrow> v < 2 ^ 256"
  by (simp add: maxValue_def)

lemma encode_arg_bigint:
  "encode_arg (Uint256 (BigInt v)) =
     (if uint256_ok v then Inr (be_bytes 32 v) else Inl VALUE_OUT_OF_BOUNDS)"
  by (auto simp add: NumberCoder_encode_def uint256_ok_def)

lemma encode_arg_number:
  "safe_number_ok v \<Longrightarrow> encode_arg (Uint256 (Number v)) = Inr (be_bytes 32 v)"
  using maxValue_uint256 [of v]
  by (auto simp add: NumberCoder_encode_def safe_number_ok_def)

lemma encode_arg_number_Inr:
  "encode_arg (Uint256 (Number v)) = Inr w \<Longrightarrow> safe_number_ok v"
  by (auto simp add: NumberCoder_encode_def safe_number_ok_def split: if_splits)

lemma encode_arg_operation:
  "encode_arg (Uint8 (Number (operation_number op))) = Inr (big_endian_operation op)"
  by (cases op) (simp_all add: NumberCoder_encode_def maxValue_def big_endian_operation_def)

lemma prepareParam_bigint:
  "prepareParam (Uint256 (BigInt v)) =
     (if uint256_ok v then Inr (be_bytes 32 v) else Inl VALUE_OUT_OF_BOUNDS)"
  by (auto simp add: encodeNumber_def uint256_ok_def)

lemma prepareParam_operation:
  "prepareParam (Uint8 (Number (operation_number op))) = Inr (big_endian_operation op)"
  by (cases op) (simp_all add: encodeNumber_def big_endian_operation_def)

lemma Ethers_constructor_valid:
  "Ethers_valid_domain d \<Longrightarrow>
   Ethers_constructor d =
     Inr \<lparr>DOMAIN_SEPARATOR_TYPEHASH = keccak256 (toUtf8Bytes DOMAIN_TYPE),
          SAFE_TX_TYPEHASH = keccak256 (toUtf8Bytes SAFE_TX_TYPE), domain = d,
          Hasher.domainHash =
            keccak256 (keccak256 (toUtf8Bytes DOMAIN_TYPE) @ be_bytes 32 (chainId d)
                       @ left_padded (verifyingContract d))\<rparr>"
  by (simp add: Ethers_constructor_def Ethers_calculateDomainHash_def Ethers_valid_domain_def
      abi_encode_def encode_arg_number length_keccak256 left_padded_def Let_def
      del: encode_arg.simps(3))

lemma Ethers_constructor_Inr: "Ethers_constructor d = Inr h \<Longrightarrow> Ethers_valid_domain d"
  by (auto simp add: Ethers_constructor_def Ethers_calculateDomainHash_def Ethers_valid_domain_def
      abi_encode_def Let_def length_keccak256 intro: encode_arg_number_Inr
      simp del: encode_arg.simps(3) split: sum.splits)

lemma Viem_constructor_valid:
  "Viem_valid_domain d \<Longrightarrow>
   Viem_constructor d =
     Inr \<lparr>DOMAIN_SEPARATOR_TYPEHASH = keccak256 (toUtf8Bytes DOMAIN_TYPE),
          SAFE_TX_TYPEHASH = keccak256 (toUtf8Bytes SAFE_TX_TYPE), domain = d,
          Hasher.domainHash =
            keccak256 (keccak256 (toUtf8Bytes DOMAIN_TYPE) @ be_bytes 32 (chainId d)
                       @ left_padded (verifyingContract d))\<rparr>"
  by (simp add: Viem_constructor_def Viem_calculateDomainHash_def Viem_valid_domain_def
      encodeAbiParameters_def prepareParam_bigint length_keccak256 left_padded_def Let_def
      toHex_def del: prepareParam.simps(3))

lemma Viem_constructor_Inr: "Viem_constructor d = Inr h \<Longrightarrow> Viem_valid_domain d"
  by (auto simp add: Viem_constructor_def Viem_calculateDomainHash_def Viem_valid_domain_def
      encodeAbiParameters_def Let_def length_keccak256 prepareParam_bigint
      simp del: prepareParam.simps(3) split: sum.splits if_splits)

lemma Ethers_raw_valid:
  "Ethers_valid_tx tx \<Longrightarrow> SAFE_TX_TYPEHASH h = keccak256 t \<Longrightarrow>
   Ethers_calculateRawSafeTxHash h tx =
     Inr (keccak256 (struct_encoding big_endian_operation (keccak256 t) tx))"
  by (simp add: Ethers_calculateRawSafeTxHash_def Ethers_valid_tx_def bigints_ok_def
      abi_encode_def encode_arg_bigint encode_arg_number encode_arg_operation length_keccak256
      left_padded_def struct_encoding_def Let_def del: encode_arg.simps(3,4))

lemma Ethers_raw_Inr: "Ethers_calculateRawSafeTxHash h tx = Inr m \<Longrightarrow> Ethers_valid_tx tx"
proof -
  assume "Ethers_calculateRawSafeTxHash h tx = Inr m"
  then obtain r where "abi_encode
      [Bytes32 (SAFE_TX_TYPEHASH h), Address (to tx), Uint256 (BigInt (SafeTransactionParams.value tx)),
       Bytes32 (keccak256 (data tx)), Uint8 (Number (operation_number (operation tx))),
       Uint256 (BigInt (safeTxGas tx)), Uint256 (BigInt (baseGas tx)),
       Uint256 (BigInt (gasPrice tx)), Address (gasToken tx),
       Address (refundReceiver tx), Uint256 (Number (nonce tx))] = Inr r"
    by (auto simp add: Ethers_calculateRawSafeTxHash_def Let_def split: sum.splits)
  from encode_words_Inr [OF this [unfolded abi_encode_def]] show ?thesis
    by (auto simp add: Ethers_valid_tx_def bigints_ok_def encode_arg_bigint
        intro: encode_arg_number_Inr simp del: encode_arg.simps(3,4) split: if_splits)
qed

lemma Viem_raw_valid:
  "Viem_valid_tx tx \<Longrightarrow> SAFE_TX_TYPEHASH h = keccak256 t \<Longrightarrow>
   Viem_calculateRawSafeTxHash h tx =
     Inr (keccak256 (struct_encoding big_endian_operation (keccak256 t) tx))"
  by (simp add: Viem_calculateRawSafeTxHash_def Viem_valid_tx_def bigints_ok_def
      encodeAbiParameters_def prepareParam_bigint prepareParam_operation length_keccak256
      left_padded_def struct_encoding_def Let_def del: prepareParam.simps(3,4))

lemma Viem_raw_Inr: "Viem_calculateRawSafeTxHash h tx = Inr m \<Longrightarrow> Viem_valid_tx tx"
proof -
  assume "Viem_calculateRawSafeTxHash h tx = Inr m"
  then obtain r where "encodeAbiParameters
      [Bytes32 (SAFE_TX_TYPEHASH h), Address (to tx), Uint256 (BigInt (SafeTransactionParams.value tx)),
       Bytes32 (keccak256 (data tx)), Uint8 (Number (operation_number (operation tx))),
       Uint256 (BigInt (safeTxGas tx)), Uint256 (BigInt (baseGas tx)),
       Uint256 (BigInt (gasPrice tx)), Address (gasToken tx),
       Address (refundReceiver tx), Uint256 (BigInt (nonce tx))] = Inr r"
    by (auto simp add: Viem_calculateRawSafeTxHash_def Let_def split: sum.splits)
  from encode_words_Inr [OF this [unfolded encodeAbiParameters_def]] show ?thesis
    by (auto simp add: Viem_valid_tx_def bigints_ok_def prepareParam_bigint
        simp del: prepareParam.simps(3,4) split: if_splits)
qed

lemma length_struct_encoding:
  "length typehash = 32 \<Longrightarrow> length (struct_encoding big_endian_operation typehash tx) = 352"
  by (simp add: struct_encoding_def big_endian_operation_def length_left_padded
      length_be_bytes length_keccak256)


lemma be_value_replicate_zero: "be_value (replicate k 0 @ bs) = be_value bs"
proof -
  have "foldl (\<lambda>acc b. 256 * acc + uint b) 0 (replicate k (0 :: byte)) = 0"
    by (induction k) simp_all
  then show ?thesis by (simp add: be_value_def)
qed

lemma be_value_left_padded: "be_value (left_padded a) = uint a"
proof -
  have "uint a < 2 ^ 160"
    using uint_bounded [of a] by simp
  then have "uint a < 256 ^ 20" by simp
  then show ?thesis
    by (simp add: left_padded_def be_value_replicate_zero be_value_be_bytes)
qed

lemma be_value_uint256: "uint256_ok v \<Longrightarrow> be_value (be_bytes 32 v) = v"
  by (simp add: uint256_ok_def be_value_be_bytes)

lemma big_endian_operation_bytes:
  "big_endian_operation op = replicate 31 0 @ [word_of_int (operation_number op)]"
  by (cases op) (simp_all add: big_endian_operation_def be_bytes_def upt_rec replicate_num)

lemma be_value_operation: "be_value (big_endian_operation op) = operation_number op"
  by (cases op) (simp_all add: big_endian_operation_def be_value_be_bytes)

lemma Ethers_final_of_raw:
  "Ethers_calculateRawSafeTxHash h tx = Inr m \<Longrightarrow>
   Ethers_calculateFinalSafeTxHash h tx = Inr (keccak256 ([0x19, 0x01] @ Hasher.domainHash h @ m))"
  by (simp add: Ethers_calculateFinalSafeTxHash_def)

lemma Ethers_all_of_raw:
  "Ethers_calculateRawSafeTxHash h tx = Inr m \<Longrightarrow>
   Ethers_getAllHashes h tx =
     Inr \<lparr>safeTxHash = keccak256 ([0x19, 0x01] @ Hasher.domainHash h @ m),
          domainHash = Hasher.domainHash h, messageHash = m\<rparr>"
  by (simp add: Ethers_getAllHashes_def Ethers_final_of_raw)

lemma Viem_final_of_raw:
  "Viem_calculateRawSafeTxHash h tx = Inr m \<Longrightarrow>
   Viem_calculateFinalSafeTxHash h tx = Inr (keccak256 ([0x19, 0x01] @ Hasher.domainHash h @ m))"
  by (simp add: Viem_calculateFinalSafeTxHash_def)

lemma Viem_all_of_raw:
  "Viem_calculateRawSafeTxHash h tx = Inr m \<Longrightarrow>
   Viem_getAllHashes h tx =
     Inr \<lparr>safeTxHash = keccak256 ([0x19, 0x01] @ Hasher.domainHash h @ m),
          domainHash = Hasher.domainHash h, messageHash = m\<rparr>"
  by (simp add: Viem_getAllHashes_def Viem_final_of_raw)

section \<open>The golden vector, evaluated\<close>

lemma domain_typehash_value:
  "keccak256 (toUtf8Bytes DOMAIN_TYPE) =
    [0x47, 0xe7, 0x95, 0x34, 0xa2, 0x45, 0x95, 0x2e, 0x8b, 0x16, 0x89, 0x3a, 0x33, 0x6b, 0x85, 0xa3,
     0xd9, 0xea, 0x9f, 0xa8, 0xc5, 0x73, 0xf3, 0xd8, 0x03, 0xaf, 0xb9, 0x2a, 0x79, 0x46, 0x92, 0x18]"
  by (simp add: toUtf8Bytes_def DOMAIN_TYPE_def keccak256_domain_type)

lemma safe_tx_typehash_value:
  "keccak256 (toUtf8Bytes SAFE_TX_TYPE) =
    [0xbb, 0x83, 0x10, 0xd4, 0x86, 0x36, 0x8d, 0xb6, 0xbd, 0x6f, 0x84, 0x94, 0x02, 0xfd, 0xd7, 0x3a,
     0xd5, 0x3d, 0x31, 0x6b, 0x5a, 0x4b, 0x26, 0x44, 0xad, 0x6e, 0xfe, 0x0f, 0x94, 0x12, 0x86, 0xd8]"
  by (simp add: toUtf8Bytes_def SAFE_TX_TYPE_def keccak256_safe_tx_type)

lemmas hasher_defs = Ethers_hashes_def Ethers_getAllHashes_def Ethers_calculateFinalSafeTxHash_def
  Ethers_calculateRawSafeTxHash_def Ethers_constructor_def Ethers_calculateDomainHash_def
  Viem_hashes_def Viem_getAllHashes_def Viem_calculateFinalSafeTxHash_def
  Viem_calculateRawSafeTxHash_def Viem_constructor_def Viem_calculateDomainHash_def
  toHex_def encodeAbiParameters_def abi_encode_def NumberCoder_encode_def encodeNumber_def
  maxValue_def

lemmas golden_eval = hasher_defs domain_typehash_value safe_tx_typehash_value
  goldenDomain_def goldenTx_def transferData_def testRecipient_def exampleRecipient_def
  be_bytes_def upt_rec replicate_num keccak256_golden_domain keccak256_transfer_data
  hashes_text_def hexlify_def hex_byte_def hex_digit_def

lemma Ethers_hashes_example:
  "Ethers_hashes goldenDomain (goldenTx exampleRecipient Call) =
     Inr (''0x7ae3819992af9cb3416bfbfc483b427868cec8257ab807445212b48a5ca86dfd'',
          ''0xd7a20bc0e18961ef47e55f868cdcd8d41a58bb689ee1837dafe8aa99a588494a'',
          ''0x64b865a13a4d2968c6f6428a4403a2df33c35171d482322238bbac22698e6189'')"
  by (simp add: golden_eval keccak256_example_tx keccak256_example_final)

lemma Viem_hashes_example:
  "Viem_hashes goldenDomain (goldenTx exampleRecipient Call) =
     Inr (''0x7ae3819992af9cb3416bfbfc483b427868cec8257ab807445212b48a5ca86dfd'',
          ''0xd7a20bc0e18961ef47e55f868cdcd8d41a58bb689ee1837dafe8aa99a588494a'',
          ''0x64b865a13a4d2968c6f6428a4403a2df33c35171d482322238bbac22698e6189'')"
  by (simp add: golden_eval keccak256_example_tx keccak256_example_final)

lemma Ethers_hashes_test:
  "Ethers_hashes goldenDomain (goldenTx testRecipient Call) =
     Inr (''0x7ae3819992af9cb3416bfbfc483b427868cec8257ab807445212b48a5ca86dfd'',
          ''0x08de308016c0bd5b24628c18ab9d28b3f129a9aa9f40900f6fc622f82bb194a9'',
          ''0x1c8bb9fdc4d957f77da17bb7ac5f42a9c89b334c88fcf6195968d4a974c46a84'')"
  by (simp add: golden_eval keccak256_test_tx keccak256_test_final)

lemma Viem_hashes_test:
  "Viem_hashes goldenDomain (goldenTx testRecipient Call) =
     Inr (''0x7ae3819992af9cb3416bfbfc483b427868cec8257ab807445212b48a5ca86dfd'',
          ''0x08de308016c0bd5b24628c18ab9d28b3f129a9aa9f40900f6fc622f82bb194a9'',
          ''0x1c8bb9fdc4d957f77da17bb7ac5f42a9c89b334c88fcf6195968d4a974c46a84'')"
  by (simp add: golden_eval keccak256_test_tx keccak256_test_final)

lemma Ethers_messageHash_delegate:
  "Ethers_messageHash goldenDomain (goldenTx exampleRecipient DelegateCall) =
     Inr [0x83, 0xf4, 0x3b, 0x79, 0x35, 0xdd, 0x55, 0x7e, 0x8c, 0xc4, 0x8f, 0xee, 0x3e, 0xbf, 0xfb, 0xef,
          0x9f, 0x77, 0x73, 0xd5, 0x74, 0xdd, 0x9d, 0x3e, 0x2d, 0x0b, 0x93, 0x5b, 0xfb, 0x3a, 0xbd, 0xd6]"
  by (simp add: Ethers_messageHash_def golden_eval keccak256_delegate_tx)

lemma Viem_messageHash_delegate:
  "Viem_messageHash goldenDomain (goldenTx exampleRecipient DelegateCall) =
     Inr [0x83, 0xf4, 0x3b, 0x79, 0x35, 0xdd, 0x55, 0x7e, 0x8c, 0xc4, 0x8f, 0xee, 0x3e, 0xbf, 0xfb, 0xef,
          0x9f, 0x77, 0x73, 0xd5, 0x74, 0xdd, 0x9d, 0x3e, 0x2d, 0x0b, 0x93, 0x5b, 0xfb, 0x3a, 0xbd, 0xd6]"
  by (simp add: Viem_messageHash_def golden_eval keccak256_delegate_tx)

lemma right_padded_hash_delegate:
  "keccak256 (struct_encoding right_padded_operation (keccak256 (toUtf8Bytes SAFE_TX_TYPE))
                (goldenTx exampleRecipient DelegateCall)) =
     [0xc3, 0x07, 0xed, 0x5a, 0xfa, 0xf8, 0xff, 0xb3, 0xd0, 0x72, 0x25, 0xa4, 0x93, 0x40, 0x16, 0x7d,
      0xbd, 0x89, 0x49, 0x61, 0xb0, 0x94, 0x16, 0xa9, 0xb1, 0x28, 0x4c, 0x8b, 0xa2, 0x5e, 0x0b, 0xd2]"
  by (simp add: struct_encoding_def right_padded_operation_def left_padded_def golden_eval
      keccak256_delegate_tx_right_padded)


section \<open>A chain id or a nonce that is not a safe integer\<close>

lemma Ethers_constructor_large: "Ethers_constructor largeDomain = Inl OVERFLOW"
  by (simp add: Ethers_constructor_def Ethers_calculateDomainHash_def abi_encode_def
      NumberCoder_encode_def maxValue_def largeDomain_def length_keccak256 Let_def)

lemma Ethers_hashes_large:
  "Ethers_hashes largeDomain (goldenTx exampleRecipient Call) = Inl OVERFLOW"
  by (simp add: Ethers_hashes_def Ethers_constructor_large)

lemma Viem_hashes_large:
  "Viem_hashes largeDomain (goldenTx exampleRecipient Call) =
     Inr (''0xda3cd8b327c6199e77bfb5686de0c7e83bf8e0b37a8b68f465eaec3963f0cbab'',
          ''0xd7a20bc0e18961ef47e55f868cdcd8d41a58bb689ee1837dafe8aa99a588494a'',
          ''0xecb45508b52853c60268cbf183322a2e8b452f977c4ccfa267902cf636b3d21c'')"
  by (simp add: golden_eval largeDomain_def keccak256_large_domain keccak256_example_tx
      keccak256_large_final)

lemma Ethers_messageHash_large_nonce:
  "Ethers_messageHash goldenDomain (goldenTx exampleRecipient Call\<lparr>nonce := 9007199254740992\<rparr>) =
     Inl OVERFLOW"
  by (simp add: Ethers_messageHash_def golden_eval)

lemma Viem_messageHash_large_nonce:
  "\<exists>m. Viem_messageHash goldenDomain (goldenTx exampleRecipient Call\<lparr>nonce := 9007199254740992\<rparr>) =
     Inr m"
proof -
  have d: "Viem_valid_domain goldenDomain"
    by (simp add: Viem_valid_domain_def uint256_ok_def goldenDomain_def)
  have t: "Viem_valid_tx (goldenTx exampleRecipient Call\<lparr>nonce := 9007199254740992\<rparr>)"
    by (simp add: Viem_valid_tx_def bigints_ok_def uint256_ok_def goldenTx_def)
  show ?thesis
    using Viem_constructor_valid [OF d] Viem_raw_valid [OF t]
    by (simp add: Viem_messageHash_def)
qed

text \<open>Where the ethers hasher has hashes, the viem hasher has the same.\<close>

lemma safe_number_uint256: "safe_number_ok v \<Longrightarrow> uint256_ok v"
  using maxValue_uint256 [of v] by (simp add: safe_number_ok_def uint256_ok_def)

lemma Viem_constructor_safe:
  "Ethers_valid_domain d \<Longrightarrow> Viem_constructor d = Ethers_constructor d"
  by (simp add: Ethers_constructor_valid Viem_constructor_valid Viem_valid_domain_def
      Ethers_valid_domain_def safe_number_uint256)

lemma Viem_hashes_safe:
  assumes "Ethers_valid_domain d" and "Ethers_valid_tx tx"
  shows "Viem_hashes d tx = Ethers_hashes d tx"
proof -
  from assms(2) have v: "Viem_valid_tx tx"
    by (simp add: Viem_valid_tx_def Ethers_valid_tx_def safe_number_uint256)
  obtain h where h: "Ethers_constructor d = Inr h"
    and sth: "SAFE_TX_TYPEHASH h = keccak256 (toUtf8Bytes SAFE_TX_TYPE)"
    using Ethers_constructor_valid [OF assms(1)] by simp
  have e: "Ethers_getAllHashes h tx = Viem_getAllHashes h tx"
    using Ethers_all_of_raw [OF Ethers_raw_valid [OF assms(2) sth]]
      Viem_all_of_raw [OF Viem_raw_valid [OF v sth]] by simp
  show ?thesis
    using h e by (simp add: Viem_hashes_def Ethers_hashes_def Viem_constructor_safe [OF assms(1)])
qed

lemma goldenTx_data: "data (goldenTx recipient op) = transferData"
  by (simp add: goldenTx_def)
section \<open>Properties of the decoder\<close>

lemma length_js: "length (js s) = length s"
  by (simp add: js_def)

lemma startsWith_0x: "startsWith s (js ''0x'') = (take 2 s = js ''0x'')"
  by (simp add: startsWith_def js_def numeral_2_eq_2)

lemma take2_length: "take 2 s = js ''0x'' \<Longrightarrow> 2 \<le> length s"
proof -
  assume "take 2 s = js ''0x''"
  then have "length (take 2 s) = 2" by (simp add: js_def)
  then show ?thesis by simp
qed

lemma odd_payload: "2 \<le> length s \<Longrightarrow> ((int (length s) - 2) mod 2 \<noteq> 0) = odd (length (drop 2 s))"
  by (simp add: of_nat_diff [symmetric] even_iff_mod_2_eq_zero del: of_nat_diff) presburger

lemma validateHexData_cases:
  "validateHexData s =
     (if s = [] then \<lparr>valid = False, error = Some (js ''Data is empty'')\<rparr>
      else if take 2 s \<noteq> js ''0x'' then
        \<lparr>valid = False, error = Some (js ''Hex data must start with 0x'')\<rparr>
      else if \<not> list_all is_hex_char (drop 2 s) then
        \<lparr>valid = False, error = Some (js ''Data contains invalid hex characters'')\<rparr>
      else if odd (length (drop 2 s)) then
        \<lparr>valid = False, error = Some (js ''Hex data must have even length'')\<rparr>
      else \<lparr>valid = True, error = None\<rparr>)"
proof (cases "take 2 s = js ''0x''")
  case True
  then have "2 \<le> length s" by (rule take2_length)
  then show ?thesis
    using True odd_payload [of s]
    by (simp add: validateHexData_def startsWith_0x hexRegex_test_def)
next
  case False
  then show ?thesis
    by (simp add: validateHexData_def startsWith_0x)
qed

lemma valid_iff:
  "valid (validateHexData s) =
     (take 2 s = js ''0x'' \<and> list_all is_hex_char (drop 2 s) \<and> even (length (drop 2 s)))"
  by (auto simp add: validateHexData_cases js_def)


lemma hex_value_Some: "is_hex_char c \<Longrightarrow> \<exists>h. hex_value c = Some h"
  by (auto simp add: is_hex_char_def hex_value_def)

lemma hex_value_hex: "hex_value c = Some h \<Longrightarrow> is_hex_char c"
  by (auto simp add: is_hex_char_def hex_value_def split: if_splits)

lemma hex_pairs_valid:
  "list_all is_hex_char xs \<Longrightarrow> even (length xs) \<Longrightarrow>
   \<exists>bs. hex_pairs xs = Some bs \<and> 2 * length bs = length xs"
proof (induction xs rule: hex_pairs.induct)
  case 1
  show ?case by simp
next
  case (2 c)
  then show ?case by simp
next
  case (3 c d rest)
  from 3(2) obtain h l where hl: "hex_value c = Some h" "hex_value d = Some l"
    using hex_value_Some by fastforce
  from 3(2,3) have "list_all is_hex_char rest" "even (length rest)" by simp_all
  with 3(1) [OF hl] obtain bs where "hex_pairs rest = Some bs" "2 * length bs = length rest"
    by blast
  with hl show ?case by simp
qed

lemma hex_pairs_Some:
  "hex_pairs xs = Some bs \<Longrightarrow> list_all is_hex_char xs \<and> length xs = 2 * length bs"
proof (induction xs arbitrary: bs rule: hex_pairs.induct)
  case 1
  then show ?case by simp
next
  case (2 c)
  then show ?case by simp
next
  case (3 c d rest)
  from 3(2) obtain h l bs' where hl: "hex_value c = Some h" "hex_value d = Some l"
    and r: "hex_pairs rest = Some bs'" and b: "bs = of_nat (16 * h + l) # bs'"
    by (auto split: option.splits)
  from 3(1) [OF hl r] hl b show ?case by (simp add: hex_value_hex)
qed

lemma getBytes_valid:
  "valid (validateHexData s) \<Longrightarrow> \<exists>bs. getBytes s = Inr bs \<and> 2 * length bs + 2 = length s"
proof -
  assume v: "valid (validateHexData s)"
  then have p: "take 2 s = js ''0x''" and h: "list_all is_hex_char (drop 2 s)"
    and e: "even (length (drop 2 s))"
    by (simp_all add: valid_iff)
  from hex_pairs_valid [OF h e] obtain bs where bs: "hex_pairs (drop 2 s) = Some bs"
    "2 * length bs = length (drop 2 s)" by blast
  from take2_length [OF p] bs(2) have "2 * length bs + 2 = length s" by simp
  with p bs(1) show ?thesis by (simp add: getBytes_def startsWith_0x)
qed

lemma js_not_Nil: "js (c # cs) \<noteq> []"
  by (simp add: js_def)

lemma invalid_error:
  "\<not> valid (validateHexData s) \<Longrightarrow>
   \<exists>e. ValidationResult.error (validateHexData s) = Some e \<and> e \<noteq> []"
  by (simp add: validateHexData_def js_not_Nil split: if_splits)

lemma decodeAsciiData_invalid:
  "\<not> valid (validateHexData s) \<Longrightarrow>
   decodeAsciiData message s =
     \<lparr>success = False, value = [], error = ValidationResult.error (validateHexData s)\<rparr>"
  by (simp add: decodeAsciiData_def)

lemma decodeAsciiData_valid:
  "getBytes s = Inr bs \<Longrightarrow> valid (validateHexData s) \<Longrightarrow> 2 * length bs + 2 = length s \<Longrightarrow>
   decodeAsciiData message s =
     (if length bs < 32 then
        \<lparr>success = False, value = [],
         error = Some (js ''Data too short, minimum 32 bytes required'')\<rparr>
      else
        (case toUtf8String (drop 32 bs) of
           Inl e \<Rightarrow> \<lparr>success = False, value = [],
                    error = Some (js ''Failed to decode data: '' @ message e)\<rparr>
         | Inr decoded \<Rightarrow> \<lparr>success = True, value = removeNul (trim decoded), error = None\<rparr>))"
  by (auto simp add: decodeAsciiData_def dataSlice_def)

lemmas decoder_eval = js_def validateHexData_def startsWith_def hexRegex_test_def is_hex_char_def
  getBytes_def dataSlice_def hex_value_def toUtf8String_def utf8_prefix_def utf16_units_def
  trim_def removeNul_def is_white_space_def

lemma validate_examples:
  "validateHexData (js ''0x'') = \<lparr>valid = True, error = None\<rparr>"
  "validateHexData (js ''0x00'') = \<lparr>valid = True, error = None\<rparr>"
  "validateHexData (js ''0xabcdef'') = \<lparr>valid = True, error = None\<rparr>"
  "validateHexData (js ''0x1234abcd'') = \<lparr>valid = True, error = None\<rparr>"
  "validateHexData (js []) = \<lparr>valid = False, error = Some (js ''Data is empty'')\<rparr>"
  "validateHexData (js ''1234abcd'') = \<lparr>valid = False, error = Some (js ''Hex data must start with 0x'')\<rparr>"
  "validateHexData (js ''0x1234abcdxyz'') = \<lparr>valid = False, error = Some (js ''Data contains invalid hex characters'')\<rparr>"
  "validateHexData (js ''0x123'') = \<lparr>valid = False, error = Some (js ''Hex data must have even length'')\<rparr>"
  by (simp_all add: decoder_eval)

lemma decodeAsciiData_example:
  "decodeAsciiData message (js asciiPayload) =
     \<lparr>success = True, value = js transferText, error = None\<rparr>"
  by (simp add: decodeAsciiData_def asciiPayload_def transferText_def decoder_eval)

lemma decodeAsciiData_bad_utf8:
  "decodeAsciiData message (js ''0x0000000000000000000000000000000000000000000000000000000000000000ff'') =
     \<lparr>success = False, value = [],
      error = Some (js ''Failed to decode data: '' @ message (INVALID_UTF8 BAD_PREFIX))\<rparr>"
  by (simp add: decodeAsciiData_def decoder_eval)

lemma knownFunctions_keys:
  "map_of knownFunctions k =
     (if k = js ''0xa9059cbb'' then Some (js ''transfer'', [address_t, uint256_t])
      else if k = js ''0x23b872dd'' then Some (js ''transferFrom'', [address_t, address_t, uint256_t])
      else if k = js ''0x095ea7b3'' then Some (js ''approve'', [address_t, uint256_t])
      else if k = js ''0x70a08231'' then Some (js ''balanceOf'', [address_t])
      else None)"
  by (simp add: knownFunctions_def)

lemma decodeFunctionCall_invalid:
  "\<not> valid (validateHexData s) \<Longrightarrow>
   decodeFunctionCall message s =
     \<lparr>success = False, value = [], error = ValidationResult.error (validateHexData s),
      signature = None, name = None, params = None\<rparr>"
  by (simp add: decodeFunctionCall_def)

lemma decodeFunctionCall_short:
  "valid (validateHexData s) \<Longrightarrow> length s < 10 \<Longrightarrow>
   decodeFunctionCall message s =
     \<lparr>success = False, value = [],
      error = Some (js ''Data too short, minimum 4 bytes required for function selector''),
      signature = None, name = None, params = None\<rparr>"
  by (simp add: decodeFunctionCall_def)

lemma decodeFunctionCall_unknown:
  "valid (validateHexData s) \<Longrightarrow> 10 \<le> length s \<Longrightarrow> map_of knownFunctions (take 10 s) = None \<Longrightarrow>
   decodeFunctionCall message s =
     \<lparr>success = True, value = take 10 s, error = None,
      signature = Some (take 10 s), name = None, params = None\<rparr>"
  by (simp add: decodeFunctionCall_def Let_def)

lemma decodeFunctionCall_known:
  "valid (validateHexData s) \<Longrightarrow> 10 \<le> length s \<Longrightarrow>
   map_of knownFunctions (take 10 s) = Some (fname, types) \<Longrightarrow>
   decodeFunctionCall message s =
     (case abi_decode types (js ''0x'' @ drop 10 s) of
        Inr decodedParams \<Rightarrow>
          \<lparr>success = True,
           value = fname @ js ''('' @ join (js '','') (map type_name types) @ js '')'',
           error = None, signature = Some (take 10 s),
           name = Some fname, params = Some decodedParams\<rparr>
      | Inl e \<Rightarrow>
          \<lparr>success = True, value = fname,
           error = Some (js ''Identified function but failed to decode parameters: '' @ message e),
           signature = Some (take 10 s), name = Some fname, params = None\<rparr>)"
  by (simp add: decodeFunctionCall_def Let_def)

lemma decodeFunctionCall_success:
  "valid (validateHexData s) \<Longrightarrow> 10 \<le> length s \<Longrightarrow> success (decodeFunctionCall message s)"
  by (simp add: decodeFunctionCall_def Let_def split: option.splits sum.splits)

lemma getBytes_0x: "getBytes (js ''0x'' @ p) = (case hex_pairs p of None \<Rightarrow> Inl INVALID_BYTESLIKE | Some bs \<Rightarrow> Inr bs)"
  by (simp add: getBytes_def startsWith_def js_def)

lemma decode_words_fails:
  "(\<exists>e. decode_words types bs = Inl e) = (length bs < 32 * length types)"
proof (induction types arbitrary: bs)
  case Nil
  show ?case by simp
next
  case (Cons t ts)
  show ?case
  proof (cases "length bs < 32")
    case True
    then show ?thesis by simp
  next
    case False
    have "(\<exists>e. decode_words ts (drop 32 bs) = Inl e) = (length (drop 32 bs) < 32 * length ts)"
      by (rule Cons.IH)
    with False show ?thesis by (auto split: sum.splits)
  qed
qed

lemma decode_words_error: "decode_words types bs = Inl e \<Longrightarrow> e = BUFFER_OVERRUN"
  by (induction types arbitrary: bs) (auto split: if_splits sum.splits)

lemma hex_codes:
  "((48 \<le> n \<and> n \<le> 57) \<or> (97 \<le> n \<and> n \<le> 102) \<or> (65 \<le> n \<and> n \<le> 70)) =
   (n = 48 \<or> n = 49 \<or> n = 50 \<or> n = 51 \<or> n = 52 \<or> n = 53 \<or> n = 54 \<or> n = 55 \<or> n = 56
    \<or> n = 57 \<or> n = 97 \<or> n = 98 \<or> n = 99 \<or> n = 100 \<or> n = 101 \<or> n = 102 \<or> n = 65
    \<or> n = 66 \<or> n = 67 \<or> n = 68 \<or> n = 69 \<or> n = (70 :: nat))"
  by arith

lemma is_hex_char_digits: "is_hex_char c = (c \<in> set (js ''0123456789abcdefABCDEF''))"
proof -
  have l: "is_hex_char c =
      ((48 \<le> unat c \<and> unat c \<le> 57) \<or> (97 \<le> unat c \<and> unat c \<le> 102)
       \<or> (65 \<le> unat c \<and> unat c \<le> 70))"
    by (simp add: is_hex_char_def word_le_nat_alt)
  have r: "(c \<in> set (js ''0123456789abcdefABCDEF'')) =
      (unat c = 48 \<or> unat c = 49 \<or> unat c = 50 \<or> unat c = 51 \<or> unat c = 52 \<or> unat c = 53
       \<or> unat c = 54 \<or> unat c = 55 \<or> unat c = 56 \<or> unat c = 57 \<or> unat c = 97 \<or> unat c = 98
       \<or> unat c = 99 \<or> unat c = 100 \<or> unat c = 101 \<or> unat c = 102 \<or> unat c = 65
       \<or> unat c = 66 \<or> unat c = 67 \<or> unat c = 68 \<or> unat c = 69 \<or> unat c = 70)"
    by (simp add: js_def word_unat_eq_iff)
  show ?thesis by (simp only: l r hex_codes)
qed

lemma toUtf8String_ascii:
  "list_all (\<lambda>b. b < 0x80) bs \<Longrightarrow> toUtf8String bs = Inr (map ucast bs)"
proof -
  assume a: "list_all (\<lambda>b. b < 0x80) bs"
  have u: "\<And>c :: byte. c < 0x80 \<Longrightarrow> utf16_units (unat c) = [ucast c]"
  proof -
    fix c :: byte
    have "unat c < 2 ^ 8" using unsigned_less [of c, where 'a = nat] by simp
    then show "utf16_units (unat c) = [ucast c]"
      by (simp add: utf16_units_def)
  qed
  from a have "getUtf8CodePoints bs = Inr (map unat bs)"
    by (induction bs) simp_all
  moreover from a u have "concat (map utf16_units (map unat bs)) = map ucast bs"
    by (induction bs) simp_all
  ultimately show ?thesis
    by (simp add: toUtf8String_def)
qed

lemma js_append: "js (a @ b) = js a @ js b"
  by (simp add: js_def)

lemma selector_is_hex: "list_all is_hex_char (js ''a9059cbb'')"
  by (simp add: js_def is_hex_char_def)

lemma transfer_input_valid:
  "hex_pairs p = Some bs \<Longrightarrow> valid (validateHexData (js ''0xa9059cbb'' @ p))"
proof -
  assume "hex_pairs p = Some bs"
  from hex_pairs_Some [OF this] have h: "list_all is_hex_char p" and l: "length p = 2 * length bs"
    by simp_all
  have d: "drop 2 (js ''0xa9059cbb'' @ p) = js ''a9059cbb'' @ p"
    by (simp add: js_def)
  have t: "take 2 (js ''0xa9059cbb'' @ p) = js ''0x''"
    by (simp add: js_def)
  from h l selector_is_hex show ?thesis
    by (simp only: valid_iff d t) (simp add: length_js)
qed

lemma transfer_words:
  "uint256_ok v \<Longrightarrow>
   decode_words [address_t, uint256_t] (left_padded a @ be_bytes 32 v) =
     Inr [AddressValue a, UintValue v]"
proof -
  assume v: "uint256_ok v"
  have a: "uint a < 2 ^ 160" using uint_bounded [of a] by simp
  from v a show ?thesis
    by (simp add: length_left_padded length_be_bytes be_value_left_padded be_value_uint256)
qed

lemma transferParams_bytes:
  "getBytes (js ''0x'' @ js transferParams) = Inr (left_padded testRecipient @ be_bytes 32 21771955200)"
  by (simp add: transferParams_def testRecipient_def left_padded_def be_bytes_def upt_rec
      replicate_num decoder_eval)

lemma decodeAsciiData_failure:
  "\<not> success (decodeAsciiData message s) \<Longrightarrow>
   value (decodeAsciiData message s) = []
   \<and> (\<exists>e. error (decodeAsciiData message s) = Some e \<and> e \<noteq> [])"
  using invalid_error [of s]
  by (auto simp add: decodeAsciiData_def Let_def js_not_Nil split: sum.splits if_splits)

lemma decodeFunctionCall_failure:
  "\<not> success (decodeFunctionCall message s) \<Longrightarrow>
   value (decodeFunctionCall message s) = []
   \<and> (\<exists>e. error (decodeFunctionCall message s) = Some e \<and> e \<noteq> [])"
  using invalid_error [of s]
  by (auto simp add: decodeFunctionCall_def Let_def js_not_Nil
      split: sum.splits option.splits if_splits)


lemma transferData_text: "hexlify transferData = transferText"
  by (simp add: transferData_def transferText_def hexlify_def hex_byte_def hex_digit_def)

lemma transferData_bytes: "getBytes (js transferText) = Inr transferData"
  by (simp add: transferData_def transferText_def decoder_eval)

text \<open>
  The transfer selector as the table writes it: with the words of an address and of an
  amount after it the call is decoded, and with parameters that end too early the name
  is returned with the error note.
\<close>

lemma decodeFunctionCall_transfer:
  assumes "getBytes (js ''0x'' @ p) = Inr (left_padded a @ be_bytes 32 v)" and "uint256_ok v"
  shows "decodeFunctionCall message (js ''0xa9059cbb'' @ p) =
           \<lparr>success = True, value = js ''transfer(address,uint256)'', error = None,
            signature = Some (js ''0xa9059cbb''), name = Some (js ''transfer''),
            params = Some [AddressValue a, UintValue v]\<rparr>"
proof -
  from assms(1) have hp: "hex_pairs p = Some (left_padded a @ be_bytes 32 v)"
    by (simp add: getBytes_0x split: option.splits)
  have v: "valid (validateHexData (js ''0xa9059cbb'' @ p))"
    by (rule transfer_input_valid [OF hp])
  have l: "10 \<le> length (js ''0xa9059cbb'' @ p)"
    by (simp add: js_def)
  have t: "take 10 (js ''0xa9059cbb'' @ p) = js ''0xa9059cbb''"
    by (simp add: js_def)
  have d: "drop 10 (js ''0xa9059cbb'' @ p) = p"
    by (simp add: js_def)
  have k: "map_of knownFunctions (take 10 (js ''0xa9059cbb'' @ p)) =
      Some (js ''transfer'', [address_t, uint256_t])"
    by (simp only: t knownFunctions_keys) simp
  have dec: "abi_decode [address_t, uint256_t] (js ''0x'' @ drop 10 (js ''0xa9059cbb'' @ p)) =
      Inr [AddressValue a, UintValue v]"
    by (simp only: d abi_decode_def assms(1) sum.case transfer_words [OF assms(2)])
  have n: "js ''transfer'' @ js ''('' @ join (js '','') (map type_name [address_t, uint256_t]) @ js '')''
      = js ''transfer(address,uint256)''"
    by (simp add: js_def)
  show ?thesis
    by (simp only: decodeFunctionCall_known [OF v l k] dec sum.case n t)
qed

lemma decodeFunctionCall_undecodable:
  assumes "valid (validateHexData s)" and "10 \<le> length s"
    and "map_of knownFunctions (take 10 s) = Some (fname, types)"
    and "abi_decode types (js ''0x'' @ drop 10 s) = Inl e"
  shows "decodeFunctionCall message s =
           \<lparr>success = True, value = fname,
            error = Some (js ''Identified function but failed to decode parameters: '' @ message e),
            signature = Some (take 10 s), name = Some fname, params = None\<rparr>
         \<and> e = BUFFER_OVERRUN \<and> (length s - 10) div 2 < 32 * length types"
proof -
  from assms(1) have h: "list_all is_hex_char (drop 2 s)" and ev: "even (length (drop 2 s))"
    by (simp_all add: valid_iff)
  have "drop 10 s = drop 8 (drop 2 s)" by simp
  with h have h': "list_all is_hex_char (drop 10 s)"
    by (metis append_take_drop_id list_all_append)
  from ev assms(2) have ev': "even (length (drop 10 s))" by simp
  from hex_pairs_valid [OF h' ev'] obtain bs where bs: "hex_pairs (drop 10 s) = Some bs"
    and len: "2 * length bs = length (drop 10 s)" by blast
  from assms(4) bs have w: "decode_words types bs = Inl e"
    by (simp add: abi_decode_def getBytes_0x)
  from decode_words_fails [of types bs] w have "length bs < 32 * length types" by blast
  moreover from len have "length bs = (length s - 10) div 2" by simp
  ultimately have short: "(length s - 10) div 2 < 32 * length types" by simp
  from decodeFunctionCall_known [OF assms(1,2,3), of message] assms(4) decode_words_error [OF w] short
  show ?thesis by simp
qed

lemma decodeFunctionCall_transferText:
  "decodeFunctionCall message (js transferText) =
     \<lparr>success = True, value = js ''transfer(address,uint256)'', error = None,
      signature = Some (js ''0xa9059cbb''), name = Some (js ''transfer''),
      params = Some [AddressValue testRecipient, UintValue 21771955200]\<rparr>"
proof -
  have u: "uint256_ok 21771955200" by (simp add: uint256_ok_def)
  have t: "js ''0xa9059cbb'' @ js transferParams = js transferText"
    by (simp add: js_def transferParams_def transferText_def)
  from decodeFunctionCall_transfer [OF transferParams_bytes u, of message] t
  show ?thesis by simp
qed

lemma decodeFunctionCall_short_params:
  "decodeFunctionCall message (js ''0xa9059cbb00'') =
     \<lparr>success = True, value = js ''transfer'',
      error = Some (js ''Identified function but failed to decode parameters: ''
                    @ message BUFFER_OVERRUN),
      signature = Some (js ''0xa9059cbb''), name = Some (js ''transfer''), params = None\<rparr>"
proof -
  let ?s = "js ''0xa9059cbb00''"
  have v: "valid (validateHexData ?s)" by (simp add: decoder_eval)
  have l: "10 \<le> length ?s" by (simp add: js_def)
  have k: "map_of knownFunctions (take 10 ?s) = Some (js ''transfer'', [address_t, uint256_t])"
    by (simp add: knownFunctions_def js_def)
  have d: "abi_decode [address_t, uint256_t] (js ''0x'' @ drop 10 ?s) = Inl BUFFER_OVERRUN"
    by (simp add: abi_decode_def decoder_eval)
  have t: "take 10 ?s = js ''0xa9059cbb''" by (simp add: js_def)
  from decodeFunctionCall_undecodable [OF v l k d, of message] t show ?thesis by simp
qed

lemma dirtyParams_bytes:
  "getBytes (js ''0x'' @ js dirtyParams) =
     Inr ((1 # tl (left_padded testRecipient)) @ be_bytes 32 21771955200)"
  by (simp add: dirtyParams_def testRecipient_def left_padded_def be_bytes_def upt_rec
      replicate_num decoder_eval)

lemma decodeFunctionCall_dirtyText:
  "decodeFunctionCall message (js dirtyTransferText) =
     \<lparr>success = True, value = js ''transfer(address,uint256)'', error = None,
      signature = Some (js ''0xa9059cbb''), name = Some (js ''transfer''),
      params = Some [DeferredError NUMERIC_FAULT, UintValue 21771955200]\<rparr>"
proof -
  let ?s = "js dirtyTransferText"
  have v: "valid (validateHexData ?s)"
    by (simp add: dirtyTransferText_def decoder_eval)
  have l: "10 \<le> length ?s" by (simp add: js_def dirtyTransferText_def)
  have t: "take 10 ?s = js ''0xa9059cbb''" by (simp add: js_def dirtyTransferText_def)
  have d: "drop 10 ?s = js dirtyParams"
    by (simp add: js_def dirtyTransferText_def dirtyParams_def)
  have k: "map_of knownFunctions (take 10 ?s) = Some (js ''transfer'', [address_t, uint256_t])"
    by (simp only: t knownFunctions_keys) simp
  have w: "decode_words [address_t, uint256_t]
             ((1 # tl (left_padded testRecipient)) @ be_bytes 32 21771955200) =
           Inr [DeferredError NUMERIC_FAULT, UintValue 21771955200]"
    by (simp add: testRecipient_def left_padded_def be_bytes_def upt_rec replicate_num
        be_value_def)
  have dec: "abi_decode [address_t, uint256_t] (js ''0x'' @ drop 10 ?s) =
      Inr [DeferredError NUMERIC_FAULT, UintValue 21771955200]"
    by (simp only: d abi_decode_def dirtyParams_bytes sum.case w)
  have n: "js ''transfer'' @ js ''('' @ join (js '','') (map type_name [address_t, uint256_t]) @ js '')''
      = js ''transfer(address,uint256)''"
    by (simp add: js_def)
  show ?thesis
    by (simp only: decodeFunctionCall_known [OF v l k] dec sum.case n t)
qed
section \<open>The claims\<close>

text \<open>
  C1: for the domain of chain 59144 and Safe
  \<open>0xDb73ba19F072D0Fbc865781Ba468A9F8B77aD2C4\<close> and the transaction with
  \<open>to = 0x8b4B268a9aA797fD60889E88AC7bE9a0C4b37Ff4\<close>, value 0, the transfer call as data,
  operation Call, all gas fields 0, zero gas token and refund receiver and nonce 60,
  \<open>getAllHashes\<close> is to return the domain hash \<open>0x7ae3...\<close>, the message hash
  \<open>0xd7a2...\<close> and the final hash \<open>0x64b8...\<close>, which is what the tests of both hashers
  expect. At that input both hashers return the expected domain hash, the message hash
  \<open>0x08de...\<close> and the final hash \<open>0x1c8b...\<close>, so the message hash and the final hash
  are not the expected ones. The data of the transaction are the bytes that the text of
  the transfer call spells.
\<close>

theorem C1_test_vector:
  "hexlify (data (goldenTx testRecipient Call)) = transferText
   \<and> Ethers_hashes goldenDomain (goldenTx testRecipient Call) =
     Inr (''0x7ae3819992af9cb3416bfbfc483b427868cec8257ab807445212b48a5ca86dfd'',
          ''0x08de308016c0bd5b24628c18ab9d28b3f129a9aa9f40900f6fc622f82bb194a9'',
          ''0x1c8bb9fdc4d957f77da17bb7ac5f42a9c89b334c88fcf6195968d4a974c46a84'')
   \<and> Viem_hashes goldenDomain (goldenTx testRecipient Call) =
     Inr (''0x7ae3819992af9cb3416bfbfc483b427868cec8257ab807445212b48a5ca86dfd'',
          ''0x08de308016c0bd5b24628c18ab9d28b3f129a9aa9f40900f6fc622f82bb194a9'',
          ''0x1c8bb9fdc4d957f77da17bb7ac5f42a9c89b334c88fcf6195968d4a974c46a84'')
   \<and> Ethers_hashes goldenDomain (goldenTx testRecipient Call) \<noteq>
     Inr (''0x7ae3819992af9cb3416bfbfc483b427868cec8257ab807445212b48a5ca86dfd'',
          ''0xd7a20bc0e18961ef47e55f868cdcd8d41a58bb689ee1837dafe8aa99a588494a'',
          ''0x64b865a13a4d2968c6f6428a4403a2df33c35171d482322238bbac22698e6189'')
   \<and> Viem_hashes goldenDomain (goldenTx testRecipient Call) \<noteq>
     Inr (''0x7ae3819992af9cb3416bfbfc483b427868cec8257ab807445212b48a5ca86dfd'',
          ''0xd7a20bc0e18961ef47e55f868cdcd8d41a58bb689ee1837dafe8aa99a588494a'',
          ''0x64b865a13a4d2968c6f6428a4403a2df33c35171d482322238bbac22698e6189'')"
  by (simp add: Ethers_hashes_test Viem_hashes_test goldenTx_data transferData_text)

text \<open>
  C2: for every domain and every transaction, in both hashers, when the constructor has
  returned a hasher and the hasher returns a message hash, the cached domain hash and
  the message hash are 32 bytes each and the final hash is Keccak-256 of the 66 bytes
  \<open>0x19\<close>, \<open>0x01\<close>, the domain hash and the message hash, with nothing between them;
  the older method name returns the same, and \<open>getAllHashes\<close> returns that final hash
  with the two hashes it is made of. The constructor returns a hasher exactly for the
  domains, and the hasher a message hash exactly for the transactions, whose integers
  the encoder accepts; for the others the encoder's error is thrown, and there is no
  final hash at all.
\<close>

theorem C2_final_hash:
  "(case Ethers_constructor d of
      Inl e \<Rightarrow> \<not> Ethers_valid_domain d
    | Inr h \<Rightarrow>
        Ethers_valid_domain d \<and> length (Hasher.domainHash h) = 32
        \<and> (case Ethers_calculateRawSafeTxHash h tx of
              Inl e \<Rightarrow>
                \<not> Ethers_valid_tx tx \<and> Ethers_calculateFinalSafeTxHash h tx = Inl e
                \<and> Ethers_getAllHashes h tx = Inl e
            | Inr m \<Rightarrow>
                Ethers_valid_tx tx \<and> length m = 32
                \<and> length ([0x19, 0x01] @ Hasher.domainHash h @ m) = 66
                \<and> Ethers_calculateFinalSafeTxHash h tx =
                    Inr (keccak256 ([0x19, 0x01] @ Hasher.domainHash h @ m))
                \<and> Ethers_calculateSafeTransactionHash h tx =
                    Inr (keccak256 ([0x19, 0x01] @ Hasher.domainHash h @ m))
                \<and> Ethers_getAllHashes h tx =
                    Inr \<lparr>safeTxHash = keccak256 ([0x19, 0x01] @ Hasher.domainHash h @ m),
                         domainHash = Hasher.domainHash h, messageHash = m\<rparr>))
   \<and> (case Viem_constructor d of
        Inl e \<Rightarrow> \<not> Viem_valid_domain d
      | Inr h \<Rightarrow>
          Viem_valid_domain d \<and> length (Hasher.domainHash h) = 32
          \<and> (case Viem_calculateRawSafeTxHash h tx of
                Inl e \<Rightarrow>
                  \<not> Viem_valid_tx tx \<and> Viem_calculateFinalSafeTxHash h tx = Inl e
                  \<and> Viem_getAllHashes h tx = Inl e
              | Inr m \<Rightarrow>
                  Viem_valid_tx tx \<and> length m = 32
                  \<and> length ([0x19, 0x01] @ Hasher.domainHash h @ m) = 66
                  \<and> Viem_calculateFinalSafeTxHash h tx =
                      Inr (keccak256 ([0x19, 0x01] @ Hasher.domainHash h @ m))
                  \<and> Viem_calculateSafeTransactionHash h tx =
                      Inr (keccak256 ([0x19, 0x01] @ Hasher.domainHash h @ m))
                  \<and> Viem_getAllHashes h tx =
                      Inr \<lparr>safeTxHash = keccak256 ([0x19, 0x01] @ Hasher.domainHash h @ m),
                           domainHash = Hasher.domainHash h, messageHash = m\<rparr>))"
proof (rule conjI)
  show "case Ethers_constructor d of
      Inl e \<Rightarrow> \<not> Ethers_valid_domain d
    | Inr h \<Rightarrow>
        Ethers_valid_domain d \<and> length (Hasher.domainHash h) = 32
        \<and> (case Ethers_calculateRawSafeTxHash h tx of
              Inl e \<Rightarrow>
                \<not> Ethers_valid_tx tx \<and> Ethers_calculateFinalSafeTxHash h tx = Inl e
                \<and> Ethers_getAllHashes h tx = Inl e
            | Inr m \<Rightarrow>
                Ethers_valid_tx tx \<and> length m = 32
                \<and> length ([0x19, 0x01] @ Hasher.domainHash h @ m) = 66
                \<and> Ethers_calculateFinalSafeTxHash h tx =
                    Inr (keccak256 ([0x19, 0x01] @ Hasher.domainHash h @ m))
                \<and> Ethers_calculateSafeTransactionHash h tx =
                    Inr (keccak256 ([0x19, 0x01] @ Hasher.domainHash h @ m))
                \<and> Ethers_getAllHashes h tx =
                    Inr \<lparr>safeTxHash = keccak256 ([0x19, 0x01] @ Hasher.domainHash h @ m),
                         domainHash = Hasher.domainHash h, messageHash = m\<rparr>)"
  proof (cases "Ethers_constructor d")
    case (Inl e)
    with Ethers_constructor_valid [of d] show ?thesis by auto
  next
    case (Inr h)
    have vd: "Ethers_valid_domain d" by (rule Ethers_constructor_Inr [OF Inr])
    from Ethers_constructor_valid [OF vd] Inr
    have sth: "SAFE_TX_TYPEHASH h = keccak256 (toUtf8Bytes SAFE_TX_TYPE)"
      and dh: "length (Hasher.domainHash h) = 32"
      by (auto simp add: length_keccak256)
    show ?thesis
    proof (cases "Ethers_calculateRawSafeTxHash h tx")
      case (Inl e)
      with Ethers_raw_valid [of tx h, OF _ sth] have "\<not> Ethers_valid_tx tx" by auto
      with Inl \<open>Ethers_constructor d = Inr h\<close> vd dh show ?thesis
        by (simp add: Ethers_calculateFinalSafeTxHash_def Ethers_getAllHashes_def)
    next
      case m: (Inr m)
      have vt: "Ethers_valid_tx tx" by (rule Ethers_raw_Inr [OF m])
      from Ethers_raw_valid [OF vt sth] m have lm: "length m = 32"
        by (auto simp add: length_keccak256)
      from m Inr vd dh vt lm Ethers_final_of_raw [OF m] Ethers_all_of_raw [OF m]
      show ?thesis by (simp add: Ethers_calculateSafeTransactionHash_def)
    qed
  qed
next
  show "case Viem_constructor d of
        Inl e \<Rightarrow> \<not> Viem_valid_domain d
      | Inr h \<Rightarrow>
          Viem_valid_domain d \<and> length (Hasher.domainHash h) = 32
          \<and> (case Viem_calculateRawSafeTxHash h tx of
                Inl e \<Rightarrow>
                  \<not> Viem_valid_tx tx \<and> Viem_calculateFinalSafeTxHash h tx = Inl e
                  \<and> Viem_getAllHashes h tx = Inl e
              | Inr m \<Rightarrow>
                  Viem_valid_tx tx \<and> length m = 32
                  \<and> length ([0x19, 0x01] @ Hasher.domainHash h @ m) = 66
                  \<and> Viem_calculateFinalSafeTxHash h tx =
                      Inr (keccak256 ([0x19, 0x01] @ Hasher.domainHash h @ m))
                  \<and> Viem_calculateSafeTransactionHash h tx =
                      Inr (keccak256 ([0x19, 0x01] @ Hasher.domainHash h @ m))
                  \<and> Viem_getAllHashes h tx =
                      Inr \<lparr>safeTxHash = keccak256 ([0x19, 0x01] @ Hasher.domainHash h @ m),
                           domainHash = Hasher.domainHash h, messageHash = m\<rparr>)"
  proof (cases "Viem_constructor d")
    case (Inl e)
    with Viem_constructor_valid [of d] show ?thesis by auto
  next
    case (Inr h)
    have vd: "Viem_valid_domain d" by (rule Viem_constructor_Inr [OF Inr])
    from Viem_constructor_valid [OF vd] Inr
    have sth: "SAFE_TX_TYPEHASH h = keccak256 (toUtf8Bytes SAFE_TX_TYPE)"
      and dh: "length (Hasher.domainHash h) = 32"
      by (auto simp add: length_keccak256)
    show ?thesis
    proof (cases "Viem_calculateRawSafeTxHash h tx")
      case (Inl e)
      with Viem_raw_valid [of tx h, OF _ sth] have "\<not> Viem_valid_tx tx" by auto
      with Inl \<open>Viem_constructor d = Inr h\<close> vd dh show ?thesis
        by (simp add: Viem_calculateFinalSafeTxHash_def Viem_getAllHashes_def)
    next
      case m: (Inr m)
      have vt: "Viem_valid_tx tx" by (rule Viem_raw_Inr [OF m])
      from Viem_raw_valid [OF vt sth] m have lm: "length m = 32"
        by (auto simp add: length_keccak256)
      from m Inr vd dh vt lm Viem_final_of_raw [OF m] Viem_all_of_raw [OF m]
      show ?thesis by (simp add: Viem_calculateSafeTransactionHash_def)
    qed
  qed
qed

text \<open>
  C2 at the domain and the transaction of the examples: both hashers have a hasher and
  a message hash there, and the final hash of both is that of the 66 bytes.
\<close>

theorem C2_final_hash_witness:
  "(\<exists>h m. Ethers_constructor goldenDomain = Inr h
         \<and> Ethers_calculateRawSafeTxHash h (goldenTx exampleRecipient Call) = Inr m
         \<and> length ([0x19, 0x01] @ Hasher.domainHash h @ m) = 66
         \<and> Ethers_calculateFinalSafeTxHash h (goldenTx exampleRecipient Call) =
             Inr (keccak256 ([0x19, 0x01] @ Hasher.domainHash h @ m)))
   \<and> (\<exists>h m. Viem_constructor goldenDomain = Inr h
         \<and> Viem_calculateRawSafeTxHash h (goldenTx exampleRecipient Call) = Inr m
         \<and> length ([0x19, 0x01] @ Hasher.domainHash h @ m) = 66
         \<and> Viem_calculateFinalSafeTxHash h (goldenTx exampleRecipient Call) =
             Inr (keccak256 ([0x19, 0x01] @ Hasher.domainHash h @ m)))"
proof -
  have ed: "Ethers_valid_domain goldenDomain"
    by (simp add: Ethers_valid_domain_def safe_number_ok_def maxValue_def goldenDomain_def)
  have et: "Ethers_valid_tx (goldenTx exampleRecipient Call)"
    by (simp add: Ethers_valid_tx_def bigints_ok_def uint256_ok_def safe_number_ok_def
        maxValue_def goldenTx_def)
  have vd: "Viem_valid_domain goldenDomain"
    by (simp add: Viem_valid_domain_def uint256_ok_def goldenDomain_def)
  have vt: "Viem_valid_tx (goldenTx exampleRecipient Call)"
    by (simp add: Viem_valid_tx_def bigints_ok_def uint256_ok_def goldenTx_def)
  from C2_final_hash [of goldenDomain "goldenTx exampleRecipient Call"] ed et vd vt
  show ?thesis by (auto split: sum.splits)
qed

text \<open>
  C3, as stated: the message hash is Keccak-256 of the eleven fields in their order,
  with the operation as a single byte right-padded into its 32-byte word. For the
  transaction of the examples as a delegate call (operation 1) the hashers return
  another hash than that of the encoding with the byte first.
\<close>

theorem C3_counterexample:
  "Ethers_messageHash goldenDomain (goldenTx exampleRecipient DelegateCall) \<noteq>
     Inr (keccak256 (struct_encoding right_padded_operation (keccak256 (toUtf8Bytes SAFE_TX_TYPE))
                       (goldenTx exampleRecipient DelegateCall)))
   \<and> Viem_messageHash goldenDomain (goldenTx exampleRecipient DelegateCall) \<noteq>
     Inr (keccak256 (struct_encoding right_padded_operation (keccak256 (toUtf8Bytes SAFE_TX_TYPE))
                       (goldenTx exampleRecipient DelegateCall)))"
  by (simp add: Ethers_messageHash_delegate Viem_messageHash_delegate right_padded_hash_delegate)

text \<open>
  C3, amended: for every domain and every transaction, in both hashers, the type hash
  of a hasher is Keccak-256 of the type string, and a message hash that the hasher
  returns is Keccak-256 of the 352 bytes of the eleven fields in their order: every
  address is left-padded to 32 bytes, every unsigned integer is a big-endian 256-bit
  word, and so is the operation, 31 zero bytes and then its byte. The hasher returns a
  message hash exactly for the transactions whose integers the encoder accepts.
\<close>

theorem C3_struct_hash:
  "(case Ethers_constructor d of
      Inl e \<Rightarrow> \<not> Ethers_valid_domain d
    | Inr h \<Rightarrow>
        SAFE_TX_TYPEHASH h = keccak256 (toUtf8Bytes SAFE_TX_TYPE)
        \<and> (case Ethers_calculateRawSafeTxHash h tx of
              Inl e \<Rightarrow> \<not> Ethers_valid_tx tx
            | Inr m \<Rightarrow>
                Ethers_valid_tx tx
                \<and> m = keccak256 (struct_encoding big_endian_operation (SAFE_TX_TYPEHASH h) tx)
                \<and> length (struct_encoding big_endian_operation (SAFE_TX_TYPEHASH h) tx) = 352
                \<and> be_value (be_bytes 32 (SafeTransactionParams.value tx)) =
                    SafeTransactionParams.value tx
                \<and> be_value (be_bytes 32 (safeTxGas tx)) = safeTxGas tx
                \<and> be_value (be_bytes 32 (baseGas tx)) = baseGas tx
                \<and> be_value (be_bytes 32 (gasPrice tx)) = gasPrice tx
                \<and> be_value (be_bytes 32 (nonce tx)) = nonce tx))
   \<and> (case Viem_constructor d of
      Inl e \<Rightarrow> \<not> Viem_valid_domain d
    | Inr h \<Rightarrow>
        SAFE_TX_TYPEHASH h = keccak256 (toUtf8Bytes SAFE_TX_TYPE)
        \<and> (case Viem_calculateRawSafeTxHash h tx of
              Inl e \<Rightarrow> \<not> Viem_valid_tx tx
            | Inr m \<Rightarrow>
                Viem_valid_tx tx
                \<and> m = keccak256 (struct_encoding big_endian_operation (SAFE_TX_TYPEHASH h) tx)
                \<and> length (struct_encoding big_endian_operation (SAFE_TX_TYPEHASH h) tx) = 352
                \<and> be_value (be_bytes 32 (SafeTransactionParams.value tx)) =
                    SafeTransactionParams.value tx
                \<and> be_value (be_bytes 32 (safeTxGas tx)) = safeTxGas tx
                \<and> be_value (be_bytes 32 (baseGas tx)) = baseGas tx
                \<and> be_value (be_bytes 32 (gasPrice tx)) = gasPrice tx
                \<and> be_value (be_bytes 32 (nonce tx)) = nonce tx))
   \<and> be_value (left_padded (to tx)) = uint (to tx)
   \<and> be_value (left_padded (gasToken tx)) = uint (gasToken tx)
   \<and> be_value (left_padded (refundReceiver tx)) = uint (refundReceiver tx)
   \<and> big_endian_operation (operation tx) =
       replicate 31 0 @ [word_of_int (operation_number (operation tx))]
   \<and> be_value (big_endian_operation (operation tx)) = operation_number (operation tx)"
proof (intro conjI)
  show "(case Ethers_constructor d of
      Inl e \<Rightarrow> \<not> Ethers_valid_domain d
    | Inr h \<Rightarrow>
        SAFE_TX_TYPEHASH h = keccak256 (toUtf8Bytes SAFE_TX_TYPE)
        \<and> (case Ethers_calculateRawSafeTxHash h tx of
              Inl e \<Rightarrow> \<not> Ethers_valid_tx tx
            | Inr m \<Rightarrow>
                Ethers_valid_tx tx
                \<and> m = keccak256 (struct_encoding big_endian_operation (SAFE_TX_TYPEHASH h) tx)
                \<and> length (struct_encoding big_endian_operation (SAFE_TX_TYPEHASH h) tx) = 352
                \<and> be_value (be_bytes 32 (SafeTransactionParams.value tx)) =
                    SafeTransactionParams.value tx
                \<and> be_value (be_bytes 32 (safeTxGas tx)) = safeTxGas tx
                \<and> be_value (be_bytes 32 (baseGas tx)) = baseGas tx
                \<and> be_value (be_bytes 32 (gasPrice tx)) = gasPrice tx
                \<and> be_value (be_bytes 32 (nonce tx)) = nonce tx))"
  proof (cases "Ethers_constructor d")
    case (Inl e)
    with Ethers_constructor_valid [of d] show ?thesis by auto
  next
    case (Inr h)
    have vd: "Ethers_valid_domain d" by (rule Ethers_constructor_Inr [OF Inr])
    from Ethers_constructor_valid [OF vd] Inr
    have sth: "SAFE_TX_TYPEHASH h = keccak256 (toUtf8Bytes SAFE_TX_TYPE)"
      by auto
    show ?thesis
    proof (cases "Ethers_calculateRawSafeTxHash h tx")
      case (Inl e)
      with Ethers_raw_valid [of tx h, OF _ sth] have "\<not> Ethers_valid_tx tx" by auto
      with Inl \<open>Ethers_constructor d = Inr h\<close> sth show ?thesis by simp
    next
      case m: (Inr m)
      have vt: "Ethers_valid_tx tx" by (rule Ethers_raw_Inr [OF m])
      from vt have ints: "uint256_ok (SafeTransactionParams.value tx)" "uint256_ok (safeTxGas tx)"
        "uint256_ok (baseGas tx)" "uint256_ok (gasPrice tx)" "uint256_ok (nonce tx)"
        by (simp_all add: Ethers_valid_tx_def bigints_ok_def safe_number_uint256)
      from Ethers_raw_valid [OF vt sth] m
      have mh: "m = keccak256 (struct_encoding big_endian_operation (SAFE_TX_TYPEHASH h) tx)"
        by (simp add: sth)
      have len: "length (struct_encoding big_endian_operation (SAFE_TX_TYPEHASH h) tx) = 352"
        by (simp add: sth length_struct_encoding length_keccak256)
      from m Inr sth vt mh len ints show ?thesis
        by (simp add: be_value_uint256)
    qed
  qed
next
  show "(case Viem_constructor d of
      Inl e \<Rightarrow> \<not> Viem_valid_domain d
    | Inr h \<Rightarrow>
        SAFE_TX_TYPEHASH h = keccak256 (toUtf8Bytes SAFE_TX_TYPE)
        \<and> (case Viem_calculateRawSafeTxHash h tx of
              Inl e \<Rightarrow> \<not> Viem_valid_tx tx
            | Inr m \<Rightarrow>
                Viem_valid_tx tx
                \<and> m = keccak256 (struct_encoding big_endian_operation (SAFE_TX_TYPEHASH h) tx)
                \<and> length (struct_encoding big_endian_operation (SAFE_TX_TYPEHASH h) tx) = 352
                \<and> be_value (be_bytes 32 (SafeTransactionParams.value tx)) =
                    SafeTransactionParams.value tx
                \<and> be_value (be_bytes 32 (safeTxGas tx)) = safeTxGas tx
                \<and> be_value (be_bytes 32 (baseGas tx)) = baseGas tx
                \<and> be_value (be_bytes 32 (gasPrice tx)) = gasPrice tx
                \<and> be_value (be_bytes 32 (nonce tx)) = nonce tx))"
  proof (cases "Viem_constructor d")
    case (Inl e)
    with Viem_constructor_valid [of d] show ?thesis by auto
  next
    case (Inr h)
    have vd: "Viem_valid_domain d" by (rule Viem_constructor_Inr [OF Inr])
    from Viem_constructor_valid [OF vd] Inr
    have sth: "SAFE_TX_TYPEHASH h = keccak256 (toUtf8Bytes SAFE_TX_TYPE)"
      by auto
    show ?thesis
    proof (cases "Viem_calculateRawSafeTxHash h tx")
      case (Inl e)
      with Viem_raw_valid [of tx h, OF _ sth] have "\<not> Viem_valid_tx tx" by auto
      with Inl \<open>Viem_constructor d = Inr h\<close> sth show ?thesis by simp
    next
      case m: (Inr m)
      have vt: "Viem_valid_tx tx" by (rule Viem_raw_Inr [OF m])
      from vt have ints: "uint256_ok (SafeTransactionParams.value tx)" "uint256_ok (safeTxGas tx)"
        "uint256_ok (baseGas tx)" "uint256_ok (gasPrice tx)" "uint256_ok (nonce tx)"
        by (simp_all add: Viem_valid_tx_def bigints_ok_def safe_number_uint256)
      from Viem_raw_valid [OF vt sth] m
      have mh: "m = keccak256 (struct_encoding big_endian_operation (SAFE_TX_TYPEHASH h) tx)"
        by (simp add: sth)
      have len: "length (struct_encoding big_endian_operation (SAFE_TX_TYPEHASH h) tx) = 352"
        by (simp add: sth length_struct_encoding length_keccak256)
      from m Inr sth vt mh len ints show ?thesis
        by (simp add: be_value_uint256)
    qed
  qed
next
  show "be_value (left_padded (to tx)) = uint (to tx)"
    "be_value (left_padded (gasToken tx)) = uint (gasToken tx)"
    "be_value (left_padded (refundReceiver tx)) = uint (refundReceiver tx)"
    by (simp_all add: be_value_left_padded)
next
  show "big_endian_operation (operation tx) =
       replicate 31 0 @ [word_of_int (operation_number (operation tx))]"
    by (rule big_endian_operation_bytes)
next
  show "be_value (big_endian_operation (operation tx)) = operation_number (operation tx)"
    by (rule be_value_operation)
qed

text \<open>
  C3, amended, at the transaction of the examples as a delegate call: both hashers
  return the hash of the encoding whose operation word ends in the byte 1.
\<close>

theorem C3_struct_hash_witness:
  "(\<exists>h. Ethers_constructor goldenDomain = Inr h
        \<and> Ethers_calculateRawSafeTxHash h (goldenTx exampleRecipient DelegateCall) =
            Inr (keccak256 (struct_encoding big_endian_operation (SAFE_TX_TYPEHASH h)
                              (goldenTx exampleRecipient DelegateCall))))
   \<and> (\<exists>h. Viem_constructor goldenDomain = Inr h
        \<and> Viem_calculateRawSafeTxHash h (goldenTx exampleRecipient DelegateCall) =
            Inr (keccak256 (struct_encoding big_endian_operation (SAFE_TX_TYPEHASH h)
                              (goldenTx exampleRecipient DelegateCall))))
   \<and> big_endian_operation (operation (goldenTx exampleRecipient DelegateCall)) =
       replicate 31 0 @ [1]"
proof -
  have ed: "Ethers_valid_domain goldenDomain"
    by (simp add: Ethers_valid_domain_def safe_number_ok_def maxValue_def goldenDomain_def)
  have et: "Ethers_valid_tx (goldenTx exampleRecipient DelegateCall)"
    by (simp add: Ethers_valid_tx_def bigints_ok_def uint256_ok_def safe_number_ok_def
        maxValue_def goldenTx_def)
  have vd: "Viem_valid_domain goldenDomain"
    by (simp add: Viem_valid_domain_def uint256_ok_def goldenDomain_def)
  have vt: "Viem_valid_tx (goldenTx exampleRecipient DelegateCall)"
    by (simp add: Viem_valid_tx_def bigints_ok_def uint256_ok_def goldenTx_def)
  have o: "word_of_int (operation_number (operation (goldenTx exampleRecipient DelegateCall))) = (1 :: byte)"
    by (simp add: goldenTx_def)
  from C3_struct_hash [of goldenDomain "goldenTx exampleRecipient DelegateCall"] ed et vd vt o
  show ?thesis by (auto split: sum.splits)
qed

text \<open>
  C4: the two hashers are to return the same for every domain and every transaction.
  For the Safe of the examples on a chain whose id is \<open>2 ^ 53\<close> the constructor of the
  ethers hasher throws the encoder's overflow error, so that there is no hasher and no
  hash, and the viem hasher returns three hashes for the transaction of the examples.
  With the nonce \<open>2 ^ 53\<close> on the chain of the examples the ethers hasher throws the
  same error for the message hash, and the viem hasher returns a message hash. The
  ethers hasher hands the chain id and the nonce to its encoder as the \<open>number\<close>s they
  are; the viem hasher converts both with \<open>BigInt\<close> first.
\<close>

theorem C4_large_chain_id:
  "Ethers_constructor largeDomain = Inl OVERFLOW
   \<and> Ethers_hashes largeDomain (goldenTx exampleRecipient Call) = Inl OVERFLOW
   \<and> Viem_hashes largeDomain (goldenTx exampleRecipient Call) =
       Inr (''0xda3cd8b327c6199e77bfb5686de0c7e83bf8e0b37a8b68f465eaec3963f0cbab'',
            ''0xd7a20bc0e18961ef47e55f868cdcd8d41a58bb689ee1837dafe8aa99a588494a'',
            ''0xecb45508b52853c60268cbf183322a2e8b452f977c4ccfa267902cf636b3d21c'')
   \<and> Ethers_messageHash goldenDomain (goldenTx exampleRecipient Call\<lparr>nonce := 9007199254740992\<rparr>) =
       Inl OVERFLOW
   \<and> (\<exists>m. Viem_messageHash goldenDomain (goldenTx exampleRecipient Call\<lparr>nonce := 9007199254740992\<rparr>) =
       Inr m)"
  by (simp only: Ethers_constructor_large Ethers_hashes_large Viem_hashes_large
      Ethers_messageHash_large_nonce Viem_messageHash_large_nonce simp_thms)

text \<open>
  C5: \<open>validateHexData\<close> applies its rules in a fixed order and returns the reason of
  the first one that is violated: the text is not empty, it starts with \<open>0x\<close>, every
  character after the prefix is a hexadecimal digit (of either case), and the number
  of characters after the prefix is even. It accepts \<open>0x\<close>, \<open>0x00\<close> and
  \<open>0xabcdef\<close>, and a text exactly when it violates none of the rules.
\<close>

theorem C5_validateHexData:
  "validateHexData s =
     (if s = [] then \<lparr>valid = False, error = Some (js ''Data is empty'')\<rparr>
      else if take 2 s \<noteq> js ''0x'' then
        \<lparr>valid = False, error = Some (js ''Hex data must start with 0x'')\<rparr>
      else if \<not> list_all is_hex_char (drop 2 s) then
        \<lparr>valid = False, error = Some (js ''Data contains invalid hex characters'')\<rparr>
      else if odd (length (drop 2 s)) then
        \<lparr>valid = False, error = Some (js ''Hex data must have even length'')\<rparr>
      else \<lparr>valid = True, error = None\<rparr>)
   \<and> is_hex_char c = (c \<in> set (js ''0123456789abcdefABCDEF''))
   \<and> valid (validateHexData s) =
       (take 2 s = js ''0x'' \<and> list_all is_hex_char (drop 2 s) \<and> even (length (drop 2 s)))
   \<and> validateHexData (js ''0x'') = \<lparr>valid = True, error = None\<rparr>
   \<and> validateHexData (js ''0x00'') = \<lparr>valid = True, error = None\<rparr>
   \<and> validateHexData (js ''0xabcdef'') = \<lparr>valid = True, error = None\<rparr>
   \<and> validateHexData [] = \<lparr>valid = False, error = Some (js ''Data is empty'')\<rparr>
   \<and> validateHexData (js ''1234abcd'') =
       \<lparr>valid = False, error = Some (js ''Hex data must start with 0x'')\<rparr>
   \<and> validateHexData (js ''0x1234abcdxyz'') =
       \<lparr>valid = False, error = Some (js ''Data contains invalid hex characters'')\<rparr>
   \<and> validateHexData (js ''0x123'') =
       \<lparr>valid = False, error = Some (js ''Hex data must have even length'')\<rparr>"
  using validateHexData_cases [of s] valid_iff [of s] is_hex_char_digits [of c] validate_examples
  by (simp add: js_def)

text \<open>
  C6: \<open>decodeAsciiData\<close> first validates its input and fails with the reason of the
  validation. A valid input spells bytes; with fewer than 32 of them, that is with
  fewer than 66 characters, the result is the failure "too short". Otherwise the bytes
  after the first 32 are decoded as UTF-8: if that fails the result is a failure with
  the message of the decoder's error after "Failed to decode data: ", and if not, the
  result is a success with the decoded text, trimmed and then without its NULs. The
  payload of the test gives the text of the transfer call, and bytes below \<open>0x80\<close>
  decode to the characters with their codes.
\<close>

theorem C6_decodeAsciiData:
  "(\<not> valid (validateHexData s) \<longrightarrow>
      decodeAsciiData message s =
        \<lparr>success = False, value = [], error = ValidationResult.error (validateHexData s)\<rparr>)
   \<and> (valid (validateHexData s) \<longrightarrow>
        (\<exists>bs. getBytes s = Inr bs \<and> 2 * length bs + 2 = length s
           \<and> (length bs < 32) = (length s < 66)
           \<and> decodeAsciiData message s =
               (if length bs < 32 then
                  \<lparr>success = False, value = [],
                   error = Some (js ''Data too short, minimum 32 bytes required'')\<rparr>
                else
                  (case toUtf8String (drop 32 bs) of
                     Inl e \<Rightarrow>
                       \<lparr>success = False, value = [],
                        error = Some (js ''Failed to decode data: '' @ message e)\<rparr>
                   | Inr decoded \<Rightarrow>
                       \<lparr>success = True, value = removeNul (trim decoded), error = None\<rparr>))))
   \<and> decodeAsciiData message (js asciiPayload) =
       \<lparr>success = True, value = js transferText, error = None\<rparr>
   \<and> decodeAsciiData message
         (js ''0x0000000000000000000000000000000000000000000000000000000000000000ff'') =
       \<lparr>success = False, value = [],
        error = Some (js ''Failed to decode data: '' @ message (INVALID_UTF8 BAD_PREFIX))\<rparr>
   \<and> (list_all (\<lambda>b. b < 0x80) ascii \<longrightarrow> toUtf8String ascii = Inr (map ucast ascii))"
proof (intro conjI impI)
  assume "\<not> valid (validateHexData s)"
  then show "decodeAsciiData message s =
      \<lparr>success = False, value = [], error = ValidationResult.error (validateHexData s)\<rparr>"
    by (rule decodeAsciiData_invalid)
next
  assume v: "valid (validateHexData s)"
  from getBytes_valid [OF v] obtain bs where bs: "getBytes s = Inr bs"
    and len: "2 * length bs + 2 = length s" by blast
  from len have lt: "(length bs < 32) = (length s < 66)" by arith
  show "\<exists>bs. getBytes s = Inr bs \<and> 2 * length bs + 2 = length s
           \<and> (length bs < 32) = (length s < 66)
           \<and> decodeAsciiData message s =
               (if length bs < 32 then
                  \<lparr>success = False, value = [],
                   error = Some (js ''Data too short, minimum 32 bytes required'')\<rparr>
                else
                  (case toUtf8String (drop 32 bs) of
                     Inl e \<Rightarrow>
                       \<lparr>success = False, value = [],
                        error = Some (js ''Failed to decode data: '' @ message e)\<rparr>
                   | Inr decoded \<Rightarrow>
                       \<lparr>success = True, value = removeNul (trim decoded), error = None\<rparr>))"
  proof (intro exI conjI)
    show "getBytes s = Inr bs" by (rule bs)
    show "2 * length bs + 2 = length s" by (rule len)
    show "(length bs < 32) = (length s < 66)" by (rule lt)
    show "decodeAsciiData message s =
               (if length bs < 32 then
                  \<lparr>success = False, value = [],
                   error = Some (js ''Data too short, minimum 32 bytes required'')\<rparr>
                else
                  (case toUtf8String (drop 32 bs) of
                     Inl e \<Rightarrow>
                       \<lparr>success = False, value = [],
                        error = Some (js ''Failed to decode data: '' @ message e)\<rparr>
                   | Inr decoded \<Rightarrow>
                       \<lparr>success = True, value = removeNul (trim decoded), error = None\<rparr>))"
      by (rule decodeAsciiData_valid [OF bs v len])
  qed
next
  show "decodeAsciiData message (js asciiPayload) =
       \<lparr>success = True, value = js transferText, error = None\<rparr>"
    by (rule decodeAsciiData_example)
next
  show "decodeAsciiData message
         (js ''0x0000000000000000000000000000000000000000000000000000000000000000ff'') =
       \<lparr>success = False, value = [],
        error = Some (js ''Failed to decode data: '' @ message (INVALID_UTF8 BAD_PREFIX))\<rparr>"
    by (rule decodeAsciiData_bad_utf8)
next
  assume "list_all (\<lambda>b. b < 0x80) ascii"
  then show "toUtf8String ascii = Inr (map ucast ascii)"
    by (rule toUtf8String_ascii)
qed

text \<open>
  C6 at three inputs: the empty text, a text of two bytes, and 32 zero bytes followed by
  a space, the letter A, a NUL and a line feed.
\<close>

theorem C6_decodeAsciiData_witness:
  "\<not> valid (validateHexData [])
   \<and> decodeAsciiData (\<lambda>e. []) [] =
       \<lparr>success = False, value = [], error = Some (js ''Data is empty'')\<rparr>
   \<and> valid (validateHexData (js ''0x1234''))
   \<and> decodeAsciiData (\<lambda>e. []) (js ''0x1234'') =
       \<lparr>success = False, value = [],
        error = Some (js ''Data too short, minimum 32 bytes required'')\<rparr>
   \<and> valid (validateHexData
         (js ''0x00000000000000000000000000000000000000000000000000000000000000002041000a''))
   \<and> decodeAsciiData (\<lambda>e. [])
         (js ''0x00000000000000000000000000000000000000000000000000000000000000002041000a'') =
       \<lparr>success = True, value = js ''A'', error = None\<rparr>"
proof -
  let ?long = "js ''0x00000000000000000000000000000000000000000000000000000000000000002041000a''"
  have e: "\<not> valid (validateHexData [])"
    by (simp add: validateHexData_def)
  have e': "ValidationResult.error (validateHexData []) = Some (js ''Data is empty'')"
    by (simp add: validateHexData_def)
  have s: "valid (validateHexData (js ''0x1234''))"
    by (simp add: decoder_eval)
  have sb: "getBytes (js ''0x1234'') = Inr [0x12, 0x34]"
    by (simp add: decoder_eval)
  have l: "valid (validateHexData ?long)"
    by (simp add: decoder_eval)
  have lb: "getBytes ?long = Inr (replicate 32 0 @ [0x20, 0x41, 0x00, 0x0a])"
    by (simp add: decoder_eval replicate_num)
  have lt: "removeNul (trim [0x20, 0x41, 0x00, 0x0a]) = js ''A''"
    by (simp add: decoder_eval)
  have r1: "decodeAsciiData (\<lambda>e. []) [] =
      \<lparr>success = False, value = [], error = Some (js ''Data is empty'')\<rparr>"
    using C6_decodeAsciiData [of "[]" "\<lambda>e. []"] e e' by simp
  have r2: "decodeAsciiData (\<lambda>e. []) (js ''0x1234'') =
      \<lparr>success = False, value = [],
       error = Some (js ''Data too short, minimum 32 bytes required'')\<rparr>"
    using C6_decodeAsciiData [of "js ''0x1234''" "\<lambda>e. []"] s sb by auto
  have r3: "decodeAsciiData (\<lambda>e. []) ?long = \<lparr>success = True, value = js ''A'', error = None\<rparr>"
    using C6_decodeAsciiData [of ?long "\<lambda>e. []" "[0x20, 0x41, 0x00, 0x0a]"] l lb lt
    by auto
  from e r1 s r2 l r3 show ?thesis by simp
qed

text \<open>
  C7: every well-formed input whose first four bytes are the selector \<open>0xa9059cbb\<close>,
  followed by the word of an address and the word of an amount, is to be decoded as a
  transfer, with the name, the signature and the two parameters. The input of the test
  is decoded so. The same input with its selector spelled \<open>0xA9059CBB\<close> is well formed
  and spells the same bytes, and it is returned as an unknown selector, without name
  and without parameters: the table of known functions is looked up with the first ten
  characters as they are written, and its keys are in lower case.
\<close>

theorem C7_upper_case_selector:
  "valid (validateHexData (js upperTransferText))
   \<and> getBytes (js upperTransferText) =
       Inr ([0xa9, 0x05, 0x9c, 0xbb] @ left_padded testRecipient @ be_bytes 32 21771955200)
   \<and> getBytes (js transferText) = getBytes (js upperTransferText)
   \<and> decodeFunctionCall message (js transferText) =
       \<lparr>success = True, value = js ''transfer(address,uint256)'', error = None,
        signature = Some (js ''0xa9059cbb''), name = Some (js ''transfer''),
        params = Some [AddressValue testRecipient, UintValue 21771955200]\<rparr>
   \<and> decodeFunctionCall message (js upperTransferText) =
       \<lparr>success = True, value = js ''0xA9059CBB'', error = None,
        signature = Some (js ''0xA9059CBB''), name = None, params = None\<rparr>"
proof -
  have "decodeFunctionCall message (js upperTransferText) =
       \<lparr>success = True, value = js ''0xA9059CBB'', error = None,
        signature = Some (js ''0xA9059CBB''), name = None, params = None\<rparr>"
    by (simp add: upperTransferText_def decoder_eval decodeFunctionCall_def knownFunctions_def
        Let_def)
  moreover have "valid (validateHexData (js upperTransferText))
   \<and> getBytes (js upperTransferText) =
       Inr ([0xa9, 0x05, 0x9c, 0xbb] @ left_padded testRecipient @ be_bytes 32 21771955200)
   \<and> getBytes (js transferText) = getBytes (js upperTransferText)"
    by (simp add: upperTransferText_def transferText_def testRecipient_def left_padded_def
        be_bytes_def upt_rec replicate_num decoder_eval)
  ultimately show ?thesis
    by (simp only: decodeFunctionCall_transferText simp_thms)
qed

text \<open>
  C8: for every valid input of at least ten characters (four bytes) whose first ten
  characters are not a key of the table of known functions, \<open>decodeFunctionCall\<close>
  returns a success with these ten characters as signature and as value, and with no
  name, no parameters and no error.
\<close>

theorem C8_unknown_selector:
  assumes "valid (validateHexData s)" and "10 \<le> length s"
    and "take 10 s \<notin> {js ''0xa9059cbb'', js ''0x23b872dd'', js ''0x095ea7b3'', js ''0x70a08231''}"
  shows "fst ` set knownFunctions =
           {js ''0xa9059cbb'', js ''0x23b872dd'', js ''0x095ea7b3'', js ''0x70a08231''}
         \<and> decodeFunctionCall message s =
             \<lparr>success = True, value = take 10 s, error = None,
              signature = Some (take 10 s), name = None, params = None\<rparr>"
proof -
  have k: "fst ` set knownFunctions =
      {js ''0xa9059cbb'', js ''0x23b872dd'', js ''0x095ea7b3'', js ''0x70a08231''}"
    by (simp add: knownFunctions_def)
  from assms(3) have "map_of knownFunctions (take 10 s) = None"
    by (simp add: knownFunctions_keys)
  from decodeFunctionCall_unknown [OF assms(1,2) this] k show ?thesis by simp
qed

text \<open>C8 at the unknown selector of the tests.\<close>

theorem C8_unknown_selector_witness:
  "valid (validateHexData (js ''0xabcdef120000000000000000000000000000000000000000000000000000000000000001''))
   \<and> decodeFunctionCall (\<lambda>e. [])
        (js ''0xabcdef120000000000000000000000000000000000000000000000000000000000000001'') =
       \<lparr>success = True, value = js ''0xabcdef12'', error = None,
        signature = Some (js ''0xabcdef12''), name = None, params = None\<rparr>"
proof -
  let ?s = "js ''0xabcdef120000000000000000000000000000000000000000000000000000000000000001''"
  have v: "valid (validateHexData ?s)" by (simp add: decoder_eval)
  have l: "10 \<le> length ?s" by (simp add: js_def)
  have n: "take 10 ?s \<notin> {js ''0xa9059cbb'', js ''0x23b872dd'', js ''0x095ea7b3'', js ''0x70a08231''}"
    by (simp add: js_def)
  have t: "take 10 ?s = js ''0xabcdef12''" by (simp add: js_def)
  from C8_unknown_selector [OF v l n, of "\<lambda>e. []"] v t show ?thesis by simp
qed

text \<open>
  C9: every well-formed input whose first four bytes are a selector of the table and
  whose remaining bytes cannot be decoded as the parameters of that function is to be
  returned as a success with the name and the signature, without parameters and with
  an error note. The transfer selector followed by a single byte is returned so when
  it is spelled \<open>0xa9059cbb\<close>. Spelled \<open>0xA9059CBB\<close> it is well formed and spells the
  same bytes, and it is returned as an unknown selector, with no name and no error
  note: the table is looked up with the first ten characters as they are written. And
  for the transfer call whose address word has a high byte that is not zero the
  decoder does not throw: the result is a success with the name and no error note, and
  its parameters hold the decoder's error in place of the address.
\<close>

theorem C9_upper_case_selector:
  "valid (validateHexData (js ''0xA9059CBB00''))
   \<and> getBytes (js ''0xA9059CBB00'') = Inr [0xa9, 0x05, 0x9c, 0xbb, 0x00]
   \<and> getBytes (js ''0xa9059cbb00'') = Inr [0xa9, 0x05, 0x9c, 0xbb, 0x00]
   \<and> abi_decode [address_t, uint256_t] (js ''0x00'') = Inl BUFFER_OVERRUN
   \<and> decodeFunctionCall message (js ''0xa9059cbb00'') =
       \<lparr>success = True, value = js ''transfer'',
        error = Some (js ''Identified function but failed to decode parameters: ''
                      @ message BUFFER_OVERRUN),
        signature = Some (js ''0xa9059cbb''), name = Some (js ''transfer''), params = None\<rparr>
   \<and> decodeFunctionCall message (js ''0xA9059CBB00'') =
       \<lparr>success = True, value = js ''0xA9059CBB'', error = None,
        signature = Some (js ''0xA9059CBB''), name = None, params = None\<rparr>
   \<and> valid (validateHexData (js dirtyTransferText))
   \<and> decodeFunctionCall message (js dirtyTransferText) =
       \<lparr>success = True, value = js ''transfer(address,uint256)'', error = None,
        signature = Some (js ''0xa9059cbb''), name = Some (js ''transfer''),
        params = Some [DeferredError NUMERIC_FAULT, UintValue 21771955200]\<rparr>"
proof -
  have "decodeFunctionCall message (js ''0xA9059CBB00'') =
       \<lparr>success = True, value = js ''0xA9059CBB'', error = None,
        signature = Some (js ''0xA9059CBB''), name = None, params = None\<rparr>"
    by (simp add: decoder_eval decodeFunctionCall_def knownFunctions_def Let_def)
  moreover have "valid (validateHexData (js ''0xA9059CBB00''))
   \<and> getBytes (js ''0xA9059CBB00'') = Inr [0xa9, 0x05, 0x9c, 0xbb, 0x00]
   \<and> getBytes (js ''0xa9059cbb00'') = Inr [0xa9, 0x05, 0x9c, 0xbb, 0x00]
   \<and> abi_decode [address_t, uint256_t] (js ''0x00'') = Inl BUFFER_OVERRUN
   \<and> valid (validateHexData (js dirtyTransferText))"
    by (simp add: dirtyTransferText_def abi_decode_def decoder_eval)
  ultimately show ?thesis
    by (simp only: decodeFunctionCall_short_params decodeFunctionCall_dirtyText simp_thms)
qed

text \<open>
  C10: whenever \<open>decodeAsciiData\<close> or \<open>decodeFunctionCall\<close> returns a result that is
  not a success, the value of the result is the empty text and its error is present
  and not empty.
\<close>

theorem C10_failure_shape:
  "(\<not> success (decodeAsciiData message s) \<longrightarrow>
      value (decodeAsciiData message s) = []
      \<and> (\<exists>e. error (decodeAsciiData message s) = Some e \<and> e \<noteq> []))
   \<and> (\<not> success (decodeFunctionCall message s) \<longrightarrow>
      value (decodeFunctionCall message s) = []
      \<and> (\<exists>e. error (decodeFunctionCall message s) = Some e \<and> e \<noteq> []))"
  using decodeAsciiData_failure [of message s] decodeFunctionCall_failure [of message s]
  by blast

text \<open>C10 at a text of two bytes, too short for both functions.\<close>

theorem C10_failure_shape_witness:
  "\<not> success (decodeAsciiData (\<lambda>e. []) (js ''0x1234''))
   \<and> value (decodeAsciiData (\<lambda>e. []) (js ''0x1234'')) = []
   \<and> (\<exists>e. error (decodeAsciiData (\<lambda>e. []) (js ''0x1234'')) = Some e \<and> e \<noteq> [])
   \<and> \<not> success (decodeFunctionCall (\<lambda>e. []) (js ''0x1234''))
   \<and> value (decodeFunctionCall (\<lambda>e. []) (js ''0x1234'')) = []
   \<and> (\<exists>e. error (decodeFunctionCall (\<lambda>e. []) (js ''0x1234'')) = Some e \<and> e \<noteq> [])"
proof -
  have a: "\<not> success (decodeAsciiData (\<lambda>e. []) (js ''0x1234''))"
    by (simp add: decodeAsciiData_def decoder_eval)
  have f: "\<not> success (decodeFunctionCall (\<lambda>e. []) (js ''0x1234''))"
    by (simp add: decodeFunctionCall_def decoder_eval)
  from C10_failure_shape [of "\<lambda>e. []" "js ''0x1234''"] a f show ?thesis by blast
qed

end
